theory Spec2Isabelle
  imports Complex_Main "HOL-Library.Multiset"
begin

unbundle bit_operations_syntax

section \<open>Data model of the contact solver (src/src/Solver.cpp)\<close>

text \<open>
  The solver works on C++ \<open>float\<close> and \<open>int\<close>. Floats are modelled by \<^typ>\<open>real\<close> with
  exact arithmetic (rounding, infinities and signed zeros are outside the model; the one
  place where the source divides by a possibly zero count, the iteration metric, keeps the
  IEEE outcome as an explicit value, see \<open>float_div\<close>). The \<open>int\<close> counters
  (\<open>tag\<close>, \<open>lastIteration\<close>, \<open>iterationIndex\<close>) are \<^typ>\<open>int\<close>: they stay far below
  the 32-bit range. Array indices and counts are \<^typ>\<open>nat\<close>.
\<close>

record Vector2f =
  x :: real
  y :: real

record Coords2f =
  pos :: Vector2f
  xVector :: Vector2f
  yVector :: Vector2f

text \<open>
  Modelled from the spec: \<open>RigidBody\<close> (its declaration is not among the sources), with
  the fields that Solver.cpp reads or writes.
\<close>

record RigidBody =
  coords :: Coords2f
  velocity :: Vector2f
  angularVelocity :: real
  displacingVelocity :: Vector2f
  displacingAngularVelocity :: real
  invMass :: real
  invInertia :: real
  lastIteration :: int
  lastDisplacementIteration :: int

text \<open>
  Modelled from the spec: \<open>ContactPoint\<close> (declared in a header that is not among the
  sources): the two offsets and the normal that \<open>RefreshJointsSoA\<close> gathers.
\<close>

record ContactPoint =
  delta1 :: Vector2f
  delta2 :: Vector2f
  normal :: Vector2f

text \<open>
  Modelled from the spec: the limiters of a \<open>ContactJoint\<close> (declared in a header that
  is not among the sources). The friction limiter has the fields of \<open>Limiter\<close>; the
  normal limiter has three more.
\<close>

record Limiter =
  normalProjector1 :: Vector2f
  normalProjector2 :: Vector2f
  angularProjector1 :: real
  angularProjector2 :: real
  compMass1_linear :: Vector2f
  compMass2_linear :: Vector2f
  compMass1_angular :: real
  compMass2_angular :: real
  compInvMass :: real
  accumulatedImpulse :: real

record NormalLimiter = Limiter +
  dstVelocity :: real
  dstDisplacingVelocity :: real
  accumulatedDisplacingImpulse :: real

text \<open>
  Modelled from the spec: \<open>ContactJoint\<close>. The AoS path reaches the two bodies through
  the pointers \<open>body1\<close>, \<open>body2\<close>; a pointer into the body array is the index of the
  body, so the model uses \<open>body1Index\<close>, \<open>body2Index\<close> for both paths.
\<close>

record ContactJoint =
  body1Index :: nat
  body2Index :: nat
  collisionIndex :: nat
  normalLimiter :: NormalLimiter
  frictionLimiter :: Limiter

text \<open>
  Modelled from the spec: \<open>AlignedArray\<close> (base/AlignedArray.h is not among the sources).
  Solver.cpp uses its members \<open>data\<close> and \<open>size\<close>, indexing and \<open>resize\<close>. The model
  keeps the storage as a total function, so that what lies beyond \<open>size\<close> (and what a
  growing \<open>resize\<close> exposes) is whatever the storage held before: \<open>resize\<close> only sets
  the size. The member \<open>size\<close> is named \<open>asize\<close> here.
\<close>

record 'a AlignedArray =
  data :: "nat \<Rightarrow> 'a"
  asize :: nat

definition resize :: "nat \<Rightarrow> 'a AlignedArray \<Rightarrow> 'a AlignedArray" where
  "resize n a = a\<lparr>asize := n\<rparr>"

definition put :: "nat \<Rightarrow> 'a \<Rightarrow> 'a AlignedArray \<Rightarrow> 'a AlignedArray" where
  \<comment> \<open>\<open>a[i] = v\<close>\<close>
  "put i v a = a\<lparr>data := (data a)(i := v)\<rparr>"

text \<open>The tables of the SoA path.\<close>

record SolveBody =
  velocity :: Vector2f
  angularVelocity :: real
  lastIteration :: int

record SolveBodyParams =
  invMass :: real
  invInertia :: real
  coords_pos :: Vector2f
  coords_xVector :: Vector2f
  coords_yVector :: Vector2f

text \<open>The members of \<open>Solver\<close> that the grouping and the SoA path use.\<close>

record Solver =
  contactJoints :: "ContactJoint list"
  joint_index :: "nat AlignedArray"
  jointGroup_bodies :: "int AlignedArray"
  jointGroup_joints :: "nat AlignedArray"
  solveBodiesParams :: "SolveBodyParams AlignedArray"
  solveBodiesImpulse :: "SolveBody AlignedArray"
  solveBodiesDisplacement :: "SolveBody AlignedArray"

section \<open>Grouping: \<open>SolvePrepareIndicesSoA\<close>\<close>

text \<open>
  The inner \<open>for\<close> loop of a round (lines 160-180): it scans \<open>jointGroup_joints\<close> from
  \<open>i\<close>, takes every joint whose two bodies are not yet tagged in this round, and
  swap-pops it out of \<open>jointGroup_joints\<close>. It returns \<open>groupSize\<close> and the new state.
\<close>

function gather_group :: "nat \<Rightarrow> int \<Rightarrow> nat \<Rightarrow> nat \<Rightarrow> nat \<Rightarrow> Solver \<Rightarrow> nat \<times> Solver" where
  "gather_group groupSizeTarget tag groupOffset i groupSize s =
    (if i < asize (jointGroup_joints s) \<and> groupSize < groupSizeTarget then
       (let jointIndex = data (jointGroup_joints s) i;
            joint = contactJoints s ! jointIndex
        in if data (jointGroup_bodies s) (body1Index joint) < tag
              \<and> data (jointGroup_bodies s) (body2Index joint) < tag
           then gather_group groupSizeTarget tag groupOffset i (groupSize + 1)
                  (s\<lparr>jointGroup_bodies :=
                        put (body2Index joint) tag
                          (put (body1Index joint) tag (jointGroup_bodies s)),
                      joint_index := put (groupOffset + groupSize) jointIndex (joint_index s),
                      jointGroup_joints :=
                        (put i (data (jointGroup_joints s) (asize (jointGroup_joints s) - 1))
                           (jointGroup_joints s))
                        \<lparr>asize := asize (jointGroup_joints s) - 1\<rparr>\<rparr>)
           else gather_group groupSizeTarget tag groupOffset (i + 1) groupSize s)
     else (groupSize, s))"
  by pat_completeness auto
termination
  by (relation "measure (\<lambda>(N, tag, go, i, gs, s). asize (jointGroup_joints s) - i)")
     (auto simp: put_def)

text \<open>
  The outer \<open>while\<close> loop (lines 153-186). For \<open>groupSizeTarget = 0\<close> the source loop
  never exits, so the loop is a partial function: \<open>None\<close> is "does not return". It
  returns the final \<open>groupOffset\<close> and state.
\<close>

partial_function (option) group_loop :: "nat \<Rightarrow> int \<Rightarrow> nat \<Rightarrow> Solver \<Rightarrow> (nat \<times> Solver) option" where
  "group_loop groupSizeTarget tag groupOffset s =
    (if groupSizeTarget \<le> asize (jointGroup_joints s) then
       (case gather_group groupSizeTarget (tag + 1) groupOffset 0 0 s of
          (groupSize, s') \<Rightarrow>
            if groupSize < groupSizeTarget then Some (groupOffset + groupSize, s')
            else group_loop groupSizeTarget (tag + 1) (groupOffset + groupSize) s')
     else Some (groupOffset, s))"

text \<open>
  \<open>SolvePrepareIndicesSoA\<close> (lines 125-194). The \<open>for\<close> loops that fill an array index by
  index are folds over \<open>[0..<n]\<close>.
\<close>

definition group_init :: "nat \<Rightarrow> Solver \<Rightarrow> Solver" where
  \<comment> \<open>lines 140-147: size the two scratch arrays, clear the tags, list all joints\<close>
  "group_init bodiesCount s =
    (let jointCount = length (contactJoints s);
         s1 = s\<lparr>jointGroup_bodies := resize bodiesCount (jointGroup_bodies s),
                 jointGroup_joints := resize jointCount (jointGroup_joints s)\<rparr>;
         s2 = s1\<lparr>jointGroup_bodies :=
                   fold (\<lambda>i. put i 0) [0..<bodiesCount] (jointGroup_bodies s1)\<rparr>
     in s2\<lparr>jointGroup_joints :=
             fold (\<lambda>i. put i i) [0..<jointCount] (jointGroup_joints s2)\<rparr>)"

definition SolvePrepareIndicesSoA :: "nat \<Rightarrow> nat \<Rightarrow> Solver \<Rightarrow> (nat \<times> Solver) option" where
  "SolvePrepareIndicesSoA bodiesCount groupSizeTarget s =
    (let jointCount = length (contactJoints s) in
     if groupSizeTarget = 1 then
       Some (jointCount,
             s\<lparr>joint_index := fold (\<lambda>i. put i i) [0..<jointCount] (joint_index s)\<rparr>)
     else
       (case group_loop groupSizeTarget 0 0 (group_init bodiesCount s) of
          None \<Rightarrow> None
        | Some (groupOffset, s4) \<Rightarrow>
            Some ((groupOffset div groupSizeTarget) * groupSizeTarget,
                  s4\<lparr>joint_index :=
                       fold (\<lambda>i. put (groupOffset + i) (data (jointGroup_joints s4) i))
                         [0..<asize (jointGroup_joints s4)] (joint_index s4)\<rparr>)))"

text \<open>
  The states at the head of the outer loop that a run of \<open>group_loop\<close> from
  \<open>(0, 0, s0)\<close> passes through: \<open>(tag, groupOffset, state)\<close>.
\<close>

inductive round_start :: "nat \<Rightarrow> Solver \<Rightarrow> int \<times> nat \<times> Solver \<Rightarrow> bool"
  for groupSizeTarget :: nat and s0 :: Solver where
  round_first: "round_start groupSizeTarget s0 (0, 0, s0)"
| round_next:
    "round_start groupSizeTarget s0 (tag, groupOffset, s) \<Longrightarrow>
     groupSizeTarget \<le> asize (jointGroup_joints s) \<Longrightarrow>
     gather_group groupSizeTarget (tag + 1) groupOffset 0 0 s = (groupSize, s') \<Longrightarrow>
     \<not> groupSize < groupSizeTarget \<Longrightarrow>
     round_start groupSizeTarget s0 (tag + 1, groupOffset + groupSize, s')"

text \<open>Vocabulary of the grouping properties.\<close>

definition joint_bodies :: "ContactJoint \<Rightarrow> nat list" where
  "joint_bodies j = [body1Index j, body2Index j]"

definition window_bodies :: "ContactJoint list \<Rightarrow> nat AlignedArray \<Rightarrow> nat \<Rightarrow> nat \<Rightarrow> nat list" where
  \<comment> \<open>the \<open>2 * n\<close> body indices of the joints in slots \<open>start ..< start + n\<close> of \<open>joint_index\<close>\<close>
  "window_bodies cj ji start n =
     concat (map (\<lambda>k. joint_bodies (cj ! data ji k)) [start..<start + n])"

definition bodies_in_range :: "nat \<Rightarrow> ContactJoint list \<Rightarrow> bool" where
  \<comment> \<open>the input contract: a body index outside the body array is undefined behaviour\<close>
  "bodies_in_range bodiesCount cj =
     (\<forall>j \<in> set cj. body1Index j < bodiesCount \<and> body2Index j < bodiesCount)"

definition is_permutation :: "nat AlignedArray \<Rightarrow> nat \<Rightarrow> bool" where
  \<comment> \<open>slots \<open>0 ..< n\<close> hold each of \<open>0 ..< n\<close> exactly once\<close>
  "is_permutation ji n = (mset (map (data ji) [0..<n]) = mset [0..<n])"

text \<open>Invariants of the two grouping loops, used in the proofs below.\<close>

definition live :: "'a AlignedArray \<Rightarrow> 'a list" where
  "live a = map (data a) [0..<asize a]"

definition perm_inv :: "ContactJoint list \<Rightarrow> nat \<Rightarrow> Solver \<Rightarrow> bool" where
  "perm_inv cj filled s \<longleftrightarrow>
     contactJoints s = cj \<and>
     mset (map (data (joint_index s)) [0..<filled]) + mset (live (jointGroup_joints s))
       = mset [0..<length cj]"

definition take_joint :: "int \<Rightarrow> nat \<Rightarrow> nat \<Rightarrow> Solver \<Rightarrow> Solver" where
  "take_joint tag dst i s =
     (let jointIndex = data (jointGroup_joints s) i;
          joint = contactJoints s ! jointIndex
      in s\<lparr>jointGroup_bodies :=
              put (body2Index joint) tag (put (body1Index joint) tag (jointGroup_bodies s)),
            joint_index := put dst jointIndex (joint_index s),
            jointGroup_joints :=
              (put i (data (jointGroup_joints s) (asize (jointGroup_joints s) - 1))
                 (jointGroup_joints s))
              \<lparr>asize := asize (jointGroup_joints s) - 1\<rparr>\<rparr>)"

definition joint_free :: "int \<Rightarrow> nat \<Rightarrow> Solver \<Rightarrow> bool" where
  "joint_free tag i s =
     (let joint = contactJoints s ! data (jointGroup_joints s) i
      in data (jointGroup_bodies s) (body1Index joint) < tag
         \<and> data (jointGroup_bodies s) (body2Index joint) < tag)"

definition no_self_joint :: "ContactJoint list \<Rightarrow> bool" where
  "no_self_joint cj = (\<forall>j \<in> set cj. body1Index j \<noteq> body2Index j)"

definition group_inv :: "ContactJoint list \<Rightarrow> int \<Rightarrow> nat \<Rightarrow> nat \<Rightarrow> Solver \<Rightarrow> bool" where
  "group_inv cj tag go gs s \<longleftrightarrow>
     distinct (window_bodies cj (joint_index s) go gs) \<and>
     (\<forall>b \<in> set (window_bodies cj (joint_index s) go gs). data (jointGroup_bodies s) b = tag)"

definition tags_le :: "nat \<Rightarrow> int \<Rightarrow> Solver \<Rightarrow> bool" where
  "tags_le bodiesCount tag s = (\<forall>b < bodiesCount. data (jointGroup_bodies s) b \<le> tag)"

definition windows_ok :: "ContactJoint list \<Rightarrow> nat \<Rightarrow> nat \<Rightarrow> nat AlignedArray \<Rightarrow> bool" where
  "windows_ok cj N go ji = (\<forall>w. (w + 1) * N \<le> go \<longrightarrow> distinct (window_bodies cj ji (w * N) N))"

definition outer_inv :: "ContactJoint list \<Rightarrow> nat \<Rightarrow> nat \<Rightarrow> Solver \<Rightarrow> bool" where
  "outer_inv cj N go s \<longleftrightarrow>
     perm_inv cj go s \<and> N dvd go \<and> (no_self_joint cj \<longrightarrow> windows_ok cj N go (joint_index s))"

section \<open>The packed joint table\<close>

text \<open>
  \<open>ContactJointPacked<N>\<close> holds every field as an array of \<open>N\<close> lanes. The model keeps
  the same fields under the same names, one record \<open>PackedLane\<close> per lane, and a packed
  block is the function from the lane number to its lane:
  \<open>jointP.normalLimiter_compInvMass[iP]\<close> is \<open>normalLimiter_compInvMass (jointP iP)\<close>.
  The index fields are \<open>p_body1Index\<close>, \<open>p_body2Index\<close> here (the names
  \<open>body1Index\<close>, \<open>body2Index\<close> are taken by \<open>ContactJoint\<close>).
\<close>

record PackedLane =
  p_body1Index :: nat
  p_body2Index :: nat
  contactPointIndex :: nat
  normalLimiter_normalProjector1X :: real
  normalLimiter_normalProjector1Y :: real
  normalLimiter_normalProjector2X :: real
  normalLimiter_normalProjector2Y :: real
  normalLimiter_angularProjector1 :: real
  normalLimiter_angularProjector2 :: real
  normalLimiter_compMass1_linearX :: real
  normalLimiter_compMass1_linearY :: real
  normalLimiter_compMass2_linearX :: real
  normalLimiter_compMass2_linearY :: real
  normalLimiter_compMass1_angular :: real
  normalLimiter_compMass2_angular :: real
  normalLimiter_compInvMass :: real
  normalLimiter_accumulatedImpulse :: real
  normalLimiter_dstVelocity :: real
  normalLimiter_dstDisplacingVelocity :: real
  normalLimiter_accumulatedDisplacingImpulse :: real
  frictionLimiter_normalProjector1X :: real
  frictionLimiter_normalProjector1Y :: real
  frictionLimiter_normalProjector2X :: real
  frictionLimiter_normalProjector2Y :: real
  frictionLimiter_angularProjector1 :: real
  frictionLimiter_angularProjector2 :: real
  frictionLimiter_compMass1_linearX :: real
  frictionLimiter_compMass1_linearY :: real
  frictionLimiter_compMass2_linearX :: real
  frictionLimiter_compMass2_linearY :: real
  frictionLimiter_compMass1_angular :: real
  frictionLimiter_compMass2_angular :: real
  frictionLimiter_compInvMass :: real
  frictionLimiter_accumulatedImpulse :: real

type_synonym ContactJointPacked = "nat \<Rightarrow> PackedLane"

section \<open>Lane operations\<close>

text \<open>
  Modelled from the spec: the lane helpers of base/SIMD.h, which is not among the sources
  (spec section 4.A), on one lane: \<open>select(a, b, mask)\<close> picks \<open>b\<close> where the mask
  holds (as \<open>RefreshLimiter\<close> uses it: \<open>1 / compMass\<close> where \<open>abs(compMass) > 0\<close>), and
  \<open>flipsign(a, sign_from)\<close> returns \<open>a\<close> with the sign of \<open>sign_from\<close>. \<open>max\<close> and
  \<open>abs\<close> are those of \<^typ>\<open>real\<close>. A vector of \<open>VN\<close> lanes is a function of the lane
  number, and a vector operation is the lane operation in every lane.
\<close>

definition select :: "'a \<Rightarrow> 'a \<Rightarrow> bool \<Rightarrow> 'a" where
  "select a b msk = (if msk then b else a)"

definition flipsign :: "real \<Rightarrow> real \<Rightarrow> real" where
  "flipsign a sign_from = (if sign_from < 0 then - \<bar>a\<bar> else \<bar>a\<bar>)"

text \<open>
  The loop \<open>for (jointIndex = jointBegin; jointIndex < jointEnd; jointIndex += VN)\<close> of the
  four SoA passes. \<open>VN\<close> is a template constant (1, 4 or 8), never 0.
\<close>

function for_joints :: "nat \<Rightarrow> (nat \<Rightarrow> 'a \<Rightarrow> 'a) \<Rightarrow> nat \<Rightarrow> nat \<Rightarrow> 'a \<Rightarrow> 'a" where
  "for_joints VN body jointIndex jointEnd st =
     (if jointIndex < jointEnd \<and> 0 < VN
      then for_joints VN body (jointIndex + VN) jointEnd (body jointIndex st)
      else st)"
  by pat_completeness auto
termination
  by (relation "measure (\<lambda>(VN, body, jointIndex, jointEnd, st). jointEnd - jointIndex)") auto

definition block_lanes :: "nat \<Rightarrow> nat \<Rightarrow> nat \<Rightarrow> nat list" where
  \<comment> \<open>\<open>iP = (VN == N) ? 0 : i & (N - 1)\<close>; the step works on lanes \<open>iP ..< iP + VN\<close>\<close>
  "block_lanes VN N i = (let iP = (if VN = N then 0 else i AND (N - 1)) in [iP..<iP + VN])"

section \<open>Prepare: \<open>SolvePrepareSoA\<close>\<close>

definition copy_body :: "(nat \<Rightarrow> RigidBody) \<Rightarrow> nat \<Rightarrow> Solver \<Rightarrow> Solver" where
  \<comment> \<open>the body of the CopyBodies loop, lines 240-252\<close>
  "copy_body bodies i s =
     s\<lparr>solveBodiesParams :=
         put i ((data (solveBodiesParams s) i)
                  \<lparr>invMass := RigidBody.invMass (bodies i),
                   invInertia := RigidBody.invInertia (bodies i),
                   coords_pos := pos (coords (bodies i)),
                   coords_xVector := xVector (coords (bodies i)),
                   coords_yVector := yVector (coords (bodies i))\<rparr>)
           (solveBodiesParams s),
       solveBodiesImpulse :=
         put i ((data (solveBodiesImpulse s) i)
                  \<lparr>velocity := RigidBody.velocity (bodies i),
                   angularVelocity := RigidBody.angularVelocity (bodies i),
                   lastIteration := - 1\<rparr>)
           (solveBodiesImpulse s),
       solveBodiesDisplacement :=
         put i ((data (solveBodiesDisplacement s) i)
                  \<lparr>velocity := displacingVelocity (bodies i),
                   angularVelocity := displacingAngularVelocity (bodies i),
                   lastIteration := - 1\<rparr>)
           (solveBodiesDisplacement s)\<rparr>"

definition pack_joint :: "ContactJoint \<Rightarrow> PackedLane \<Rightarrow> PackedLane" where
  \<comment> \<open>lines 274-312: the assignments \<open>jointP.f[iP] = joint.f\<close>\<close>
  "pack_joint joint lane =
     lane\<lparr>p_body1Index := body1Index joint,
          p_body2Index := body2Index joint,
          contactPointIndex := collisionIndex joint,
          normalLimiter_normalProjector1X := x (normalProjector1 (normalLimiter joint)),
          normalLimiter_normalProjector1Y := y (normalProjector1 (normalLimiter joint)),
          normalLimiter_normalProjector2X := x (normalProjector2 (normalLimiter joint)),
          normalLimiter_normalProjector2Y := y (normalProjector2 (normalLimiter joint)),
          normalLimiter_angularProjector1 := angularProjector1 (normalLimiter joint),
          normalLimiter_angularProjector2 := angularProjector2 (normalLimiter joint),
          normalLimiter_compMass1_linearX := x (compMass1_linear (normalLimiter joint)),
          normalLimiter_compMass1_linearY := y (compMass1_linear (normalLimiter joint)),
          normalLimiter_compMass2_linearX := x (compMass2_linear (normalLimiter joint)),
          normalLimiter_compMass2_linearY := y (compMass2_linear (normalLimiter joint)),
          normalLimiter_compMass1_angular := compMass1_angular (normalLimiter joint),
          normalLimiter_compMass2_angular := compMass2_angular (normalLimiter joint),
          normalLimiter_compInvMass := compInvMass (normalLimiter joint),
          normalLimiter_accumulatedImpulse := accumulatedImpulse (normalLimiter joint),
          normalLimiter_dstVelocity := dstVelocity (normalLimiter joint),
          normalLimiter_dstDisplacingVelocity := dstDisplacingVelocity (normalLimiter joint),
          normalLimiter_accumulatedDisplacingImpulse :=
            accumulatedDisplacingImpulse (normalLimiter joint),
          frictionLimiter_normalProjector1X := x (normalProjector1 (frictionLimiter joint)),
          frictionLimiter_normalProjector1Y := y (normalProjector1 (frictionLimiter joint)),
          frictionLimiter_normalProjector2X := x (normalProjector2 (frictionLimiter joint)),
          frictionLimiter_normalProjector2Y := y (normalProjector2 (frictionLimiter joint)),
          frictionLimiter_angularProjector1 := angularProjector1 (frictionLimiter joint),
          frictionLimiter_angularProjector2 := angularProjector2 (frictionLimiter joint),
          frictionLimiter_compMass1_linearX := x (compMass1_linear (frictionLimiter joint)),
          frictionLimiter_compMass1_linearY := y (compMass1_linear (frictionLimiter joint)),
          frictionLimiter_compMass2_linearX := x (compMass2_linear (frictionLimiter joint)),
          frictionLimiter_compMass2_linearY := y (compMass2_linear (frictionLimiter joint)),
          frictionLimiter_compMass1_angular := compMass1_angular (frictionLimiter joint),
          frictionLimiter_compMass2_angular := compMass2_angular (frictionLimiter joint),
          frictionLimiter_compInvMass := compInvMass (frictionLimiter joint),
          frictionLimiter_accumulatedImpulse := accumulatedImpulse (frictionLimiter joint)\<rparr>"

definition copy_joint ::
  "nat \<Rightarrow> Solver \<Rightarrow> nat \<Rightarrow> ContactJointPacked AlignedArray \<Rightarrow> ContactJointPacked AlignedArray" where
  \<comment> \<open>the body of the CopyJoints loop, lines 269-312\<close>
  "copy_joint N s i joint_packed =
     (let joint = contactJoints s ! data (joint_index s) i;
          jointP = data joint_packed (i div N);
          iP = i AND (N - 1)
      in put (i div N) (jointP(iP := pack_joint joint (jointP iP))) joint_packed)"

definition SolvePrepareSoA ::
  "nat \<Rightarrow> ContactJointPacked AlignedArray \<Rightarrow> (nat \<Rightarrow> RigidBody) \<Rightarrow> nat \<Rightarrow> nat \<Rightarrow> Solver
     \<Rightarrow> (nat \<times> Solver \<times> ContactJointPacked AlignedArray) option" where
  "SolvePrepareSoA N joint_packed bodies bodiesCount groupSizeTarget s =
     (let s1 = s\<lparr>solveBodiesParams := resize bodiesCount (solveBodiesParams s),
                  solveBodiesImpulse := resize bodiesCount (solveBodiesImpulse s),
                  solveBodiesDisplacement := resize bodiesCount (solveBodiesDisplacement s)\<rparr>;
          s2 = fold (copy_body bodies) [0..<bodiesCount] s1;
          jointCount = length (contactJoints s2);
          s3 = s2\<lparr>joint_index := resize jointCount (joint_index s2)\<rparr>;
          joint_packed1 = resize jointCount joint_packed
      in case SolvePrepareIndicesSoA bodiesCount groupSizeTarget s3 of
           None \<Rightarrow> None
         | Some (groupOffset, s4) \<Rightarrow>
             Some (groupOffset, s4, fold (copy_joint N s4) [0..<jointCount] joint_packed1))"

section \<open>Refresh: \<open>RefreshLimiter\<close>, \<open>RefreshJointsSoA\<close>\<close>

text \<open>The thirteen output parameters of \<open>RefreshLimiter\<close>, in one lane.\<close>

record LimiterValues =
  normalProjector1X :: real
  normalProjector1Y :: real
  normalProjector2X :: real
  normalProjector2Y :: real
  angularProjector1V :: real
  angularProjector2V :: real
  compMass1_linearX :: real
  compMass1_linearY :: real
  compMass2_linearX :: real
  compMass2_linearY :: real
  compMass1_angularV :: real
  compMass2_angularV :: real
  compInvMassV :: real

definition compMass_of ::
  "real \<Rightarrow> real \<Rightarrow> real \<Rightarrow> real \<Rightarrow> real \<Rightarrow> real \<Rightarrow> real \<Rightarrow> real \<Rightarrow> real \<Rightarrow> real \<Rightarrow> real \<Rightarrow> real \<Rightarrow> real" where
  \<comment> \<open>lines 545-562: the composite mass \<open>compMass\<close> (\<open>k\<close> in the spec)\<close>
  "compMass_of n1X n1Y n2X n2Y w1X w1Y w2X w2Y body1_invMass body1_invInertia body2_invMass body2_invInertia =
     (let normalProjector1X = n1X; normalProjector1Y = n1Y;
          normalProjector2X = n2X; normalProjector2Y = n2Y;
          angularProjector1 = n1X * w1Y - n1Y * w1X;
          angularProjector2 = n2X * w2Y - n2Y * w2X;
          compMass1_linearX = normalProjector1X * body1_invMass;
          compMass1_linearY = normalProjector1Y * body1_invMass;
          compMass1_angular = angularProjector1 * body1_invInertia;
          compMass2_linearX = normalProjector2X * body2_invMass;
          compMass2_linearY = normalProjector2Y * body2_invMass;
          compMass2_angular = angularProjector2 * body2_invInertia;
          compMass1 = normalProjector1X * compMass1_linearX + normalProjector1Y * compMass1_linearY
                        + angularProjector1 * compMass1_angular;
          compMass2 = normalProjector2X * compMass2_linearX + normalProjector2Y * compMass2_linearY
                        + angularProjector2 * compMass2_angular
      in compMass1 + compMass2)"

definition RefreshLimiter ::
  "real \<Rightarrow> real \<Rightarrow> real \<Rightarrow> real \<Rightarrow> real \<Rightarrow> real \<Rightarrow> real \<Rightarrow> real \<Rightarrow> real \<Rightarrow> real \<Rightarrow> real \<Rightarrow> real \<Rightarrow> LimiterValues" where
  "RefreshLimiter n1X n1Y n2X n2Y w1X w1Y w2X w2Y body1_invMass body1_invInertia body2_invMass body2_invInertia =
     (let normalProjector1X = n1X; normalProjector1Y = n1Y;
          normalProjector2X = n2X; normalProjector2Y = n2Y;
          angularProjector1 = n1X * w1Y - n1Y * w1X;
          angularProjector2 = n2X * w2Y - n2Y * w2X;
          compMass1_linearX = normalProjector1X * body1_invMass;
          compMass1_linearY = normalProjector1Y * body1_invMass;
          compMass1_angular = angularProjector1 * body1_invInertia;
          compMass2_linearX = normalProjector2X * body2_invMass;
          compMass2_linearY = normalProjector2Y * body2_invMass;
          compMass2_angular = angularProjector2 * body2_invInertia;
          compMass1 = normalProjector1X * compMass1_linearX + normalProjector1Y * compMass1_linearY
                        + angularProjector1 * compMass1_angular;
          compMass2 = normalProjector2X * compMass2_linearX + normalProjector2Y * compMass2_linearY
                        + angularProjector2 * compMass2_angular;
          compMass = compMass1 + compMass2;
          compInvMass = select 0 (1 / compMass) (\<bar>compMass\<bar> > 0)
      in \<lparr>normalProjector1X = normalProjector1X, normalProjector1Y = normalProjector1Y,
          normalProjector2X = normalProjector2X, normalProjector2Y = normalProjector2Y,
          angularProjector1V = angularProjector1, angularProjector2V = angularProjector2,
          compMass1_linearX = compMass1_linearX, compMass1_linearY = compMass1_linearY,
          compMass2_linearX = compMass2_linearX, compMass2_linearY = compMass2_linearY,
          compMass1_angularV = compMass1_angular, compMass2_angularV = compMass2_angular,
          compInvMassV = compInvMass\<rparr>)"

text \<open>
  One lane of the loop body of \<open>RefreshJointsSoA\<close> (lines 580-739): from the gathered
  records of the two bodies and of the contact point to the stored lane. The fields that
  the source does not store keep their value.
\<close>

definition refresh_lane ::
  "SolveBody \<Rightarrow> SolveBody \<Rightarrow> SolveBodyParams \<Rightarrow> SolveBodyParams \<Rightarrow> ContactPoint \<Rightarrow> PackedLane \<Rightarrow> PackedLane" where
  "refresh_lane body1 body2 params1 params2 collision lane =
     (let body1_velocityX = x (velocity body1); body1_velocityY = y (velocity body1);
          body1_angularVelocity = angularVelocity body1;
          body2_velocityX = x (velocity body2); body2_velocityY = y (velocity body2);
          body2_angularVelocity = angularVelocity body2;
          body1_invMass = invMass params1; body1_invInertia = invInertia params1;
          body1_coords_posX = x (coords_pos params1); body1_coords_posY = y (coords_pos params1);
          body2_invMass = invMass params2; body2_invInertia = invInertia params2;
          body2_coords_posX = x (coords_pos params2); body2_coords_posY = y (coords_pos params2);
          collision_delta1X = x (delta1 collision); collision_delta1Y = y (delta1 collision);
          collision_delta2X = x (delta2 collision); collision_delta2Y = y (delta2 collision);
          collision_normalX = x (normal collision); collision_normalY = y (normal collision);
          point1X = collision_delta1X + body1_coords_posX;
          point1Y = collision_delta1Y + body1_coords_posY;
          point2X = collision_delta2X + body2_coords_posX;
          point2Y = collision_delta2Y + body2_coords_posY;
          w1X = collision_delta1X;
          w1Y = collision_delta1Y;
          w2X = point1X - body2_coords_posX;
          w2Y = point1Y - body2_coords_posY;
          n = RefreshLimiter collision_normalX collision_normalY (- collision_normalX) (- collision_normalY)
                w1X w1Y w2X w2Y body1_invMass body1_invInertia body2_invMass body2_invInertia;
          bounce = 0;
          deltaVelocity = 1;
          maxPenetrationVelocity = 0.1;
          deltaDepth = 1;
          errorReduction = 0.1;
          pointVelocity_body1X = (body1_coords_posY - point1Y) * body1_angularVelocity + body1_velocityX;
          pointVelocity_body1Y = (point1X - body1_coords_posX) * body1_angularVelocity + body1_velocityY;
          pointVelocity_body2X = (body2_coords_posY - point2Y) * body2_angularVelocity + body2_velocityX;
          pointVelocity_body2Y = (point2X - body2_coords_posX) * body2_angularVelocity + body2_velocityY;
          relativeVelocityX = pointVelocity_body1X - pointVelocity_body2X;
          relativeVelocityY = pointVelocity_body1Y - pointVelocity_body2Y;
          dv = - bounce * (relativeVelocityX * collision_normalX + relativeVelocityY * collision_normalY);
          depth = (point2X - point1X) * collision_normalX + (point2Y - point1Y) * collision_normalY;
          dstVelocity = max (dv - deltaVelocity) 0;
          j_normalLimiter_dstVelocity =
            select dstVelocity (dstVelocity - maxPenetrationVelocity) (depth < deltaDepth);
          j_normalLimiter_dstDisplacingVelocity = errorReduction * max 0 (depth - 2 * deltaDepth);
          j_normalLimiter_accumulatedDisplacingImpulse = 0;
          tangentX = - collision_normalY;
          tangentY = collision_normalX;
          f = RefreshLimiter tangentX tangentY (- tangentX) (- tangentY)
                w1X w1Y w2X w2Y body1_invMass body1_invInertia body2_invMass body2_invInertia
      in lane\<lparr>normalLimiter_normalProjector1X := normalProjector1X n,
               normalLimiter_normalProjector1Y := normalProjector1Y n,
               normalLimiter_normalProjector2X := normalProjector2X n,
               normalLimiter_normalProjector2Y := normalProjector2Y n,
               normalLimiter_angularProjector1 := angularProjector1V n,
               normalLimiter_angularProjector2 := angularProjector2V n,
               normalLimiter_compMass1_linearX := compMass1_linearX n,
               normalLimiter_compMass1_linearY := compMass1_linearY n,
               normalLimiter_compMass2_linearX := compMass2_linearX n,
               normalLimiter_compMass2_linearY := compMass2_linearY n,
               normalLimiter_compMass1_angular := compMass1_angularV n,
               normalLimiter_compMass2_angular := compMass2_angularV n,
               normalLimiter_compInvMass := compInvMassV n,
               normalLimiter_dstVelocity := j_normalLimiter_dstVelocity,
               normalLimiter_dstDisplacingVelocity := j_normalLimiter_dstDisplacingVelocity,
               normalLimiter_accumulatedDisplacingImpulse := j_normalLimiter_accumulatedDisplacingImpulse,
               frictionLimiter_normalProjector1X := normalProjector1X f,
               frictionLimiter_normalProjector1Y := normalProjector1Y f,
               frictionLimiter_normalProjector2X := normalProjector2X f,
               frictionLimiter_normalProjector2Y := normalProjector2Y f,
               frictionLimiter_angularProjector1 := angularProjector1V f,
               frictionLimiter_angularProjector2 := angularProjector2V f,
               frictionLimiter_compMass1_linearX := compMass1_linearX f,
               frictionLimiter_compMass1_linearY := compMass1_linearY f,
               frictionLimiter_compMass2_linearX := compMass2_linearX f,
               frictionLimiter_compMass2_linearY := compMass2_linearY f,
               frictionLimiter_compMass1_angular := compMass1_angularV f,
               frictionLimiter_compMass2_angular := compMass2_angularV f,
               frictionLimiter_compInvMass := compInvMassV f\<rparr>)"

type_synonym soa_state = "Solver \<times> ContactJointPacked AlignedArray"

definition RefreshJointsSoA_step ::
  "nat \<Rightarrow> nat \<Rightarrow> (nat \<Rightarrow> ContactPoint) \<Rightarrow> nat \<Rightarrow> soa_state \<Rightarrow> soa_state" where
  \<comment> \<open>one round of the loop: the lanes \<open>block_lanes VN N i\<close> of block \<open>i / N\<close>\<close>
  "RefreshJointsSoA_step VN N contactPoints i st =
     (case st of (s, joint_packed) \<Rightarrow>
        let jointP = data joint_packed (i div N);
            lanes = block_lanes VN N i;
            jointP' = (\<lambda>l. if l \<in> set lanes
                          then refresh_lane
                                 (data (solveBodiesImpulse s) (p_body1Index (jointP l)))
                                 (data (solveBodiesImpulse s) (p_body2Index (jointP l)))
                                 (data (solveBodiesParams s) (p_body1Index (jointP l)))
                                 (data (solveBodiesParams s) (p_body2Index (jointP l)))
                                 (contactPoints (contactPointIndex (jointP l)))
                                 (jointP l)
                          else jointP l)
        in (s, put (i div N) jointP' joint_packed))"

definition RefreshJointsSoA ::
  "nat \<Rightarrow> nat \<Rightarrow> nat \<Rightarrow> nat \<Rightarrow> (nat \<Rightarrow> ContactPoint) \<Rightarrow> soa_state \<Rightarrow> soa_state" where
  "RefreshJointsSoA VN N jointBegin jointEnd contactPoints st =
     for_joints VN (RefreshJointsSoA_step VN N contactPoints) jointBegin jointEnd st"

text \<open>
  The two quantities that the normal limiter's targets are computed from, as the loop body
  of \<open>RefreshJointsSoA\<close> computes them: the penetration depth \<open>depth\<close> (lines 639-642, 678)
  and the bounce velocity \<open>dv\<close> (lines 664, 668-677).
\<close>

definition contact_depth :: "SolveBodyParams \<Rightarrow> SolveBodyParams \<Rightarrow> ContactPoint \<Rightarrow> real" where
  "contact_depth params1 params2 collision =
     (let point1X = x (delta1 collision) + x (coords_pos params1);
          point1Y = y (delta1 collision) + y (coords_pos params1);
          point2X = x (delta2 collision) + x (coords_pos params2);
          point2Y = y (delta2 collision) + y (coords_pos params2)
      in (point2X - point1X) * x (normal collision) + (point2Y - point1Y) * y (normal collision))"

definition contact_dv ::
  "SolveBody \<Rightarrow> SolveBody \<Rightarrow> SolveBodyParams \<Rightarrow> SolveBodyParams \<Rightarrow> ContactPoint \<Rightarrow> real" where
  "contact_dv body1 body2 params1 params2 collision =
     (let point1X = x (delta1 collision) + x (coords_pos params1);
          point1Y = y (delta1 collision) + y (coords_pos params1);
          point2X = x (delta2 collision) + x (coords_pos params2);
          point2Y = y (delta2 collision) + y (coords_pos params2);
          bounce = 0;
          pointVelocity_body1X = (y (coords_pos params1) - point1Y) * angularVelocity body1 + x (velocity body1);
          pointVelocity_body1Y = (point1X - x (coords_pos params1)) * angularVelocity body1 + y (velocity body1);
          pointVelocity_body2X = (y (coords_pos params2) - point2Y) * angularVelocity body2 + x (velocity body2);
          pointVelocity_body2Y = (point2X - x (coords_pos params2)) * angularVelocity body2 + y (velocity body2);
          relativeVelocityX = pointVelocity_body1X - pointVelocity_body2X;
          relativeVelocityY = pointVelocity_body1Y - pointVelocity_body2Y
      in - bounce * (relativeVelocityX * x (normal collision) + relativeVelocityY * y (normal collision)))"

section \<open>Pre-step, impulse and displacement passes (SoA)\<close>

text \<open>
  \<open>loadindexed4\<close> gathers one \<open>SolveBody\<close> per lane from the table; \<open>storeindexed4\<close>
  scatters the lanes back in lane order (Modelled from the spec: base/SIMD.h is not among
  the sources). The integer \<open>lastIteration\<close> travels through the float lane by a bitcast
  both ways, which is the identity on its value.
\<close>

definition storeindexed4 :: "(nat \<times> SolveBody) list \<Rightarrow> SolveBody AlignedArray \<Rightarrow> SolveBody AlignedArray" where
  "storeindexed4 lanes table = fold (\<lambda>(index, body). put index body) lanes table"

definition prestep_lane :: "SolveBody \<Rightarrow> SolveBody \<Rightarrow> PackedLane \<Rightarrow> SolveBody \<times> SolveBody" where
  \<comment> \<open>lines 786-800\<close>
  "prestep_lane body1 body2 j =
     (let body1_velocityX = x (velocity body1) + normalLimiter_compMass1_linearX j * normalLimiter_accumulatedImpulse j;
          body1_velocityY = y (velocity body1) + normalLimiter_compMass1_linearY j * normalLimiter_accumulatedImpulse j;
          body1_angularVelocity = angularVelocity body1 + normalLimiter_compMass1_angular j * normalLimiter_accumulatedImpulse j;
          body2_velocityX = x (velocity body2) + normalLimiter_compMass2_linearX j * normalLimiter_accumulatedImpulse j;
          body2_velocityY = y (velocity body2) + normalLimiter_compMass2_linearY j * normalLimiter_accumulatedImpulse j;
          body2_angularVelocity = angularVelocity body2 + normalLimiter_compMass2_angular j * normalLimiter_accumulatedImpulse j;
          body1_velocityX = body1_velocityX + frictionLimiter_compMass1_linearX j * frictionLimiter_accumulatedImpulse j;
          body1_velocityY = body1_velocityY + frictionLimiter_compMass1_linearY j * frictionLimiter_accumulatedImpulse j;
          body1_angularVelocity = body1_angularVelocity + frictionLimiter_compMass1_angular j * frictionLimiter_accumulatedImpulse j;
          body2_velocityX = body2_velocityX + frictionLimiter_compMass2_linearX j * frictionLimiter_accumulatedImpulse j;
          body2_velocityY = body2_velocityY + frictionLimiter_compMass2_linearY j * frictionLimiter_accumulatedImpulse j;
          body2_angularVelocity = body2_angularVelocity + frictionLimiter_compMass2_angular j * frictionLimiter_accumulatedImpulse j
      in (\<lparr>velocity = \<lparr>x = body1_velocityX, y = body1_velocityY\<rparr>,
           angularVelocity = body1_angularVelocity, lastIteration = lastIteration body1\<rparr>,
          \<lparr>velocity = \<lparr>x = body2_velocityX, y = body2_velocityY\<rparr>,
           angularVelocity = body2_angularVelocity, lastIteration = lastIteration body2\<rparr>))"

definition PreStepJointsSoA_step :: "nat \<Rightarrow> nat \<Rightarrow> nat \<Rightarrow> soa_state \<Rightarrow> soa_state" where
  "PreStepJointsSoA_step VN N i st =
     (case st of (s, joint_packed) \<Rightarrow>
        let jointP = data joint_packed (i div N);
            lanes = block_lanes VN N i;
            r = (\<lambda>l. prestep_lane (data (solveBodiesImpulse s) (p_body1Index (jointP l)))
                                  (data (solveBodiesImpulse s) (p_body2Index (jointP l))) (jointP l))
        in (s\<lparr>solveBodiesImpulse :=
                storeindexed4 (map (\<lambda>l. (p_body2Index (jointP l), snd (r l))) lanes)
                  (storeindexed4 (map (\<lambda>l. (p_body1Index (jointP l), fst (r l))) lanes)
                     (solveBodiesImpulse s))\<rparr>,
            joint_packed))"

definition PreStepJointsSoA :: "nat \<Rightarrow> nat \<Rightarrow> nat \<Rightarrow> nat \<Rightarrow> soa_state \<Rightarrow> soa_state" where
  "PreStepJointsSoA VN N jointBegin jointEnd st =
     for_joints VN (PreStepJointsSoA_step VN N) jointBegin jointEnd st"

definition kProductiveImpulse :: real where
  "kProductiveImpulse = 1 / 10000"

definition kFrictionCoefficient :: real where
  "kFrictionCoefficient = 3 / 10"

text \<open>What one lane of an impulse or displacement step produces.\<close>

record LaneResult =
  body1_out :: SolveBody
  body2_out :: SolveBody
  lane_out :: PackedLane
  productive_out :: bool

definition normalDeltaImpulse_of :: "SolveBody \<Rightarrow> SolveBody \<Rightarrow> PackedLane \<Rightarrow> real" where
  \<comment> \<open>lines 885-897: the clamped normal impulse of a lane\<close>
  "normalDeltaImpulse_of body1 body2 j =
     (let normaldV = normalLimiter_dstVelocity j;
          normaldV = normaldV - normalLimiter_normalProjector1X j * x (velocity body1);
          normaldV = normaldV - normalLimiter_normalProjector1Y j * y (velocity body1);
          normaldV = normaldV - normalLimiter_angularProjector1 j * angularVelocity body1;
          normaldV = normaldV - normalLimiter_normalProjector2X j * x (velocity body2);
          normaldV = normaldV - normalLimiter_normalProjector2Y j * y (velocity body2);
          normaldV = normaldV - normalLimiter_angularProjector2 j * angularVelocity body2;
          normalDeltaImpulse = normaldV * normalLimiter_compInvMass j
      in max normalDeltaImpulse (- normalLimiter_accumulatedImpulse j))"

definition impulse_lane :: "int \<Rightarrow> SolveBody \<Rightarrow> SolveBody \<Rightarrow> PackedLane \<Rightarrow> LaneResult" where
  \<comment> \<open>lines 885-956 in one lane\<close>
  "impulse_lane iterationIndex body1 body2 j =
     (let normalDeltaImpulse = normalDeltaImpulse_of body1 body2 j;
          body1_velocityX = x (velocity body1) + normalLimiter_compMass1_linearX j * normalDeltaImpulse;
          body1_velocityY = y (velocity body1) + normalLimiter_compMass1_linearY j * normalDeltaImpulse;
          body1_angularVelocity = angularVelocity body1 + normalLimiter_compMass1_angular j * normalDeltaImpulse;
          body2_velocityX = x (velocity body2) + normalLimiter_compMass2_linearX j * normalDeltaImpulse;
          body2_velocityY = y (velocity body2) + normalLimiter_compMass2_linearY j * normalDeltaImpulse;
          body2_angularVelocity = angularVelocity body2 + normalLimiter_compMass2_angular j * normalDeltaImpulse;
          j_normalLimiter_accumulatedImpulse = normalLimiter_accumulatedImpulse j + normalDeltaImpulse;
          frictiondV = 0;
          frictiondV = frictiondV - frictionLimiter_normalProjector1X j * body1_velocityX;
          frictiondV = frictiondV - frictionLimiter_normalProjector1Y j * body1_velocityY;
          frictiondV = frictiondV - frictionLimiter_angularProjector1 j * body1_angularVelocity;
          frictiondV = frictiondV - frictionLimiter_normalProjector2X j * body2_velocityX;
          frictiondV = frictiondV - frictionLimiter_normalProjector2Y j * body2_velocityY;
          frictiondV = frictiondV - frictionLimiter_angularProjector2 j * body2_angularVelocity;
          frictionDeltaImpulse = frictiondV * frictionLimiter_compInvMass j;
          reactionForce = j_normalLimiter_accumulatedImpulse;
          accumulatedImpulse = frictionLimiter_accumulatedImpulse j;
          frictionForce = accumulatedImpulse + frictionDeltaImpulse;
          reactionForceScaled = reactionForce * kFrictionCoefficient;
          frictionForceAbs = \<bar>frictionForce\<bar>;
          reactionForceScaledSigned = flipsign reactionForceScaled frictionForce;
          frictionDeltaImpulseAdjusted = reactionForceScaledSigned - accumulatedImpulse;
          frictionDeltaImpulse =
            select frictionDeltaImpulse frictionDeltaImpulseAdjusted (frictionForceAbs > reactionForceScaled);
          j_frictionLimiter_accumulatedImpulse = frictionLimiter_accumulatedImpulse j + frictionDeltaImpulse;
          body1_velocityX = body1_velocityX + frictionLimiter_compMass1_linearX j * frictionDeltaImpulse;
          body1_velocityY = body1_velocityY + frictionLimiter_compMass1_linearY j * frictionDeltaImpulse;
          body1_angularVelocity = body1_angularVelocity + frictionLimiter_compMass1_angular j * frictionDeltaImpulse;
          body2_velocityX = body2_velocityX + frictionLimiter_compMass2_linearX j * frictionDeltaImpulse;
          body2_velocityY = body2_velocityY + frictionLimiter_compMass2_linearY j * frictionDeltaImpulse;
          body2_angularVelocity = body2_angularVelocity + frictionLimiter_compMass2_angular j * frictionDeltaImpulse;
          cumulativeImpulse = max \<bar>normalDeltaImpulse\<bar> \<bar>frictionDeltaImpulse\<bar>;
          productive = (cumulativeImpulse > kProductiveImpulse);
          body1_lastIteration = select (lastIteration body1) iterationIndex productive;
          body2_lastIteration = select (lastIteration body2) iterationIndex productive
      in \<lparr>body1_out = \<lparr>velocity = \<lparr>x = body1_velocityX, y = body1_velocityY\<rparr>,
                         angularVelocity = body1_angularVelocity, lastIteration = body1_lastIteration\<rparr>,
          body2_out = \<lparr>velocity = \<lparr>x = body2_velocityX, y = body2_velocityY\<rparr>,
                         angularVelocity = body2_angularVelocity, lastIteration = body2_lastIteration\<rparr>,
          lane_out = j\<lparr>normalLimiter_accumulatedImpulse := j_normalLimiter_accumulatedImpulse,
                         frictionLimiter_accumulatedImpulse := j_frictionLimiter_accumulatedImpulse\<rparr>,
          productive_out = productive\<rparr>)"

definition displacement_lane :: "int \<Rightarrow> SolveBody \<Rightarrow> SolveBody \<Rightarrow> PackedLane \<Rightarrow> LaneResult" where
  \<comment> \<open>lines 1027-1062 in one lane\<close>
  "displacement_lane iterationIndex body1 body2 j =
     (let dV = normalLimiter_dstDisplacingVelocity j;
          dV = dV - normalLimiter_normalProjector1X j * x (velocity body1);
          dV = dV - normalLimiter_normalProjector1Y j * y (velocity body1);
          dV = dV - normalLimiter_angularProjector1 j * angularVelocity body1;
          dV = dV - normalLimiter_normalProjector2X j * x (velocity body2);
          dV = dV - normalLimiter_normalProjector2Y j * y (velocity body2);
          dV = dV - normalLimiter_angularProjector2 j * angularVelocity body2;
          displacingDeltaImpulse = dV * normalLimiter_compInvMass j;
          displacingDeltaImpulse =
            max displacingDeltaImpulse (- normalLimiter_accumulatedDisplacingImpulse j);
          body1_velocityX = x (velocity body1) + normalLimiter_compMass1_linearX j * displacingDeltaImpulse;
          body1_velocityY = y (velocity body1) + normalLimiter_compMass1_linearY j * displacingDeltaImpulse;
          body1_angularVelocity = angularVelocity body1 + normalLimiter_compMass1_angular j * displacingDeltaImpulse;
          body2_velocityX = x (velocity body2) + normalLimiter_compMass2_linearX j * displacingDeltaImpulse;
          body2_velocityY = y (velocity body2) + normalLimiter_compMass2_linearY j * displacingDeltaImpulse;
          body2_angularVelocity = angularVelocity body2 + normalLimiter_compMass2_angular j * displacingDeltaImpulse;
          j_normalLimiter_accumulatedDisplacingImpulse =
            normalLimiter_accumulatedDisplacingImpulse j + displacingDeltaImpulse;
          productive = (\<bar>displacingDeltaImpulse\<bar> > kProductiveImpulse);
          body1_lastIteration = select (lastIteration body1) iterationIndex productive;
          body2_lastIteration = select (lastIteration body2) iterationIndex productive
      in \<lparr>body1_out = \<lparr>velocity = \<lparr>x = body1_velocityX, y = body1_velocityY\<rparr>,
                         angularVelocity = body1_angularVelocity, lastIteration = body1_lastIteration\<rparr>,
          body2_out = \<lparr>velocity = \<lparr>x = body2_velocityX, y = body2_velocityY\<rparr>,
                         angularVelocity = body2_angularVelocity, lastIteration = body2_lastIteration\<rparr>,
          lane_out = j\<lparr>normalLimiter_accumulatedDisplacingImpulse :=
                           j_normalLimiter_accumulatedDisplacingImpulse\<rparr>,
          productive_out = productive\<rparr>)"

definition block_skipped :: "int \<Rightarrow> (nat \<Rightarrow> SolveBody) \<Rightarrow> (nat \<Rightarrow> SolveBody) \<Rightarrow> nat list \<Rightarrow> bool" where
  \<comment> \<open>\<open>none(body_productive)\<close>, lines 845-849 and 1003-1007\<close>
  "block_skipped iterationIndex body1 body2 lanes =
     (let iterationIndex2 = iterationIndex - 2;
          body1_productive = (\<lambda>l. lastIteration (body1 l) > iterationIndex2);
          body2_productive = (\<lambda>l. lastIteration (body2 l) > iterationIndex2);
          body_productive = (\<lambda>l. body1_productive l \<or> body2_productive l)
      in list_all (\<lambda>l. \<not> body_productive l) lanes)"

text \<open>
  One round of the loop of \<open>SolveJointsImpulsesSoA\<close> or \<open>SolveJointsDisplacementSoA\<close>, on
  the body table \<open>table\<close> that the pass works on: gather, early-out, lane computation,
  store of the lanes' accumulators, scatter of body 1 then of body 2. The state carries
  \<open>productive_any\<close>, reduced to one flag.
\<close>

definition solve_block ::
  "(int \<Rightarrow> SolveBody \<Rightarrow> SolveBody \<Rightarrow> PackedLane \<Rightarrow> LaneResult) \<Rightarrow> nat \<Rightarrow> nat \<Rightarrow> int \<Rightarrow> nat
     \<Rightarrow> SolveBody AlignedArray \<times> ContactJointPacked AlignedArray \<times> bool
     \<Rightarrow> SolveBody AlignedArray \<times> ContactJointPacked AlignedArray \<times> bool" where
  "solve_block lane_step VN N iterationIndex i st =
     (case st of (table, joint_packed, productive_any) \<Rightarrow>
        let jointP = data joint_packed (i div N);
            lanes = block_lanes VN N i;
            body1 = (\<lambda>l. data table (p_body1Index (jointP l)));
            body2 = (\<lambda>l. data table (p_body2Index (jointP l)))
        in if block_skipped iterationIndex body1 body2 lanes then st
           else
             let r = (\<lambda>l. lane_step iterationIndex (body1 l) (body2 l) (jointP l));
                 jointP' = (\<lambda>l. if l \<in> set lanes then lane_out (r l) else jointP l);
                 table' =
                   storeindexed4 (map (\<lambda>l. (p_body2Index (jointP l), body2_out (r l))) lanes)
                     (storeindexed4 (map (\<lambda>l. (p_body1Index (jointP l), body1_out (r l))) lanes)
                        table)
             in (table', put (i div N) jointP' joint_packed,
                 productive_any \<or> list_ex (\<lambda>l. productive_out (r l)) lanes))"

definition SolveJointsImpulsesSoA ::
  "nat \<Rightarrow> nat \<Rightarrow> nat \<Rightarrow> nat \<Rightarrow> int \<Rightarrow> soa_state \<Rightarrow> bool \<times> soa_state" where
  "SolveJointsImpulsesSoA VN N jointBegin jointEnd iterationIndex st =
     (case st of (s, joint_packed) \<Rightarrow>
        case for_joints VN (solve_block impulse_lane VN N iterationIndex) jointBegin jointEnd
               (solveBodiesImpulse s, joint_packed, False) of
          (table, joint_packed', productive_any) \<Rightarrow>
            (productive_any, s\<lparr>solveBodiesImpulse := table\<rparr>, joint_packed'))"

definition SolveJointsDisplacementSoA ::
  "nat \<Rightarrow> nat \<Rightarrow> nat \<Rightarrow> nat \<Rightarrow> int \<Rightarrow> soa_state \<Rightarrow> bool \<times> soa_state" where
  "SolveJointsDisplacementSoA VN N jointBegin jointEnd iterationIndex st =
     (case st of (s, joint_packed) \<Rightarrow>
        case for_joints VN (solve_block displacement_lane VN N iterationIndex) jointBegin jointEnd
               (solveBodiesDisplacement s, joint_packed, False) of
          (table, joint_packed', productive_any) \<Rightarrow>
            (productive_any, s\<lparr>solveBodiesDisplacement := table\<rparr>, joint_packed'))"

text \<open>
  The lane computation of the impulse pass in its two halves: the normal impulse (up to
  line 906) and the friction impulse with the productive flag (from line 908 on).
\<close>

definition normal_impulse_step :: "SolveBody \<Rightarrow> SolveBody \<Rightarrow> PackedLane \<Rightarrow> SolveBody \<times> SolveBody \<times> PackedLane" where
  \<comment> \<open>lines 884-906: the normal impulse alone, the two bodies and the lane after line 906\<close>
  "normal_impulse_step body1 body2 j =
     (let normalDeltaImpulse = normalDeltaImpulse_of body1 body2 j;
          body1_velocityX = x (velocity body1) + normalLimiter_compMass1_linearX j * normalDeltaImpulse;
          body1_velocityY = y (velocity body1) + normalLimiter_compMass1_linearY j * normalDeltaImpulse;
          body1_angularVelocity = angularVelocity body1 + normalLimiter_compMass1_angular j * normalDeltaImpulse;
          body2_velocityX = x (velocity body2) + normalLimiter_compMass2_linearX j * normalDeltaImpulse;
          body2_velocityY = y (velocity body2) + normalLimiter_compMass2_linearY j * normalDeltaImpulse;
          body2_angularVelocity = angularVelocity body2 + normalLimiter_compMass2_angular j * normalDeltaImpulse;
          j_normalLimiter_accumulatedImpulse = normalLimiter_accumulatedImpulse j + normalDeltaImpulse
      in (\<lparr>velocity = \<lparr>x = body1_velocityX, y = body1_velocityY\<rparr>,
           angularVelocity = body1_angularVelocity, lastIteration = lastIteration body1\<rparr>,
          \<lparr>velocity = \<lparr>x = body2_velocityX, y = body2_velocityY\<rparr>,
           angularVelocity = body2_angularVelocity, lastIteration = lastIteration body2\<rparr>,
          j\<lparr>normalLimiter_accumulatedImpulse := j_normalLimiter_accumulatedImpulse\<rparr>))"

definition friction_impulse_step ::
  "int \<Rightarrow> real \<Rightarrow> SolveBody \<times> SolveBody \<times> PackedLane \<Rightarrow> LaneResult" where
  \<comment> \<open>lines 908-956: the friction impulse and the productive flag, from the state after
      the normal impulse and from \<open>normalDeltaImpulse\<close>\<close>
  "friction_impulse_step iterationIndex normalDeltaImpulse st =
     (case st of (body1, body2, j) \<Rightarrow>
        let body1_velocityX = x (velocity body1); body1_velocityY = y (velocity body1);
            body1_angularVelocity = angularVelocity body1;
            body2_velocityX = x (velocity body2); body2_velocityY = y (velocity body2);
            body2_angularVelocity = angularVelocity body2;
            frictiondV = 0;
            frictiondV = frictiondV - frictionLimiter_normalProjector1X j * body1_velocityX;
            frictiondV = frictiondV - frictionLimiter_normalProjector1Y j * body1_velocityY;
            frictiondV = frictiondV - frictionLimiter_angularProjector1 j * body1_angularVelocity;
            frictiondV = frictiondV - frictionLimiter_normalProjector2X j * body2_velocityX;
            frictiondV = frictiondV - frictionLimiter_normalProjector2Y j * body2_velocityY;
            frictiondV = frictiondV - frictionLimiter_angularProjector2 j * body2_angularVelocity;
            frictionDeltaImpulse = frictiondV * frictionLimiter_compInvMass j;
            reactionForce = normalLimiter_accumulatedImpulse j;
            accumulatedImpulse = frictionLimiter_accumulatedImpulse j;
            frictionForce = accumulatedImpulse + frictionDeltaImpulse;
            reactionForceScaled = reactionForce * kFrictionCoefficient;
            frictionForceAbs = \<bar>frictionForce\<bar>;
            reactionForceScaledSigned = flipsign reactionForceScaled frictionForce;
            frictionDeltaImpulseAdjusted = reactionForceScaledSigned - accumulatedImpulse;
            frictionDeltaImpulse =
              select frictionDeltaImpulse frictionDeltaImpulseAdjusted (frictionForceAbs > reactionForceScaled);
            j_frictionLimiter_accumulatedImpulse = frictionLimiter_accumulatedImpulse j + frictionDeltaImpulse;
            body1_velocityX = body1_velocityX + frictionLimiter_compMass1_linearX j * frictionDeltaImpulse;
            body1_velocityY = body1_velocityY + frictionLimiter_compMass1_linearY j * frictionDeltaImpulse;
            body1_angularVelocity = body1_angularVelocity + frictionLimiter_compMass1_angular j * frictionDeltaImpulse;
            body2_velocityX = body2_velocityX + frictionLimiter_compMass2_linearX j * frictionDeltaImpulse;
            body2_velocityY = body2_velocityY + frictionLimiter_compMass2_linearY j * frictionDeltaImpulse;
            body2_angularVelocity = body2_angularVelocity + frictionLimiter_compMass2_angular j * frictionDeltaImpulse;
            cumulativeImpulse = max \<bar>normalDeltaImpulse\<bar> \<bar>frictionDeltaImpulse\<bar>;
            productive = (cumulativeImpulse > kProductiveImpulse);
            body1_lastIteration = select (lastIteration body1) iterationIndex productive;
            body2_lastIteration = select (lastIteration body2) iterationIndex productive
        in \<lparr>body1_out = \<lparr>velocity = \<lparr>x = body1_velocityX, y = body1_velocityY\<rparr>,
                           angularVelocity = body1_angularVelocity, lastIteration = body1_lastIteration\<rparr>,
            body2_out = \<lparr>velocity = \<lparr>x = body2_velocityX, y = body2_velocityY\<rparr>,
                           angularVelocity = body2_angularVelocity, lastIteration = body2_lastIteration\<rparr>,
            lane_out = j\<lparr>frictionLimiter_accumulatedImpulse := j_frictionLimiter_accumulatedImpulse\<rparr>,
            productive_out = productive\<rparr>)"

section \<open>Finish and the whole solve (SoA)\<close>

text \<open>
  The iteration metric is \<open>float(iterationSum) / float(jointCount)\<close>. The quotient of two
  finite floats is kept with its IEEE 754 special cases: a zero divisor gives NaN for a
  zero dividend and an infinity otherwise (\<open>float(jointCount)\<close> is never negative zero).
\<close>

datatype float_value = Finite real | PlusInfinity | MinusInfinity | NaN

definition float_div :: "real \<Rightarrow> real \<Rightarrow> float_value" where
  "float_div a b =
     (if b \<noteq> 0 then Finite (a / b)
      else if a = 0 then NaN
      else if 0 < a then PlusInfinity else MinusInfinity)"

definition finish_body :: "Solver \<Rightarrow> nat \<Rightarrow> (nat \<Rightarrow> RigidBody) \<Rightarrow> (nat \<Rightarrow> RigidBody)" where
  \<comment> \<open>lines 328-332\<close>
  "finish_body s i bodies =
     bodies(i := (bodies i)
       \<lparr>RigidBody.velocity := velocity (data (solveBodiesImpulse s) i),
        RigidBody.angularVelocity := angularVelocity (data (solveBodiesImpulse s) i),
        displacingVelocity := velocity (data (solveBodiesDisplacement s) i),
        displacingAngularVelocity := angularVelocity (data (solveBodiesDisplacement s) i)\<rparr>)"

definition finish_joint :: "nat \<Rightarrow> ContactJointPacked AlignedArray \<Rightarrow> nat \<Rightarrow> Solver \<Rightarrow> Solver" where
  \<comment> \<open>lines 339-346\<close>
  "finish_joint N joint_packed i s =
     (let k = data (joint_index s) i;
          joint = contactJoints s ! k;
          jointP = data joint_packed (i div N);
          iP = i AND (N - 1);
          joint' = joint
            \<lparr>normalLimiter := (normalLimiter joint)
               \<lparr>accumulatedImpulse := normalLimiter_accumulatedImpulse (jointP iP),
                accumulatedDisplacingImpulse := normalLimiter_accumulatedDisplacingImpulse (jointP iP)\<rparr>,
             frictionLimiter := (frictionLimiter joint)
               \<lparr>accumulatedImpulse := frictionLimiter_accumulatedImpulse (jointP iP)\<rparr>\<rparr>
      in s\<lparr>contactJoints := (contactJoints s)[k := joint']\<rparr>)"

definition finish_iterations :: "nat \<Rightarrow> ContactJointPacked AlignedArray \<Rightarrow> Solver \<Rightarrow> nat \<Rightarrow> int \<Rightarrow> int" where
  \<comment> \<open>lines 353-360\<close>
  "finish_iterations N joint_packed s i iterationSum =
     (let jointP = data joint_packed (i div N);
          iP = i AND (N - 1);
          bi1 = p_body1Index (jointP iP);
          bi2 = p_body2Index (jointP iP);
          iterationSum = iterationSum
            + (max (lastIteration (data (solveBodiesImpulse s) bi1))
                   (lastIteration (data (solveBodiesImpulse s) bi2)) + 2)
      in iterationSum
           + (max (lastIteration (data (solveBodiesDisplacement s) bi1))
                  (lastIteration (data (solveBodiesDisplacement s) bi2)) + 2))"

definition SolveFinishSoA ::
  "nat \<Rightarrow> ContactJointPacked AlignedArray \<Rightarrow> (nat \<Rightarrow> RigidBody) \<Rightarrow> nat \<Rightarrow> Solver
     \<Rightarrow> float_value \<times> (nat \<Rightarrow> RigidBody) \<times> Solver" where
  "SolveFinishSoA N joint_packed bodies bodiesCount s =
     (let bodies' = fold (finish_body s) [0..<bodiesCount] bodies;
          jointCount = length (contactJoints s);
          s' = fold (finish_joint N joint_packed) [0..<jointCount] s;
          iterationSum = fold (finish_iterations N joint_packed s') [0..<jointCount] 0
      in (float_div (real_of_int iterationSum) (real jointCount), bodies', s'))"

text \<open>
  The two iteration loops of \<open>SolveJointsSoA\<close> (lines 97-105 and 111-119). \<open>remaining\<close>
  counts the iterations left, \<open>iterationIndex\<close> counts up from 0. Both passes of an
  iteration run (\<open>|=\<close> does not short-cut); the loop ends early when neither was
  productive. The result lists the state after each pass that ran, in order, so the state
  the loop ends in is the last one (or the start state if none ran).
\<close>

fun impulse_iterations :: "nat \<Rightarrow> nat \<Rightarrow> nat \<Rightarrow> nat \<Rightarrow> int \<Rightarrow> soa_state \<Rightarrow> soa_state list" where
  "impulse_iterations N groupOffset jointCount 0 iterationIndex st = []"
| "impulse_iterations N groupOffset jointCount (Suc remaining) iterationIndex st =
     (case SolveJointsImpulsesSoA N N 0 groupOffset iterationIndex st of
        (productive1, st1) \<Rightarrow>
          case SolveJointsImpulsesSoA 1 N groupOffset jointCount iterationIndex st1 of
            (productive2, st2) \<Rightarrow>
              st1 # st2 #
                (if \<not> (productive1 \<or> productive2) then []
                 else impulse_iterations N groupOffset jointCount remaining (iterationIndex + 1) st2))"

fun displacement_iterations :: "nat \<Rightarrow> nat \<Rightarrow> nat \<Rightarrow> nat \<Rightarrow> int \<Rightarrow> soa_state \<Rightarrow> soa_state list" where
  "displacement_iterations N groupOffset jointCount 0 iterationIndex st = []"
| "displacement_iterations N groupOffset jointCount (Suc remaining) iterationIndex st =
     (case SolveJointsDisplacementSoA N N 0 groupOffset iterationIndex st of
        (productive1, st1) \<Rightarrow>
          case SolveJointsDisplacementSoA 1 N groupOffset jointCount iterationIndex st1 of
            (productive2, st2) \<Rightarrow>
              st1 # st2 #
                (if \<not> (productive1 \<or> productive2) then []
                 else displacement_iterations N groupOffset jointCount remaining (iterationIndex + 1) st2))"

text \<open>
  \<open>SolveJointsSoA\<close> (lines 79-123) up to the call of \<open>SolveFinishSoA\<close>: the states at the
  observable points of a solve, in order: after \<open>SolvePrepareSoA\<close>, after the refresh,
  after the pre-step, after every impulse pass and after every displacement pass. \<open>None\<close>
  if the grouping does not return.
\<close>

definition solve_states ::
  "nat \<Rightarrow> ContactJointPacked AlignedArray \<Rightarrow> (nat \<Rightarrow> RigidBody) \<Rightarrow> nat \<Rightarrow> (nat \<Rightarrow> ContactPoint)
     \<Rightarrow> nat \<Rightarrow> nat \<Rightarrow> Solver \<Rightarrow> soa_state list option" where
  "solve_states N joint_packed bodies bodiesCount contactPoints
       contactIterationsCount penetrationIterationsCount s =
     (case SolvePrepareSoA N joint_packed bodies bodiesCount N s of
        None \<Rightarrow> None
      | Some (groupOffset, s0, joint_packed0) \<Rightarrow>
          let jointCount = length (contactJoints s0);
              st1 = RefreshJointsSoA 1 N groupOffset jointCount contactPoints
                      (RefreshJointsSoA N N 0 groupOffset contactPoints (s0, joint_packed0));
              st2 = PreStepJointsSoA 1 N groupOffset jointCount
                      (PreStepJointsSoA N N 0 groupOffset st1);
              imp = impulse_iterations N groupOffset jointCount contactIterationsCount 0 st2;
              st3 = last (st2 # imp);
              dis = displacement_iterations N groupOffset jointCount penetrationIterationsCount 0 st3
          in Some ((s0, joint_packed0) # st1 # st2 # imp @ dis))"

definition SolveJointsSoA ::
  "nat \<Rightarrow> ContactJointPacked AlignedArray \<Rightarrow> (nat \<Rightarrow> RigidBody) \<Rightarrow> nat \<Rightarrow> (nat \<Rightarrow> ContactPoint)
     \<Rightarrow> nat \<Rightarrow> nat \<Rightarrow> Solver
     \<Rightarrow> (float_value \<times> (nat \<Rightarrow> RigidBody) \<times> Solver \<times> ContactJointPacked AlignedArray) option" where
  "SolveJointsSoA N joint_packed bodies bodiesCount contactPoints
       contactIterationsCount penetrationIterationsCount s =
     (case solve_states N joint_packed bodies bodiesCount contactPoints
             contactIterationsCount penetrationIterationsCount s of
        None \<Rightarrow> None
      | Some states \<Rightarrow>
          (case last states of (s1, joint_packed1) \<Rightarrow>
             case SolveFinishSoA N joint_packed1 bodies bodiesCount s1 of
               (metric, bodies', s2) \<Rightarrow> Some (metric, bodies', s2, joint_packed1)))"

text \<open>The fields of a caller-owned body that a solve reads, and those that it does not assign.\<close>

definition body_inputs ::
  "RigidBody \<Rightarrow> real \<times> real \<times> Coords2f \<times> Vector2f \<times> real \<times> Vector2f \<times> real" where
  \<comment> \<open>the fields of a body that the CopyBodies loop reads (lines 242-252)\<close>
  "body_inputs b =
     (RigidBody.invMass b, RigidBody.invInertia b, coords b,
      RigidBody.velocity b, RigidBody.angularVelocity b,
      displacingVelocity b, displacingAngularVelocity b)"

definition body_kept :: "RigidBody \<Rightarrow> Coords2f \<times> real \<times> real \<times> int \<times> int" where
  \<comment> \<open>the fields of a body that \<open>SolveFinishSoA\<close> does not assign\<close>
  "body_kept b =
     (coords b, RigidBody.invMass b, RigidBody.invInertia b,
      RigidBody.lastIteration b, lastDisplacementIteration b)"

section \<open>The AoS path\<close>

text \<open>
  The AoS functions reach the bodies through \<open>joint.body1\<close>, \<open>joint.body2\<close> and change them
  in place; the model updates the body array at \<open>body1Index\<close>, \<open>body2Index\<close> statement by
  statement, so that a read after a write sees it also when the two are the same body.
\<close>

definition add_velocity :: "nat \<Rightarrow> real \<Rightarrow> real \<Rightarrow> real \<Rightarrow> (nat \<Rightarrow> RigidBody) \<Rightarrow> (nat \<Rightarrow> RigidBody)" where
  \<comment> \<open>\<open>body->velocity.x += dx; body->velocity.y += dy; body->angularVelocity += dw\<close>\<close>
  "add_velocity b dx dy dw bodies =
     bodies(b := (bodies b)
       \<lparr>RigidBody.velocity :=
          \<lparr>x = x (RigidBody.velocity (bodies b)) + dx, y = y (RigidBody.velocity (bodies b)) + dy\<rparr>,
        RigidBody.angularVelocity := RigidBody.angularVelocity (bodies b) + dw\<rparr>)"

definition aos_skipped :: "int \<Rightarrow> RigidBody \<Rightarrow> RigidBody \<Rightarrow> bool" where
  \<comment> \<open>line 406\<close>
  "aos_skipped iterationIndex body1 body2 =
     (RigidBody.lastIteration body1 < iterationIndex - 1
      \<and> RigidBody.lastIteration body2 < iterationIndex - 1)"

definition SolveJointsImpulsesAoS_step ::
  "int \<Rightarrow> nat \<Rightarrow> bool \<times> (nat \<Rightarrow> RigidBody) \<times> ContactJoint list
     \<Rightarrow> bool \<times> (nat \<Rightarrow> RigidBody) \<times> ContactJoint list" where
  \<comment> \<open>the loop body, lines 401-475\<close>
  "SolveJointsImpulsesAoS_step iterationIndex jointIndex st =
     (case st of (productive, bodies, joints) \<Rightarrow>
        let joint = joints ! jointIndex;
            body1 = body1Index joint;
            body2 = body2Index joint
        in if aos_skipped iterationIndex (bodies body1) (bodies body2) then st
           else
             let nl = normalLimiter joint;
                 fl = frictionLimiter joint;
                 normaldV = dstVelocity nl;
                 normaldV = normaldV - x (normalProjector1 nl) * x (RigidBody.velocity (bodies body1));
                 normaldV = normaldV - y (normalProjector1 nl) * y (RigidBody.velocity (bodies body1));
                 normaldV = normaldV - angularProjector1 nl * RigidBody.angularVelocity (bodies body1);
                 normaldV = normaldV - x (normalProjector2 nl) * x (RigidBody.velocity (bodies body2));
                 normaldV = normaldV - y (normalProjector2 nl) * y (RigidBody.velocity (bodies body2));
                 normaldV = normaldV - angularProjector2 nl * RigidBody.angularVelocity (bodies body2);
                 normalDeltaImpulse = normaldV * compInvMass nl;
                 normalDeltaImpulse =
                   (if normalDeltaImpulse + accumulatedImpulse nl < 0
                    then - accumulatedImpulse nl else normalDeltaImpulse);
                 bodies = add_velocity body1 (x (compMass1_linear nl) * normalDeltaImpulse)
                            (y (compMass1_linear nl) * normalDeltaImpulse)
                            (compMass1_angular nl * normalDeltaImpulse) bodies;
                 bodies = add_velocity body2 (x (compMass2_linear nl) * normalDeltaImpulse)
                            (y (compMass2_linear nl) * normalDeltaImpulse)
                            (compMass2_angular nl * normalDeltaImpulse) bodies;
                 nl = nl\<lparr>accumulatedImpulse := accumulatedImpulse nl + normalDeltaImpulse\<rparr>;
                 frictiondV = 0;
                 frictiondV = frictiondV - x (normalProjector1 fl) * x (RigidBody.velocity (bodies body1));
                 frictiondV = frictiondV - y (normalProjector1 fl) * y (RigidBody.velocity (bodies body1));
                 frictiondV = frictiondV - angularProjector1 fl * RigidBody.angularVelocity (bodies body1);
                 frictiondV = frictiondV - x (normalProjector2 fl) * x (RigidBody.velocity (bodies body2));
                 frictiondV = frictiondV - y (normalProjector2 fl) * y (RigidBody.velocity (bodies body2));
                 frictiondV = frictiondV - angularProjector2 fl * RigidBody.angularVelocity (bodies body2);
                 frictionDeltaImpulse = frictiondV * compInvMass fl;
                 reactionForce = accumulatedImpulse nl;
                 accumulated = accumulatedImpulse fl;
                 frictionForce = accumulated + frictionDeltaImpulse;
                 frictionCoefficient = kFrictionCoefficient;
                 clamp = (\<bar>frictionForce\<bar> > reactionForce * frictionCoefficient);
                 dir = (if frictionForce > 0 then 1 else - 1);
                 frictionForce = (if clamp then dir * reactionForce * frictionCoefficient else frictionForce);
                 frictionDeltaImpulse = (if clamp then frictionForce - accumulated else frictionDeltaImpulse);
                 fl = fl\<lparr>accumulatedImpulse := accumulatedImpulse fl + frictionDeltaImpulse\<rparr>;
                 bodies = add_velocity body1 (x (compMass1_linear fl) * frictionDeltaImpulse)
                            (y (compMass1_linear fl) * frictionDeltaImpulse)
                            (compMass1_angular fl * frictionDeltaImpulse) bodies;
                 bodies = add_velocity body2 (x (compMass2_linear fl) * frictionDeltaImpulse)
                            (y (compMass2_linear fl) * frictionDeltaImpulse)
                            (compMass2_angular fl * frictionDeltaImpulse) bodies;
                 cumulativeImpulse = max \<bar>normalDeltaImpulse\<bar> \<bar>frictionDeltaImpulse\<bar>;
                 hit = (cumulativeImpulse > kProductiveImpulse);
                 bodies = (if hit then bodies(body1 := (bodies body1)\<lparr>RigidBody.lastIteration := iterationIndex\<rparr>)
                           else bodies);
                 bodies = (if hit then bodies(body2 := (bodies body2)\<lparr>RigidBody.lastIteration := iterationIndex\<rparr>)
                           else bodies)
             in (productive \<or> hit, bodies,
                 joints[jointIndex := joint\<lparr>normalLimiter := nl, frictionLimiter := fl\<rparr>]))"

definition SolveJointsImpulsesAoS ::
  "nat \<Rightarrow> nat \<Rightarrow> int \<Rightarrow> (nat \<Rightarrow> RigidBody) \<times> ContactJoint list
     \<Rightarrow> bool \<times> (nat \<Rightarrow> RigidBody) \<times> ContactJoint list" where
  "SolveJointsImpulsesAoS jointBegin jointEnd iterationIndex st =
     (case st of (bodies, joints) \<Rightarrow>
        fold (SolveJointsImpulsesAoS_step iterationIndex) [jointBegin..<jointEnd]
          (False, bodies, joints))"

definition SolveFinishAoS :: "(nat \<Rightarrow> RigidBody) \<Rightarrow> ContactJoint list \<Rightarrow> float_value" where
  \<comment> \<open>lines 207-222\<close>
  "SolveFinishAoS bodies joints =
     (let iterationSum =
            fold (\<lambda>joint iterationSum.
                    iterationSum
                      + (max (RigidBody.lastIteration (bodies (body1Index joint)))
                             (RigidBody.lastIteration (bodies (body2Index joint))) + 2)
                      + (max (lastDisplacementIteration (bodies (body1Index joint)))
                             (lastDisplacementIteration (bodies (body2Index joint))) + 2))
              joints (0::int)
      in float_div (real_of_int iterationSum) (real (length joints)))"

section \<open>Auxiliary notions of the solver proofs\<close>

definition tables :: "Solver \<Rightarrow> SolveBodyParams AlignedArray \<times> SolveBody AlignedArray \<times> SolveBody AlignedArray" where
  "tables s = (solveBodiesParams s, solveBodiesImpulse s, solveBodiesDisplacement s)"

definition prepared :: "nat \<Rightarrow> (nat \<Rightarrow> RigidBody) \<Rightarrow> Solver \<Rightarrow> Solver" where
  "prepared bodiesCount bodies s =
     (let s1 = s\<lparr>solveBodiesParams := resize bodiesCount (solveBodiesParams s),
                  solveBodiesImpulse := resize bodiesCount (solveBodiesImpulse s),
                  solveBodiesDisplacement := resize bodiesCount (solveBodiesDisplacement s)\<rparr>;
          s2 = fold (copy_body bodies) [0..<bodiesCount] s1
      in s2\<lparr>joint_index := resize (length (contactJoints s2)) (joint_index s2)\<rparr>)"

text \<open>
  Notions for the invariants of the passes: what a pass leaves alone (\<open>static\<close>), the lane
  of the packed table that holds joint \<open>i\<close> (\<open>slot\<close>), predicates on a lane, and what
  \<open>SolveFinishSoA\<close> makes of a joint (\<open>written\<close>).
\<close>

definition static :: "Solver \<Rightarrow> ContactJoint list \<times> nat AlignedArray" where
  "static s = (contactJoints s, joint_index s)"

definition slot :: "nat \<Rightarrow> ContactJointPacked AlignedArray \<Rightarrow> nat \<Rightarrow> PackedLane" where
  \<comment> \<open>\<open>joint_packed[unsigned(i) / N]\<close>, lane \<open>i & (N - 1)\<close>\<close>
  "slot N joint_packed i = data joint_packed (i div N) (i AND (N - 1))"

definition lane_closed :: "(PackedLane \<Rightarrow> bool) \<Rightarrow> bool" where
  "lane_closed ok \<longleftrightarrow>
     (\<forall>it b1 b2 j. ok j \<longrightarrow> ok (lane_out (impulse_lane it b1 b2 j))) \<and>
     (\<forall>it b1 b2 j. ok j \<longrightarrow> ok (lane_out (displacement_lane it b1 b2 j))) \<and>
     (\<forall>b1 b2 p1 p2 c j. ok j \<longrightarrow> ok (refresh_lane b1 b2 p1 p2 c j))"

definition pass_rel :: "(PackedLane \<Rightarrow> bool) \<Rightarrow> soa_state \<Rightarrow> soa_state \<Rightarrow> bool" where
  "pass_rel ok st st' \<longleftrightarrow>
     static (fst st') = static (fst st) \<and> asize (snd st') = asize (snd st) \<and>
     (\<forall>k l. ok (data (snd st) k l) \<longrightarrow> ok (data (snd st') k l))"

definition block_rel ::
  "(PackedLane \<Rightarrow> bool) \<Rightarrow> ContactJointPacked AlignedArray
     \<Rightarrow> SolveBody AlignedArray \<times> ContactJointPacked AlignedArray \<times> bool \<Rightarrow> bool" where
  "block_rel ok jp st \<longleftrightarrow>
     asize (fst (snd st)) = asize jp \<and>
     (\<forall>k l. ok (data jp k l) \<longrightarrow> ok (data (fst (snd st)) k l))"

definition refreshed :: "nat \<Rightarrow> nat \<Rightarrow> (nat \<Rightarrow> ContactPoint) \<Rightarrow> soa_state \<Rightarrow> soa_state" where
  \<comment> \<open>the two calls of \<open>RefreshJointsSoA\<close> in \<open>SolveJointsSoA\<close> (lines 86-87)\<close>
  "refreshed N groupOffset contactPoints st =
     RefreshJointsSoA 1 N groupOffset (length (contactJoints (fst st))) contactPoints
       (RefreshJointsSoA N N 0 groupOffset contactPoints st)"

definition lane_normal_ok :: "PackedLane \<Rightarrow> bool" where
  "lane_normal_ok j \<longleftrightarrow> 0 \<le> normalLimiter_accumulatedImpulse j"

definition lane_displacing_ok :: "PackedLane \<Rightarrow> bool" where
  "lane_displacing_ok j \<longleftrightarrow> 0 \<le> normalLimiter_accumulatedDisplacingImpulse j"

definition lane_cone :: "real \<Rightarrow> PackedLane \<Rightarrow> bool" where
  "lane_cone \<delta> j \<longleftrightarrow>
     \<bar>frictionLimiter_accumulatedImpulse j\<bar>
       \<le> kFrictionCoefficient * normalLimiter_accumulatedImpulse j + \<delta>"

definition refresh_of :: "Solver \<Rightarrow> (nat \<Rightarrow> ContactPoint) \<Rightarrow> PackedLane \<Rightarrow> PackedLane" where
  "refresh_of s contactPoints j =
     refresh_lane (data (solveBodiesImpulse s) (p_body1Index j))
                  (data (solveBodiesImpulse s) (p_body2Index j))
                  (data (solveBodiesParams s) (p_body1Index j))
                  (data (solveBodiesParams s) (p_body2Index j))
                  (contactPoints (contactPointIndex j)) j"

definition is_refreshed :: "Solver \<Rightarrow> (nat \<Rightarrow> ContactPoint) \<Rightarrow> PackedLane \<Rightarrow> bool" where
  "is_refreshed s contactPoints j \<longleftrightarrow> (\<exists>j0. j = refresh_of s contactPoints j0)"

definition written :: "ContactJoint \<Rightarrow> PackedLane \<Rightarrow> ContactJoint" where
  "written joint lane =
     joint\<lparr>normalLimiter := (normalLimiter joint)
              \<lparr>accumulatedImpulse := normalLimiter_accumulatedImpulse lane,
               accumulatedDisplacingImpulse := normalLimiter_accumulatedDisplacingImpulse lane\<rparr>,
            frictionLimiter := (frictionLimiter joint)
              \<lparr>accumulatedImpulse := frictionLimiter_accumulatedImpulse lane\<rparr>\<rparr>"

section \<open>Concrete inputs\<close>

text \<open>Small inputs on which the theorems below are instantiated and the model is run.\<close>

definition zero_vector :: Vector2f where
  "zero_vector = \<lparr>x = 0, y = 0\<rparr>"

definition zero_limiter :: Limiter where
  "zero_limiter =
     \<lparr>normalProjector1 = zero_vector, normalProjector2 = zero_vector,
      angularProjector1 = 0, angularProjector2 = 0,
      compMass1_linear = zero_vector, compMass2_linear = zero_vector,
      compMass1_angular = 0, compMass2_angular = 0,
      compInvMass = 0, accumulatedImpulse = 0\<rparr>"

definition zero_normal_limiter :: NormalLimiter where
  "zero_normal_limiter =
     \<lparr>normalProjector1 = zero_vector, normalProjector2 = zero_vector,
      angularProjector1 = 0, angularProjector2 = 0,
      compMass1_linear = zero_vector, compMass2_linear = zero_vector,
      compMass1_angular = 0, compMass2_angular = 0,
      compInvMass = 0, accumulatedImpulse = 0,
      dstVelocity = 0, dstDisplacingVelocity = 0, accumulatedDisplacingImpulse = 0\<rparr>"

definition joint_between :: "nat \<Rightarrow> nat \<Rightarrow> ContactJoint" where
  \<comment> \<open>a new joint (no accumulated impulse) between two bodies, on contact point 0\<close>
  "joint_between b1 b2 =
     \<lparr>body1Index = b1, body2Index = b2, collisionIndex = 0,
      normalLimiter = zero_normal_limiter, frictionLimiter = zero_limiter\<rparr>"

definition empty_array :: "'a \<Rightarrow> 'a AlignedArray" where
  "empty_array d = \<lparr>data = (\<lambda>_. d), asize = 0\<rparr>"

definition zero_solve_body :: SolveBody where
  "zero_solve_body = \<lparr>velocity = zero_vector, angularVelocity = 0, lastIteration = 0\<rparr>"

definition zero_params :: SolveBodyParams where
  "zero_params = \<lparr>invMass = 0, invInertia = 0, coords_pos = zero_vector,
     coords_xVector = zero_vector, coords_yVector = zero_vector\<rparr>"

definition fresh_solver :: "ContactJoint list \<Rightarrow> Solver" where
  \<comment> \<open>a solver that has not run yet, holding the given joints\<close>
  "fresh_solver cj =
     \<lparr>contactJoints = cj, joint_index = empty_array 0,
      jointGroup_bodies = empty_array 0, jointGroup_joints = empty_array 0,
      solveBodiesParams = empty_array zero_params,
      solveBodiesImpulse = empty_array zero_solve_body,
      solveBodiesDisplacement = empty_array zero_solve_body\<rparr>"

definition zero_lane :: PackedLane where
  "zero_lane = pack_joint (joint_between 0 0)
     \<lparr>p_body1Index = 0, p_body2Index = 0, contactPointIndex = 0,
      normalLimiter_normalProjector1X = 0, normalLimiter_normalProjector1Y = 0,
      normalLimiter_normalProjector2X = 0, normalLimiter_normalProjector2Y = 0,
      normalLimiter_angularProjector1 = 0, normalLimiter_angularProjector2 = 0,
      normalLimiter_compMass1_linearX = 0, normalLimiter_compMass1_linearY = 0,
      normalLimiter_compMass2_linearX = 0, normalLimiter_compMass2_linearY = 0,
      normalLimiter_compMass1_angular = 0, normalLimiter_compMass2_angular = 0,
      normalLimiter_compInvMass = 0, normalLimiter_accumulatedImpulse = 0,
      normalLimiter_dstVelocity = 0, normalLimiter_dstDisplacingVelocity = 0,
      normalLimiter_accumulatedDisplacingImpulse = 0,
      frictionLimiter_normalProjector1X = 0, frictionLimiter_normalProjector1Y = 0,
      frictionLimiter_normalProjector2X = 0, frictionLimiter_normalProjector2Y = 0,
      frictionLimiter_angularProjector1 = 0, frictionLimiter_angularProjector2 = 0,
      frictionLimiter_compMass1_linearX = 0, frictionLimiter_compMass1_linearY = 0,
      frictionLimiter_compMass2_linearX = 0, frictionLimiter_compMass2_linearY = 0,
      frictionLimiter_compMass1_angular = 0, frictionLimiter_compMass2_angular = 0,
      frictionLimiter_compInvMass = 0, frictionLimiter_accumulatedImpulse = 0\<rparr>"

definition empty_packed :: "ContactJointPacked AlignedArray" where
  "empty_packed = empty_array (\<lambda>_. zero_lane)"

definition resting_body :: RigidBody where
  \<comment> \<open>a unit-mass body at the origin, at rest\<close>
  "resting_body =
     \<lparr>coords = \<lparr>pos = zero_vector, xVector = \<lparr>x = 1, y = 0\<rparr>, yVector = \<lparr>x = 0, y = 1\<rparr>\<rparr>,
      velocity = zero_vector, angularVelocity = 0,
      displacingVelocity = zero_vector, displacingAngularVelocity = 0,
      invMass = 1, invInertia = 1, lastIteration = 0, lastDisplacementIteration = 0\<rparr>"

definition flat_contact :: ContactPoint where
  \<comment> \<open>a contact with normal \<open>(0, 1)\<close> and both offsets zero\<close>
  "flat_contact = \<lparr>delta1 = zero_vector, delta2 = zero_vector, normal = \<lparr>x = 0, y = 1\<rparr>\<rparr>"

definition chain5 :: "ContactJoint list" where
  \<comment> \<open>six bodies in a row, each touching the next\<close>
  "chain5 = [joint_between 0 1, joint_between 1 2, joint_between 2 3, joint_between 3 4,
             joint_between 4 5]"

definition pairs_block :: "ContactJointPacked AlignedArray" where
  \<comment> \<open>one packed block: lane \<open>l\<close> holds a new joint between the bodies \<open>2 l\<close> and \<open>2 l + 1\<close>\<close>
  "pairs_block = put 0 (\<lambda>l. pack_joint (joint_between (2 * l) (2 * l + 1)) zero_lane) empty_packed"

definition one_active :: "SolveBody AlignedArray" where
  \<comment> \<open>a body table after \<open>SolvePrepareSoA\<close> in which only body 3 was hit, in iteration 4\<close>
  "one_active = put 3 (zero_solve_body\<lparr>lastIteration := 4\<rparr>)
                  (empty_array (zero_solve_body\<lparr>lastIteration := - 1\<rparr>))"

definition deep_contact :: ContactPoint where
  \<comment> \<open>as \<open>flat_contact\<close>, with the second contact point three units along the normal\<close>
  "deep_contact = \<lparr>delta1 = zero_vector, delta2 = \<lparr>x = 0, y = 3\<rparr>, normal = \<lparr>x = 0, y = 1\<rparr>\<rparr>"

definition resting_bodies :: "nat \<Rightarrow> RigidBody" where
  "resting_bodies i = resting_body"

definition flat_contacts :: "nat \<Rightarrow> ContactPoint" where
  "flat_contacts i = flat_contact"

definition two_joints :: "ContactJoint list" where
  \<comment> \<open>three bodies in a row\<close>
  "two_joints = [joint_between 0 1, joint_between 1 2]"

definition rotor_params :: SolveBodyParams where
  \<comment> \<open>a body held at its centre: it cannot be pushed but it can turn\<close>
  "rotor_params = zero_params\<lparr>invInertia := 1\<rparr>"

definition top_contact :: ContactPoint where
  \<comment> \<open>a contact one unit above the centre of body 1, with the normal pointing up\<close>
  "top_contact = \<lparr>delta1 = \<lparr>x = 0, y = 1\<rparr>, delta2 = zero_vector, normal = \<lparr>x = 0, y = 1\<rparr>\<rparr>"

definition rotor_lane :: PackedLane where
  \<comment> \<open>the refreshed lane of a joint between the rotor and a static body, warm-started with
      the normal impulse 10\<close>
  "rotor_lane = refresh_lane zero_solve_body zero_solve_body rotor_params zero_params top_contact
                  (zero_lane\<lparr>normalLimiter_accumulatedImpulse := 10\<rparr>)"

definition spinning_body :: SolveBody where
  "spinning_body = zero_solve_body\<lparr>angularVelocity := 1\<rparr>"

definition static_lane :: "real \<Rightarrow> real \<Rightarrow> PackedLane" where
  \<comment> \<open>the refreshed lane of a joint between two static bodies, warm-started with the given
      normal and friction impulses\<close>
  "static_lane n f = refresh_lane zero_solve_body zero_solve_body zero_params zero_params flat_contact
                  (zero_lane\<lparr>normalLimiter_accumulatedImpulse := n,
                             frictionLimiter_accumulatedImpulse := f\<rparr>)"

definition moving_body :: SolveBody where
  "moving_body = zero_solve_body\<lparr>velocity := \<lparr>x = 1, y = 1\<rparr>\<rparr>"

section \<open>Proofs: grouping\<close>

lemma data_put [simp]: "data (put i v a) k = (if k = i then v else data a k)"
  by (simp add: put_def)

lemma asize_put [simp]: "asize (put i v a) = asize a"
  by (simp add: put_def)

lemma asize_resize [simp]: "asize (resize n a) = n"
  by (simp add: resize_def)

lemma data_resize [simp]: "data (resize n a) = data a"
  by (simp add: resize_def)

lemma data_fold_put:
  "data (fold (\<lambda>i. put (off + i) (f i)) [0..<n] a) k =
     (if off \<le> k \<and> k < off + n then f (k - off) else data a k)"
  by (induction n) auto

lemma asize_fold_put: "asize (fold (\<lambda>i. put (g i) (f i)) xs a) = asize a"
  by (induction xs arbitrary: a) auto

lemma data_fold_put0:
  "data (fold (\<lambda>i. put i (f i)) [0..<n] a) k = (if k < n then f k else data a k)"
  using data_fold_put [of 0 f n a k] by simp

lemma mset_swap_pop:
  assumes "i < length xs"
  shows "add_mset (xs ! i) (mset (butlast (xs[i := last xs]))) = mset xs"
proof (cases xs rule: rev_cases)
  case Nil
  with assms show ?thesis by simp
next
  case (snoc ys z)
  show ?thesis
  proof (cases "i < length ys")
    case True
    then have "ys ! i \<in># mset ys" by simp
    with True snoc show ?thesis
      by (simp add: list_update_append nth_append mset_update)
  next
    case False
    with assms snoc have "i = length ys" by simp
    with snoc show ?thesis by simp
  qed
qed

lemma map_swap_pop:
  assumes "i < n"
  shows "map (f(i := f (n - 1))) [0..<n - 1] = butlast ((map f [0..<n])[i := last (map f [0..<n])])"
proof (rule nth_equalityI)
  show "length (map (f(i := f (n - 1))) [0..<n - 1]) =
        length (butlast ((map f [0..<n])[i := last (map f [0..<n])]))"
    by simp
next
  fix k assume "k < length (map (f(i := f (n - 1))) [0..<n - 1])"
  then have k: "k < n - 1" by simp
  from assms have l: "last (map f [0..<n]) = f (n - 1)"
    by (cases n) (simp_all add: last_map)
  from k show "map (f(i := f (n - 1))) [0..<n - 1] ! k =
        butlast ((map f [0..<n])[i := last (map f [0..<n])]) ! k"
    by (simp add: nth_butlast l nth_list_update)
qed

lemma mset_map_swap_pop:
  assumes "i < n"
  shows "add_mset (f i) (mset (map (f(i := f (n - 1))) [0..<n - 1])) = mset (map f [0..<n])"
proof -
  have "add_mset (map f [0..<n] ! i) (mset (butlast ((map f [0..<n])[i := last (map f [0..<n])])))
          = mset (map f [0..<n])"
    by (rule mset_swap_pop) (simp add: assms)
  moreover have "map f [0..<n] ! i = f i" using assms by simp
  ultimately show ?thesis
    unfolding map_swap_pop [OF assms] by simp
qed

declare gather_group.simps [simp del]

lemma gather_group_stop:
  "\<not> (i < asize (jointGroup_joints s) \<and> gs < N) \<Longrightarrow> gather_group N tag go i gs s = (gs, s)"
  by (auto simp: gather_group.simps [of N tag go i gs s])

lemma gather_group_skip:
  "i < asize (jointGroup_joints s) \<Longrightarrow> gs < N \<Longrightarrow> \<not> joint_free tag i s \<Longrightarrow>
   gather_group N tag go i gs s = gather_group N tag go (i + 1) gs s"
  by (auto simp: gather_group.simps [of N tag go i gs s] joint_free_def Let_def)

lemma gather_group_take:
  "i < asize (jointGroup_joints s) \<Longrightarrow> gs < N \<Longrightarrow> joint_free tag i s \<Longrightarrow>
   gather_group N tag go i gs s = gather_group N tag go i (gs + 1) (take_joint tag (go + gs) i s)"
  by (simp add: gather_group.simps [of N tag go i gs s] joint_free_def take_joint_def Let_def)

lemma gather_group_induct [consumes 0, case_names stop skip take]:
  assumes "\<And>i gs s. \<not> (i < asize (jointGroup_joints s) \<and> gs < N) \<Longrightarrow> P i gs s"
    and "\<And>i gs s. i < asize (jointGroup_joints s) \<Longrightarrow> gs < N \<Longrightarrow> \<not> joint_free tag i s \<Longrightarrow>
           P (i + 1) gs s \<Longrightarrow> P i gs s"
    and "\<And>i gs s. i < asize (jointGroup_joints s) \<Longrightarrow> gs < N \<Longrightarrow> joint_free tag i s \<Longrightarrow>
           P i (gs + 1) (take_joint tag (go + gs) i s) \<Longrightarrow> P i gs s"
  shows "P i gs s"
proof -
  have "N' = N \<Longrightarrow> tag' = tag \<Longrightarrow> go' = go \<Longrightarrow> P i gs s" for N' tag' go'
  proof (induction N' tag' go' i gs s rule: gather_group.induct)
  case (1 N' tag' go' i gs s)
  note eqs = "1.prems"
  show ?case
  proof (cases "i < asize (jointGroup_joints s) \<and> gs < N")
    case False
    then show ?thesis by (rule assms(1))
  next
    case loop: True
    show ?thesis
    proof (cases "joint_free tag i s")
      case False
      then have "P (i + 1) gs s"
        using "1.IH"(2) [OF _ refl refl] loop eqs by (simp add: joint_free_def Let_def)
      with loop False show ?thesis by (rule_tac assms(2)) simp_all
    next
      case True
      then have "P i (gs + 1) (take_joint tag (go + gs) i s)"
        using "1.IH"(1) [OF _ refl refl] loop eqs
        by (simp add: joint_free_def take_joint_def Let_def)
      with loop True show ?thesis by (rule_tac assms(3)) simp_all
    qed
  qed
  qed
  then show ?thesis by simp
qed

lemma take_joint_perm:
  assumes "perm_inv cj filled s" "i < asize (jointGroup_joints s)"
  shows "perm_inv cj (filled + 1) (take_joint tag filled i s)"
proof -
  let ?J = "jointGroup_joints s"
  let ?s1 = "take_joint tag filled i s"
  have live1: "add_mset (data ?J i) (mset (live (jointGroup_joints ?s1))) = mset (live ?J)"
    using assms(2) mset_map_swap_pop [of i "asize ?J" "data ?J"]
    by (simp add: take_joint_def live_def put_def Let_def del: mset_map)
  have ji1: "map (data (joint_index ?s1)) [0..<filled + 1]
              = map (data (joint_index s)) [0..<filled] @ [data ?J i]"
    by (simp add: take_joint_def Let_def)
  have cj1: "contactJoints ?s1 = contactJoints s"
    by (simp add: take_joint_def Let_def)
  show ?thesis
    using assms(1) live1 unfolding perm_inv_def ji1 cj1
    by (simp del: mset_map) (metis add_mset_add_single union_mset_add_mset_right)
qed

lemma take_joint_frame:
  "contactJoints (take_joint tag dst i s) = contactJoints s"
  "k \<noteq> dst \<Longrightarrow> data (joint_index (take_joint tag dst i s)) k = data (joint_index s) k"
  "0 < asize (jointGroup_joints s) \<Longrightarrow>
     Suc (asize (jointGroup_joints (take_joint tag dst i s))) = asize (jointGroup_joints s)"
  by (simp_all add: take_joint_def Let_def)

lemma gather_group_perm:
  "perm_inv cj (go + gs) s \<Longrightarrow> gather_group N tag go i gs s = (gs', s') \<Longrightarrow>
   perm_inv cj (go + gs') s' \<and> gs \<le> gs' \<and> (gs \<le> N \<longrightarrow> gs' \<le> N) \<and>
   asize (jointGroup_joints s') + gs' = asize (jointGroup_joints s) + gs \<and>
   (\<forall>k < go + gs. data (joint_index s') k = data (joint_index s) k)"
proof (induction i gs s rule: gather_group_induct [where N = N and tag = tag and go = go])
  case (stop i gs s)
  then show ?case by (simp add: gather_group_stop)
next
  case (skip i gs s)
  then show ?case by (simp add: gather_group_skip)
next
  case (take i gs s)
  let ?s1 = "take_joint tag (go + gs) i s"
  from take.prems(1) take.hyps(1) have "perm_inv cj (go + (gs + 1)) ?s1"
    using take_joint_perm [of cj "go + gs" s i tag] by (simp add: add.assoc)
  moreover from take have "gather_group N tag go i (gs + 1) ?s1 = (gs', s')"
    by (simp add: gather_group_take)
  ultimately have "perm_inv cj (go + gs') s' \<and> gs + 1 \<le> gs' \<and> (gs + 1 \<le> N \<longrightarrow> gs' \<le> N) \<and>
     asize (jointGroup_joints s') + gs' = asize (jointGroup_joints ?s1) + (gs + 1) \<and>
     (\<forall>k < go + (gs + 1). data (joint_index s') k = data (joint_index ?s1) k)"
    by (rule take.IH)
  with take.hyps(1,2) show ?case
    using take_joint_frame(3) [of s tag "go + gs" i]
    by (auto simp: take_joint_frame(2))
qed

lemma window_bodies_cong:
  "(\<And>k. start \<le> k \<Longrightarrow> k < start + n \<Longrightarrow> data ji k = data ji' k) \<Longrightarrow>
   window_bodies cj ji start n = window_bodies cj ji' start n"
  unfolding window_bodies_def by (rule arg_cong [where f = concat]) simp

lemma window_bodies_Suc:
  "window_bodies cj ji start (Suc n) =
     window_bodies cj ji start n @ joint_bodies (cj ! data ji (start + n))"
  by (simp add: window_bodies_def)

lemma perm_inv_live_range:
  assumes "perm_inv cj filled s" "i < asize (jointGroup_joints s)"
  shows "data (jointGroup_joints s) i < length cj"
proof -
  from assms(2) have "data (jointGroup_joints s) i \<in># mset (live (jointGroup_joints s))"
    by (simp add: live_def)
  then have "data (jointGroup_joints s) i \<in># mset [0..<length cj]"
    using assms(1) unfolding perm_inv_def by (metis union_iff)
  then show ?thesis by simp
qed

lemma take_joint_group:
  assumes perm: "perm_inv cj (go + gs) s" and inv: "group_inv cj tag go gs s"
    and ns: "no_self_joint cj" and i: "i < asize (jointGroup_joints s)"
    and free: "joint_free tag i s"
  shows "group_inv cj tag go (gs + 1) (take_joint tag (go + gs) i s)"
proof -
  let ?j = "data (jointGroup_joints s) i"
  let ?joint = "cj ! ?j"
  let ?s1 = "take_joint tag (go + gs) i s"
  have cj: "contactJoints s = cj" using perm by (simp add: perm_inv_def)
  have "?j < length cj" using perm i by (rule perm_inv_live_range)
  then have "?joint \<in> set cj" by simp
  with ns have ne: "body1Index ?joint \<noteq> body2Index ?joint" by (simp add: no_self_joint_def)
  from free cj have lt: "data (jointGroup_bodies s) (body1Index ?joint) < tag"
      "data (jointGroup_bodies s) (body2Index ?joint) < tag"
    by (simp_all add: joint_free_def Let_def)
  have old: "window_bodies cj (joint_index ?s1) go gs = window_bodies cj (joint_index s) go gs"
    by (rule window_bodies_cong) (simp add: take_joint_frame(2))
  have new: "data (joint_index ?s1) (go + gs) = ?j"
    by (simp add: take_joint_def Let_def)
  have win: "window_bodies cj (joint_index ?s1) go (gs + 1)
      = window_bodies cj (joint_index s) go gs @ [body1Index ?joint, body2Index ?joint]"
    using window_bodies_Suc [of cj "joint_index ?s1" go gs] old new
    by (simp add: joint_bodies_def)
  have notin: "body1Index ?joint \<notin> set (window_bodies cj (joint_index s) go gs)"
      "body2Index ?joint \<notin> set (window_bodies cj (joint_index s) go gs)"
    using inv lt unfolding group_inv_def by auto
  have tags: "data (jointGroup_bodies ?s1) b =
      (if b = body1Index ?joint \<or> b = body2Index ?joint then tag else data (jointGroup_bodies s) b)" for b
    using cj by (simp add: take_joint_def Let_def)
  show ?thesis
    unfolding group_inv_def win using inv ne notin
    by (auto simp: tags group_inv_def)
qed

lemma gather_group_distinct:
  "perm_inv cj (go + gs) s \<Longrightarrow> group_inv cj tag go gs s \<Longrightarrow> no_self_joint cj \<Longrightarrow>
   gather_group N tag go i gs s = (gs', s') \<Longrightarrow> group_inv cj tag go gs' s'"
proof (induction i gs s rule: gather_group_induct [where N = N and tag = tag and go = go])
  case (stop i gs s)
  then show ?case by (simp add: gather_group_stop)
next
  case (skip i gs s)
  then show ?case by (simp add: gather_group_skip)
next
  case (take i gs s)
  let ?s1 = "take_joint tag (go + gs) i s"
  have "perm_inv cj (go + (gs + 1)) ?s1"
    using take_joint_perm [of cj "go + gs" s i tag] take.prems(1) take.hyps(1)
    by (simp add: add.assoc)
  moreover have "group_inv cj tag go (gs + 1) ?s1"
    using take.prems(1,2,3) take.hyps(1,3) by (rule take_joint_group)
  moreover from take have "gather_group N tag go i (gs + 1) ?s1 = (gs', s')"
    by (simp add: gather_group_take)
  ultimately show ?case using take.prems(3) by (intro take.IH)
qed

lemma gather_group_tags:
  "tags_le bc tag s \<Longrightarrow> gather_group N tag go i gs s = (gs', s') \<Longrightarrow> tags_le bc tag s'"
proof (induction i gs s rule: gather_group_induct [where N = N and tag = tag and go = go])
  case (stop i gs s)
  then show ?case by (simp add: gather_group_stop)
next
  case (skip i gs s)
  then show ?case by (simp add: gather_group_skip)
next
  case (take i gs s)
  let ?s1 = "take_joint tag (go + gs) i s"
  from take.prems(1) have "tags_le bc tag ?s1"
    by (simp add: tags_le_def take_joint_def Let_def)
  moreover from take have "gather_group N tag go i (gs + 1) ?s1 = (gs', s')"
    by (simp add: gather_group_take)
  ultimately show ?case by (rule take.IH)
qed

lemma first_joint_free:
  assumes "tags_le bc tag s" "bodies_in_range bc cj" "perm_inv cj filled s"
    and "0 < asize (jointGroup_joints s)"
  shows "joint_free (tag + 1) 0 s"
proof -
  let ?j = "data (jointGroup_joints s) 0"
  have cj: "contactJoints s = cj" using assms(3) by (simp add: perm_inv_def)
  have "?j < length cj" using assms(3,4) by (rule perm_inv_live_range)
  then have "cj ! ?j \<in> set cj" by simp
  with assms(2) have "body1Index (cj ! ?j) < bc" "body2Index (cj ! ?j) < bc"
    by (simp_all add: bodies_in_range_def)
  with assms(1) have "data (jointGroup_bodies s) (body1Index (cj ! ?j)) \<le> tag"
      "data (jointGroup_bodies s) (body2Index (cj ! ?j)) \<le> tag"
    by (simp_all add: tags_le_def)
  then show ?thesis by (simp add: joint_free_def cj)
qed

lemma round_removes_joint:
  assumes "tags_le bc tag s" "bodies_in_range bc cj" "perm_inv cj go s"
    and "0 < N" "N \<le> asize (jointGroup_joints s)"
    and run: "gather_group N (tag + 1) go 0 0 s = (gs', s')"
  shows "1 \<le> gs' \<and> asize (jointGroup_joints s') < asize (jointGroup_joints s)"
proof -
  let ?s1 = "take_joint (tag + 1) (go + 0) 0 s"
  have pos: "0 < asize (jointGroup_joints s)" using assms(4,5) by simp
  have free: "joint_free (tag + 1) 0 s"
    using assms(1,2,3) pos by (rule first_joint_free)
  have run1: "gather_group N (tag + 1) go 0 (0 + 1) ?s1 = (gs', s')"
    using gather_group_take [OF pos assms(4) free, of go] run by simp
  have "perm_inv cj (go + (0 + 1)) ?s1"
    using take_joint_perm [OF assms(3) pos, of "tag + 1"] by simp
  from gather_group_perm [OF this run1]
  have "0 + 1 \<le> gs'" "asize (jointGroup_joints s') + gs' = asize (jointGroup_joints ?s1) + (0 + 1)"
    by simp_all
  moreover have "Suc (asize (jointGroup_joints ?s1)) = asize (jointGroup_joints s)"
    using pos by (rule take_joint_frame(3))
  ultimately show ?thesis by simp
qed

lemma windows_ok_frame:
  assumes "windows_ok cj N go ji" "\<And>k. k < go \<Longrightarrow> data ji' k = data ji k"
  shows "windows_ok cj N go ji'"
  unfolding windows_ok_def
proof (intro allI impI)
  fix w assume w: "(w + 1) * N \<le> go"
  have "window_bodies cj ji' (w * N) N = window_bodies cj ji (w * N) N"
    using w by (intro window_bodies_cong assms(2)) simp
  with assms(1) w show "distinct (window_bodies cj ji' (w * N) N)"
    by (simp add: windows_ok_def)
qed

lemma windows_ok_extend:
  assumes "windows_ok cj N go ji" "N dvd go" "distinct (window_bodies cj ji go N)"
  shows "windows_ok cj N (go + N) ji"
  unfolding windows_ok_def
proof (intro allI impI)
  fix w assume w: "(w + 1) * N \<le> go + N"
  from assms(2) obtain q where q: "go = N * q" by (auto simp: dvd_def)
  show "distinct (window_bodies cj ji (w * N) N)"
  proof (cases "(w + 1) * N \<le> go")
    case True
    with assms(1) show ?thesis by (simp add: windows_ok_def)
  next
    case False
    then have "N * q < N * (w + 1)" using q by (simp only: mult.commute [of _ N] not_le)
    then have 1: "q < w + 1" and N: "0 < N" by (simp_all only: mult_less_cancel1)
    from w q have "N * (w + 1) \<le> N * (q + 1)" by (simp only: mult.commute [of _ N] distrib_left mult_1_right)
    with N have "w + 1 \<le> q + 1" by (simp only: mult_le_cancel1)
    with 1 have "w = q" by simp
    with q have "w * N = go" by (simp add: mult.commute)
    with assms(3) show ?thesis by simp
  qed
qed

lemma windows_ok_partial:
  assumes "windows_ok cj N go ji" "N dvd go" "gs < N"
  shows "windows_ok cj N (go + gs) ji"
  unfolding windows_ok_def
proof (intro allI impI)
  fix w assume w: "(w + 1) * N \<le> go + gs"
  from assms(2) obtain q where q: "go = N * q" by (auto simp: dvd_def)
  have "(w + 1) * N \<le> go"
  proof (rule ccontr)
    assume "\<not> (w + 1) * N \<le> go"
    with q have "N * q < N * (w + 1)" by (simp only: mult.commute [of _ N] not_le)
    then have "q < w + 1" by (simp only: mult_less_cancel1)
    then have "q \<le> w" by simp
    then have "N * q \<le> N * w" by (rule mult_le_mono2)
    moreover have "(w + 1) * N = N * w + N" by (simp add: mult.commute)
    ultimately show False using w q assms(3) by linarith
  qed
  with assms(1) show "distinct (window_bodies cj ji (w * N) N)" by (simp add: windows_ok_def)
qed

lemma group_loop_post:
  assumes "0 < N"
  shows "outer_inv cj N go s \<Longrightarrow>
    \<exists>go' s'. group_loop N tag go s = Some (go', s') \<and> perm_inv cj go' s' \<and>
       (no_self_joint cj \<longrightarrow> windows_ok cj N go' (joint_index s'))"
proof (induction "asize (jointGroup_joints s)" arbitrary: tag go s rule: less_induct)
  case less
  show ?case
  proof (cases "N \<le> asize (jointGroup_joints s)")
    case False
    with less.prems show ?thesis
      by (subst group_loop.simps) (simp add: outer_inv_def)
  next
    case enter: True
    obtain gs s1 where run: "gather_group N (tag + 1) go 0 0 s = (gs, s1)"
      by (cases "gather_group N (tag + 1) go 0 0 s")
    from less.prems have perm: "perm_inv cj (go + 0) s" and dvd: "N dvd go"
      and win: "no_self_joint cj \<Longrightarrow> windows_ok cj N go (joint_index s)"
      by (simp_all add: outer_inv_def)
    from gather_group_perm [OF perm run]
    have perm1: "perm_inv cj (go + gs) s1" and le: "gs \<le> N"
      and sz: "asize (jointGroup_joints s1) + gs = asize (jointGroup_joints s)"
      and fr: "\<And>k. k < go \<Longrightarrow> data (joint_index s1) k = data (joint_index s) k"
      by simp_all
    have grp: "no_self_joint cj \<Longrightarrow> distinct (window_bodies cj (joint_index s1) go gs)"
    proof -
      assume ns: "no_self_joint cj"
      have "group_inv cj (tag + 1) go 0 s" by (simp add: group_inv_def window_bodies_def)
      from gather_group_distinct [OF perm this ns run] show ?thesis by (simp add: group_inv_def)
    qed
    have win1: "no_self_joint cj \<Longrightarrow> windows_ok cj N go (joint_index s1)"
      using win fr by (rule windows_ok_frame)
    show ?thesis
    proof (cases "gs < N")
      case True
      with win1 dvd have "no_self_joint cj \<Longrightarrow> windows_ok cj N (go + gs) (joint_index s1)"
        by (intro windows_ok_partial)
      with enter run True perm1 show ?thesis
        by (subst group_loop.simps) simp
    next
      case False
      with le have gsN: "gs = N" by simp
      have "outer_inv cj N (go + gs) s1"
        unfolding outer_inv_def gsN using perm1 dvd win1 grp
        by (auto simp: gsN intro: windows_ok_extend)
      moreover have "asize (jointGroup_joints s1) < asize (jointGroup_joints s)"
        using sz gsN assms by simp
      ultimately have "\<exists>go' s'. group_loop N (tag + 1) (go + gs) s1 = Some (go', s') \<and>
          perm_inv cj go' s' \<and> (no_self_joint cj \<longrightarrow> windows_ok cj N go' (joint_index s'))"
        by (intro less.hyps)
      with enter run False show ?thesis
        by (subst group_loop.simps) simp
    qed
  qed
qed

lemma live_fold_id: "map (data (fold (\<lambda>i. put i i) [0..<n] a)) [0..<n] = [0..<n]"
  by (rule map_idI) (simp add: data_fold_put0)

lemma group_init_inv:
  "outer_inv (contactJoints s) N 0 (group_init bc s)" "tags_le bc 0 (group_init bc s)"
  by (simp_all add: outer_inv_def perm_inv_def windows_ok_def group_init_def Let_def live_def
      asize_fold_put live_fold_id tags_le_def data_fold_put0 window_bodies_def)

lemma group_init_frame:
  "contactJoints (group_init bc s) = contactJoints s"
  "joint_index (group_init bc s) = joint_index s"
  by (simp_all add: group_init_def Let_def)

lemma perm_inv_size:
  assumes "perm_inv cj filled s"
  shows "filled + asize (jointGroup_joints s) = length cj"
proof -
  have "size (mset (map (data (joint_index s)) [0..<filled]) + mset (live (jointGroup_joints s)))
          = size (mset [0..<length cj])"
    using assms by (simp only: perm_inv_def)
  then show ?thesis by (simp add: live_def)
qed

lemma tail_fill:
  "map (data (fold (\<lambda>i. put (go + i) (data J i)) [0..<n] ji)) [0..<go + n]
     = map (data ji) [0..<go] @ map (data J) [0..<n]"
proof -
  let ?ji' = "fold (\<lambda>i. put (go + i) (data J i)) [0..<n] ji"
  have "[0..<go + n] = [0..<go] @ [go..<go + n]"
    by (rule upt_add_eq_append) simp
  moreover have "map (data ?ji') [0..<go] = map (data ji) [0..<go]"
    by (simp add: data_fold_put)
  moreover have "map (data ?ji') [go..<go + n] = map (data J) [0..<n]"
    by (rule nth_equalityI) (simp_all add: data_fold_put)
  ultimately show ?thesis by (simp only: map_append)
qed

lemma windows_ok_mono: "windows_ok cj N go ji \<Longrightarrow> go' \<le> go \<Longrightarrow> windows_ok cj N go' ji"
  by (auto simp: windows_ok_def)

lemma SolvePrepareIndicesSoA_grouped:
  assumes "1 < N"
  shows "\<exists>go s'. SolvePrepareIndicesSoA bc N s = Some (go, s') \<and>
      contactJoints s' = contactJoints s \<and>
      is_permutation (joint_index s') (length (contactJoints s)) \<and>
      go \<le> length (contactJoints s) \<and> N dvd go \<and>
      (no_self_joint (contactJoints s) \<longrightarrow> windows_ok (contactJoints s) N go (joint_index s'))"
proof -
  let ?cj = "contactJoints s"
  from assms have "0 < N" by simp
  from group_loop_post [OF this group_init_inv(1), where tag = 0]
  obtain go' s4 where loop: "group_loop N 0 0 (group_init bc s) = Some (go', s4)"
    and perm: "perm_inv ?cj go' s4"
    and win: "no_self_joint ?cj \<longrightarrow> windows_ok ?cj N go' (joint_index s4)"
    by blast
  define J where "J = jointGroup_joints s4"
  define ji where "ji = fold (\<lambda>i. put (go' + i) (data J i)) [0..<asize J] (joint_index s4)"
  define s' where "s' = s4\<lparr>joint_index := ji\<rparr>"
  define go where "go = (go' div N) * N"
  from assms have N1: "N \<noteq> 1" by simp
  have res: "SolvePrepareIndicesSoA bc N s = Some (go, s')"
    unfolding SolvePrepareIndicesSoA_def Let_def go_def s'_def ji_def J_def
    by (simp only: N1 if_False loop option.case prod.case)
  have sz: "go' + asize J = length ?cj" unfolding J_def using perm by (rule perm_inv_size)
  have "mset (map (data ji) [0..<go' + asize J])
          = mset (map (data (joint_index s4)) [0..<go']) + mset (live J)"
    unfolding ji_def by (simp only: tail_fill live_def mset_append)
  also have "\<dots> = mset [0..<length ?cj]"
    using perm unfolding J_def by (simp only: perm_inv_def)
  finally have "mset (map (data ji) [0..<length ?cj]) = mset [0..<length ?cj]"
    by (simp only: sz)
  then have p: "is_permutation (joint_index s') (length ?cj)"
    by (simp add: is_permutation_def s'_def)
  have le: "go \<le> go'" by (simp add: go_def)
  have w: "windows_ok ?cj N go (joint_index s')" if ns: "no_self_joint ?cj"
  proof -
    from ns win have "windows_ok ?cj N go' (joint_index s4)" by simp
    then have "windows_ok ?cj N go (joint_index s4)" using le by (rule windows_ok_mono)
    moreover have "data (joint_index s') k = data (joint_index s4) k" if "k < go" for k
      using that le by (simp add: s'_def ji_def data_fold_put)
    ultimately show ?thesis by (rule windows_ok_frame)
  qed
  have cj: "contactJoints s' = ?cj" using perm by (simp add: perm_inv_def s'_def)
  have "go \<le> length ?cj" using le sz by simp
  moreover have "N dvd go" by (simp add: go_def)
  ultimately have "SolvePrepareIndicesSoA bc N s = Some (go, s') \<and>
      contactJoints s' = contactJoints s \<and>
      is_permutation (joint_index s') (length (contactJoints s)) \<and>
      go \<le> length (contactJoints s) \<and> N dvd go \<and>
      (no_self_joint (contactJoints s) \<longrightarrow> windows_ok (contactJoints s) N go (joint_index s'))"
    using res cj p w by simp
  then show ?thesis by (intro exI)
qed

lemma SolvePrepareIndicesSoA_scalar:
  "SolvePrepareIndicesSoA bc 1 s =
     Some (length (contactJoints s),
           s\<lparr>joint_index := fold (\<lambda>i. put i i) [0..<length (contactJoints s)] (joint_index s)\<rparr>)"
  by (simp add: SolvePrepareIndicesSoA_def Let_def)

lemma round_start_inv:
  assumes "round_start N (group_init bc s) r"
  shows "tags_le bc (fst r) (snd (snd r)) \<and> perm_inv (contactJoints s) (fst (snd r)) (snd (snd r))"
  using assms
proof (induction rule: round_start.induct)
  case round_first
  show ?case using group_init_inv(1) [of s N bc] group_init_inv(2) [of bc s]
    by (simp add: outer_inv_def)
next
  case (round_next tag go st gs st')
  then have t: "tags_le bc tag st" and p: "perm_inv (contactJoints s) (go + 0) st" by simp_all
  have "tags_le bc (tag + 1) st"
    unfolding tags_le_def
  proof (intro allI impI)
    fix b assume "b < bc"
    with t have "data (jointGroup_bodies st) b \<le> tag" by (simp add: tags_le_def)
    then show "data (jointGroup_bodies st) b \<le> tag + 1" by simp
  qed
  then have "tags_le bc (tag + 1) st'" using round_next.hyps(3) by (rule gather_group_tags)
  moreover have "perm_inv (contactJoints s) (go + gs) st'"
    using gather_group_perm [OF p round_next.hyps(3)] by simp
  ultimately show ?case by simp
qed

lemmas grouping_eval =
  fresh_solver_def joint_between_def empty_array_def SolvePrepareIndicesSoA_def
  group_init_def Let_def window_bodies_def joint_bodies_def bodies_in_range_def
  no_self_joint_def data_fold_put0 data_fold_put asize_fold_put
  group_loop.simps gather_group.simps

text \<open>
  C3, as amended. For every joint list with body indices in range and every
  \<open>groupSizeTarget = N > 1\<close>, \<open>SolvePrepareIndicesSoA\<close> returns; the returned
  \<open>groupOffset\<close> is a multiple of \<open>N\<close> (and at most \<open>jointCount\<close>); \<open>joint_index\<close> is a
  permutation of \<open>[0, jointCount)\<close>; and, if every joint connects two different bodies,
  in every aligned window of \<open>N\<close> consecutive entries of \<open>joint_index\<close> inside
  \<open>[0, groupOffset)\<close> the \<open>2 * N\<close> body indices are pairwise distinct.
\<close>

theorem grouping_postcondition:
  assumes "1 < N"
    and "bodies_in_range bodiesCount (contactJoints s)"
  shows "\<exists>groupOffset s'.
      SolvePrepareIndicesSoA bodiesCount N s = Some (groupOffset, s') \<and>
      N dvd groupOffset \<and> groupOffset \<le> length (contactJoints s) \<and>
      is_permutation (joint_index s') (length (contactJoints s)) \<and>
      (no_self_joint (contactJoints s) \<longrightarrow>
         windows_ok (contactJoints s) N groupOffset (joint_index s'))"
  using SolvePrepareIndicesSoA_grouped [OF assms(1), of bodiesCount s] by blast

theorem grouping_postcondition_witness:
  "1 < (2::nat) \<and>
   bodies_in_range 6 (contactJoints (fresh_solver chain5)) \<and>
   no_self_joint (contactJoints (fresh_solver chain5)) \<and>
   (\<exists>groupOffset s'.
      SolvePrepareIndicesSoA 6 2 (fresh_solver chain5) = Some (groupOffset, s') \<and>
      2 dvd groupOffset \<and>
      groupOffset \<le> length (contactJoints (fresh_solver chain5)) \<and>
      is_permutation (joint_index s') (length (contactJoints (fresh_solver chain5))) \<and>
      windows_ok (contactJoints (fresh_solver chain5)) 2 groupOffset (joint_index s'))"
proof -
  let ?s = "fresh_solver chain5"
  have h1: "1 < (2::nat)" by simp
  have h2: "bodies_in_range 6 (contactJoints ?s)" by (simp add: grouping_eval chain5_def)
  have h3: "no_self_joint (contactJoints ?s)" by (simp add: grouping_eval chain5_def)
  from grouping_postcondition [OF h1 h2] h3
  have "\<exists>groupOffset s'.
      SolvePrepareIndicesSoA 6 2 ?s = Some (groupOffset, s') \<and>
      2 dvd groupOffset \<and> groupOffset \<le> length (contactJoints ?s) \<and>
      is_permutation (joint_index s') (length (contactJoints ?s)) \<and>
      windows_ok (contactJoints ?s) 2 groupOffset (joint_index s')"
    by blast
  with h1 h2 h3 show ?thesis by (intro conjI)
qed

text \<open>
  C3 as stated fails on a joint whose two body indices coincide: with \<open>N = 2\<close> and the
  joints \<open>(0, 0)\<close>, \<open>(1, 2)\<close> over three bodies the code returns \<open>groupOffset = 2\<close>, and
  the window \<open>[0, 2)\<close> holds the body indices \<open>0, 0, 1, 2\<close>.
\<close>

theorem grouping_self_joint_counterexample:
  "bodies_in_range 3 [joint_between 0 0, joint_between 1 2] \<and>
   map_option fst (SolvePrepareIndicesSoA 3 2 (fresh_solver [joint_between 0 0, joint_between 1 2]))
     = Some 2 \<and>
   window_bodies [joint_between 0 0, joint_between 1 2]
     (joint_index (snd (the (SolvePrepareIndicesSoA 3 2
        (fresh_solver [joint_between 0 0, joint_between 1 2]))))) 0 2 = [0, 0, 1, 2] \<and>
   \<not> distinct [0, 0, 1, 2 :: nat]"
  by (simp add: grouping_eval)

lemma group_loop_zero: "group_loop 0 tag groupOffset s = None"
proof (rule ccontr)
  assume "group_loop 0 tag groupOffset s \<noteq> None"
  then obtain r where r: "group_loop 0 tag groupOffset s = Some r" by auto
  have "(0::nat) \<noteq> 0"
  proof (rule group_loop.raw_induct [where P = "\<lambda>N tag go s r. N \<noteq> 0", OF _ r])
    fix gl :: "nat \<Rightarrow> int \<Rightarrow> nat \<Rightarrow> Solver \<Rightarrow> (nat \<times> Solver) option"
      and N tag go s r
    assume IH: "\<And>N tag go s r. gl N tag go s = Some r \<Longrightarrow> N \<noteq> 0"
      and body: "(if N \<le> asize (jointGroup_joints s)
         then case gather_group N (tag + 1) go 0 0 s of
              (groupSize, s') \<Rightarrow>
                if groupSize < N then Some (go + groupSize, s')
                else gl N (tag + 1) (go + groupSize) s'
         else Some (go, s)) = Some r"
    show "N \<noteq> 0"
    proof
      assume N: "N = 0"
      have "gather_group 0 (tag + 1) go 0 0 s = (0, s)" by (simp add: gather_group_stop)
      with body N have "gl 0 (tag + 1) go s = Some r" by simp
      from IH [OF this] show False by simp
    qed
  qed
  then show False by simp
qed

text \<open>
  C10 as stated ("for every input") fails at \<open>groupSizeTarget = 0\<close>: the loop condition
  of line 153 always holds, the scan of line 160 is not entered and the break of line 184
  is not taken, so the call does not return.
\<close>

theorem grouping_zero_target_counterexample:
  "bodies_in_range 6 chain5 \<and> SolvePrepareIndicesSoA 6 0 (fresh_solver chain5) = None"
  by (simp add: SolvePrepareIndicesSoA_def Let_def group_loop_zero bodies_in_range_def
      chain5_def joint_between_def)

text \<open>
  C10, as amended. For every \<open>groupSizeTarget = N \<ge> 1\<close> and every joint list with body
  indices in range, \<open>SolvePrepareIndicesSoA\<close> returns. In every round of the outer loop
  that a run passes through, the first joint examined under the incremented tag qualifies
  (both bodies' tags are below the new tag), and the round leaves \<open>jointGroup_joints\<close>
  strictly shorter.
\<close>

theorem grouping_terminates:
  assumes "0 < N" and "bodies_in_range bodiesCount (contactJoints s)"
  shows "(\<exists>r. SolvePrepareIndicesSoA bodiesCount N s = Some r) \<and>
    (\<forall>tag groupOffset st.
       round_start N (group_init bodiesCount s) (tag, groupOffset, st) \<longrightarrow>
       N \<le> asize (jointGroup_joints st) \<longrightarrow>
         joint_free (tag + 1) 0 st \<and>
         asize (jointGroup_joints (snd (gather_group N (tag + 1) groupOffset 0 0 st)))
           < asize (jointGroup_joints st))"
proof (intro conjI allI impI)
  show "\<exists>r. SolvePrepareIndicesSoA bodiesCount N s = Some r"
  proof (cases "N = 1")
    case True
    then show ?thesis by (simp only: SolvePrepareIndicesSoA_scalar) blast
  next
    case False
    with assms(1) have "1 < N" by simp
    from SolvePrepareIndicesSoA_grouped [OF this, of bodiesCount s] show ?thesis by blast
  qed
next
  fix tag groupOffset st
  assume r: "round_start N (group_init bodiesCount s) (tag, groupOffset, st)"
    and enter: "N \<le> asize (jointGroup_joints st)"
  from round_start_inv [OF r]
  have t: "tags_le bodiesCount tag st" and p: "perm_inv (contactJoints s) groupOffset st"
    by simp_all
  from assms(1) enter have pos: "0 < asize (jointGroup_joints st)" by simp
  from t assms(2) p pos show "joint_free (tag + 1) 0 st" by (rule first_joint_free)
  obtain gs st' where run: "gather_group N (tag + 1) groupOffset 0 0 st = (gs, st')"
    by (cases "gather_group N (tag + 1) groupOffset 0 0 st")
  from round_removes_joint [OF t assms(2) p assms(1) enter run] run
  show "asize (jointGroup_joints (snd (gather_group N (tag + 1) groupOffset 0 0 st)))
          < asize (jointGroup_joints st)"
    by simp
qed

text \<open>
  The witness runs the chain of five joints with \<open>N = 2\<close>: the first round takes the
  joints 0 and 4 and leaves the tags \<open>1, 1, 0, 0, 1, 1\<close>; the theorem is applied at the
  head of the second round, where the first joint scanned is joint 3 on the bodies 3 and 4.
\<close>

theorem grouping_terminates_witness:
  "0 < (2::nat) \<and>
   bodies_in_range 6 (contactJoints (fresh_solver chain5)) \<and>
   (\<exists>r. SolvePrepareIndicesSoA 6 2 (fresh_solver chain5) = Some r) \<and>
   map (data (jointGroup_bodies (snd (gather_group 2 1 0 0 0 (group_init 6 (fresh_solver chain5))))))
     [0, 1, 2, 3, 4, 5] = [1, 1, 0, 0, 1, 1] \<and>
   joint_free 2 0 (snd (gather_group 2 1 0 0 0 (group_init 6 (fresh_solver chain5)))) \<and>
   asize (jointGroup_joints (snd (gather_group 2 2 2 0 0
       (snd (gather_group 2 1 0 0 0 (group_init 6 (fresh_solver chain5)))))))
     < asize (jointGroup_joints
         (snd (gather_group 2 1 0 0 0 (group_init 6 (fresh_solver chain5)))))"
proof -
  let ?s = "fresh_solver chain5"
  let ?init = "group_init 6 ?s"
  let ?mid = "snd (gather_group 2 1 0 0 0 ?init)"
  have h1: "0 < (2::nat)" by simp
  have h2: "bodies_in_range 6 (contactJoints ?s)" by (simp add: grouping_eval chain5_def)
  have r0: "round_start 2 ?init (0, 0, ?init)" by (rule round_first)
  have e0: "2 \<le> asize (jointGroup_joints ?init)" by (simp add: grouping_eval chain5_def)
  have g: "fst (gather_group 2 1 0 0 0 ?init) = 2" by (simp add: grouping_eval chain5_def)
  then have run: "gather_group 2 (0 + 1) 0 0 0 ?init = (2, ?mid)"
    by (cases "gather_group 2 1 0 0 0 ?init") simp
  have r1: "round_start 2 ?init (0 + 1, 0 + 2, ?mid)"
    by (rule round_next [OF r0 e0 run]) simp
  have e1: "2 \<le> asize (jointGroup_joints ?mid)" by (simp add: grouping_eval chain5_def)
  have tags: "map (data (jointGroup_bodies ?mid)) [0, 1, 2, 3, 4, 5] = [1, 1, 0, 0, 1, 1]"
    by (simp add: grouping_eval chain5_def)
  from r1 have r1': "round_start 2 ?init (1, 2, ?mid)" by (simp only: add_0_left)
  note step = grouping_terminates [OF h1 h2, THEN conjunct2, rule_format, OF r1' e1]
  have progress: "joint_free 2 0 ?mid \<and>
        asize (jointGroup_joints (snd (gather_group 2 2 2 0 0 ?mid)))
          < asize (jointGroup_joints ?mid)"
    using step by (simp only: one_add_one)
  from grouping_terminates [OF h1 h2]
  have ret: "\<exists>r. SolvePrepareIndicesSoA 6 2 ?s = Some r" by blast
  from h1 h2 ret tags progress show ?thesis by blast
qed

section \<open>Proofs: prepare\<close>

lemma and_lane_mod: "N \<in> {1, 4, 8} \<Longrightarrow> i AND (N - 1) = i mod N" for i N :: nat
proof -
  have "i AND 3 = i mod 4" using take_bit_eq_mask [of 2 i] by (simp add: take_bit_eq_mod mask_eq_exp_minus_1)
  moreover have "i AND 7 = i mod 8" using take_bit_eq_mask [of 3 i] by (simp add: take_bit_eq_mod mask_eq_exp_minus_1)
  ultimately show "N \<in> {1, 4, 8} \<Longrightarrow> i AND (N - 1) = i mod N" by auto
qed

declare for_joints.simps [simp del]

lemma for_joints_stop: "\<not> (i < e \<and> 0 < VN) \<Longrightarrow> for_joints VN body i e st = st"
  by (subst for_joints.simps) auto

lemma for_joints_step:
  "i < e \<Longrightarrow> 0 < VN \<Longrightarrow> for_joints VN body i e st = for_joints VN body (i + VN) e (body i st)"
  by (subst for_joints.simps) auto

lemma for_joints_invariant:
  "(\<And>i st. P st \<Longrightarrow> P (body i st)) \<Longrightarrow> P st \<Longrightarrow> P (for_joints VN body b e st)"
proof (induction VN body b e st rule: for_joints.induct)
  case (1 VN body jointIndex jointEnd st)
  show ?case
  proof (cases "jointIndex < jointEnd \<and> 0 < VN")
    case True
    have "P (body jointIndex st)" using "1.prems"(2) by (rule "1.prems"(1))
    with "1.prems"(1) have "P (for_joints VN body (jointIndex + VN) jointEnd (body jointIndex st))"
      by (intro "1.IH" [OF True])
    then show ?thesis using True by (simp add: for_joints_step)
  next
    case False
    then show ?thesis using "1.prems"(2) by (simp add: for_joints_stop)
  qed
qed

lemma gather_group_tables:
  "gather_group N tag go i gs s = (gs', s') \<Longrightarrow>
   solveBodiesParams s' = solveBodiesParams s \<and> solveBodiesImpulse s' = solveBodiesImpulse s \<and>
   solveBodiesDisplacement s' = solveBodiesDisplacement s"
proof (induction i gs s rule: gather_group_induct [where N = N and tag = tag and go = go])
  case (stop i gs s)
  then show ?case by (simp add: gather_group_stop)
next
  case (skip i gs s)
  then show ?case by (simp add: gather_group_skip)
next
  case (take i gs s)
  then show ?case by (simp add: gather_group_take take_joint_def Let_def)
qed

lemma group_loop_tables:
  assumes "group_loop N tag go s = Some r"
  shows "tables (snd r) = tables s"
proof (rule group_loop.raw_induct [where P = "\<lambda>N tag go s r. tables (snd r) = tables s", OF _ assms])
  fix gl :: "nat \<Rightarrow> int \<Rightarrow> nat \<Rightarrow> Solver \<Rightarrow> (nat \<times> Solver) option"
    and N tag go s r
  assume IH: "\<And>N tag go s r. gl N tag go s = Some r \<Longrightarrow> tables (snd r) = tables s"
    and body: "(if N \<le> asize (jointGroup_joints s)
         then case gather_group N (tag + 1) go 0 0 s of
              (groupSize, s') \<Rightarrow>
                if groupSize < N then Some (go + groupSize, s')
                else gl N (tag + 1) (go + groupSize) s'
         else Some (go, s)) = Some r"
  obtain gs s1 where run: "gather_group N (tag + 1) go 0 0 s = (gs, s1)"
    by (cases "gather_group N (tag + 1) go 0 0 s")
  from gather_group_tables [OF run] have t: "tables s1 = tables s" by (simp add: tables_def)
  show "tables (snd r) = tables s"
  proof (cases "N \<le> asize (jointGroup_joints s) \<and> \<not> gs < N")
    case True
    with body run have "gl N (tag + 1) (go + gs) s1 = Some r" by simp
    from IH [OF this] t show ?thesis by simp
  next
    case False
    with body run t show ?thesis by (auto split: if_splits)
  qed
qed

lemma is_permutation_id:
  "is_permutation (fold (\<lambda>i. put i i) [0..<n] a) n"
  by (simp add: is_permutation_def live_fold_id del: mset_map)

lemma SolvePrepareIndicesSoA_returns:
  assumes "0 < N"
  shows "\<exists>go s'. SolvePrepareIndicesSoA bc N s = Some (go, s') \<and>
      contactJoints s' = contactJoints s \<and> tables s' = tables s \<and>
      is_permutation (joint_index s') (length (contactJoints s)) \<and>
      go \<le> length (contactJoints s) \<and> N dvd go"
proof (cases "N = 1")
  case True
  show ?thesis
    unfolding True SolvePrepareIndicesSoA_scalar
    by (simp add: tables_def is_permutation_id)
next
  case False
  with assms have N: "1 < N" by simp
  from SolvePrepareIndicesSoA_grouped [OF N, of bc s]
  obtain go s' where r: "SolvePrepareIndicesSoA bc N s = Some (go, s')"
    and p: "contactJoints s' = contactJoints s"
      "is_permutation (joint_index s') (length (contactJoints s))"
      "go \<le> length (contactJoints s)" "N dvd go"
    by blast
  from r N obtain go' s4 where l: "group_loop N 0 0 (group_init bc s) = Some (go', s4)"
    and s': "s' = s4\<lparr>joint_index :=
                       fold (\<lambda>i. put (go' + i) (data (jointGroup_joints s4) i))
                         [0..<asize (jointGroup_joints s4)] (joint_index s4)\<rparr>"
    by (auto simp: SolvePrepareIndicesSoA_def Let_def split: option.splits)
  from group_loop_tables [OF l] have "tables s4 = tables (group_init bc s)" by simp
  then have "tables s' = tables s"
    by (simp add: s' tables_def group_init_def Let_def)
  with r p show ?thesis by blast
qed

lemma copy_body_frame:
  "contactJoints (fold (copy_body bodies) xs s) = contactJoints s"
  "joint_index (fold (copy_body bodies) xs s) = joint_index s"
  "jointGroup_bodies (fold (copy_body bodies) xs s) = jointGroup_bodies s"
  "jointGroup_joints (fold (copy_body bodies) xs s) = jointGroup_joints s"
  by (induction xs arbitrary: s) (simp_all add: copy_body_def)

lemma prepared_joints: "contactJoints (prepared bc bodies s) = contactJoints s"
  by (simp add: prepared_def Let_def copy_body_frame)

lemma SolvePrepareSoA_returns:
  assumes "0 < N"
  shows "\<exists>go s'. SolvePrepareSoA N jp bodies bc N s
        = Some (go, s', fold (copy_joint N s') [0..<length (contactJoints s)]
                          (resize (length (contactJoints s)) jp)) \<and>
      contactJoints s' = contactJoints s \<and> tables s' = tables (prepared bc bodies s) \<and>
      is_permutation (joint_index s') (length (contactJoints s)) \<and>
      go \<le> length (contactJoints s) \<and> N dvd go"
proof -
  from SolvePrepareIndicesSoA_returns [OF assms, of bc "prepared bc bodies s"]
  obtain go s' where r: "SolvePrepareIndicesSoA bc N (prepared bc bodies s) = Some (go, s')"
    and p: "contactJoints s' = contactJoints s" "tables s' = tables (prepared bc bodies s)"
      "is_permutation (joint_index s') (length (contactJoints s))"
      "go \<le> length (contactJoints s)" "N dvd go"
    by (auto simp: prepared_joints)
  have "SolvePrepareSoA N jp bodies bc N s
        = Some (go, s', fold (copy_joint N s') [0..<length (contactJoints s)]
                          (resize (length (contactJoints s)) jp))"
    using r unfolding SolvePrepareSoA_def prepared_def Let_def
    by (simp add: copy_body_frame)
  with p show ?thesis by blast
qed

lemma copy_joints_asize: "asize (fold (copy_joint N s) xs jp) = asize jp"
  by (induction xs arbitrary: jp) (simp_all add: copy_joint_def Let_def)

lemma copy_joints_untouched:
  "\<forall>i \<in> set xs. i div N \<noteq> k \<Longrightarrow> data (fold (copy_joint N s) xs jp) k = data jp k"
  by (induction xs arbitrary: jp) (auto simp: copy_joint_def Let_def)

section \<open>Proofs: passes\<close>

lemma pass_rel_refl: "pass_rel ok st st"
  by (simp add: pass_rel_def)

lemma pass_rel_trans: "pass_rel ok a b \<Longrightarrow> pass_rel ok b c \<Longrightarrow> pass_rel ok a c"
  by (simp add: pass_rel_def)

lemma refresh_step_rel:
  assumes "lane_closed ok"
  shows "pass_rel ok st (RefreshJointsSoA_step VN N cp i st)"
proof (cases st)
  case (Pair s jp)
  show ?thesis
    using assms unfolding Pair pass_rel_def RefreshJointsSoA_step_def lane_closed_def
    by (simp add: Let_def)
qed

lemma RefreshJointsSoA_rel:
  assumes "lane_closed ok"
  shows "pass_rel ok st (RefreshJointsSoA VN N b e cp st)"
  unfolding RefreshJointsSoA_def
  by (rule for_joints_invariant [where P = "pass_rel ok st"])
     (blast intro: pass_rel_trans refresh_step_rel [OF assms] pass_rel_refl)+

lemma RefreshJointsSoA_fst: "fst (RefreshJointsSoA VN N b e cp st) = fst st"
  unfolding RefreshJointsSoA_def
  by (rule for_joints_invariant [where P = "\<lambda>st'. fst st' = fst st"])
     (auto simp: RefreshJointsSoA_step_def Let_def split: prod.splits)

lemma prestep_step_rel: "pass_rel ok st (PreStepJointsSoA_step VN N i st)"
  by (cases st) (simp add: pass_rel_def PreStepJointsSoA_step_def Let_def static_def)

lemma PreStepJointsSoA_rel: "pass_rel ok st (PreStepJointsSoA VN N b e st)"
  unfolding PreStepJointsSoA_def
  by (rule for_joints_invariant [where P = "pass_rel ok st"])
     (blast intro: pass_rel_trans prestep_step_rel pass_rel_refl)+

lemma PreStepJointsSoA_snd: "snd (PreStepJointsSoA VN N b e st) = snd st"
  unfolding PreStepJointsSoA_def
  by (rule for_joints_invariant [where P = "\<lambda>st'. snd st' = snd st"])
     (auto simp: PreStepJointsSoA_step_def Let_def split: prod.splits)

lemma solve_block_rel:
  assumes "\<And>it b1 b2 j. ok j \<Longrightarrow> ok (lane_out (lane_step it b1 b2 j))"
    and "block_rel ok jp st"
  shows "block_rel ok jp (solve_block lane_step VN N it i st)"
proof (cases st)
  case (fields table jp1 p)
  show ?thesis
    using assms unfolding fields block_rel_def solve_block_def
    by (simp add: Let_def)
qed

lemma solve_blocks_rel:
  assumes "\<And>it b1 b2 j. ok j \<Longrightarrow> ok (lane_out (lane_step it b1 b2 j))"
  shows "block_rel ok jp (for_joints VN (solve_block lane_step VN N it) b e (table, jp, p))"
proof (rule for_joints_invariant [where P = "block_rel ok jp"])
  show "block_rel ok jp (solve_block lane_step VN N it i st)" if "block_rel ok jp st" for i st
    using assms that by (rule solve_block_rel)
  show "block_rel ok jp (table, jp, p)" by (simp add: block_rel_def)
qed

lemma SolveJointsImpulsesSoA_rel:
  assumes "lane_closed ok"
  shows "pass_rel ok st (snd (SolveJointsImpulsesSoA VN N b e it st))"
proof (cases st)
  case (Pair s jp)
  have "\<And>it b1 b2 j. ok j \<Longrightarrow> ok (lane_out (impulse_lane it b1 b2 j))"
    using assms by (simp add: lane_closed_def)
  from solve_blocks_rel [of ok impulse_lane jp VN N it b e "solveBodiesImpulse s" False, OF this]
  have r: "block_rel ok jp (for_joints VN (solve_block impulse_lane VN N it) b e (solveBodiesImpulse s, jp, False))" .
  obtain table' jp' p' where
    f: "for_joints VN (solve_block impulse_lane VN N it) b e (solveBodiesImpulse s, jp, False) = (table', jp', p')"
    by (cases "for_joints VN (solve_block impulse_lane VN N it) b e (solveBodiesImpulse s, jp, False)")
  from r show ?thesis
    by (simp add: Pair SolveJointsImpulsesSoA_def pass_rel_def block_rel_def f static_def)
qed

lemma SolveJointsDisplacementSoA_rel:
  assumes "lane_closed ok"
  shows "pass_rel ok st (snd (SolveJointsDisplacementSoA VN N b e it st))"
proof (cases st)
  case (Pair s jp)
  have "\<And>it b1 b2 j. ok j \<Longrightarrow> ok (lane_out (displacement_lane it b1 b2 j))"
    using assms by (simp add: lane_closed_def)
  from solve_blocks_rel [of ok displacement_lane jp VN N it b e "solveBodiesDisplacement s" False, OF this]
  have r: "block_rel ok jp (for_joints VN (solve_block displacement_lane VN N it) b e (solveBodiesDisplacement s, jp, False))" .
  obtain table' jp' p' where
    f: "for_joints VN (solve_block displacement_lane VN N it) b e (solveBodiesDisplacement s, jp, False) = (table', jp', p')"
    by (cases "for_joints VN (solve_block displacement_lane VN N it) b e (solveBodiesDisplacement s, jp, False)")
  from r show ?thesis
    by (simp add: Pair SolveJointsDisplacementSoA_def pass_rel_def block_rel_def f static_def)
qed

lemma impulse_iterations_rel:
  assumes "lane_closed ok"
  shows "st' \<in> set (impulse_iterations N go jc n it st) \<Longrightarrow> pass_rel ok st st'"
proof (induction n arbitrary: it st)
  case 0
  then show ?case by simp
next
  case (Suc n)
  obtain p1 st1 where a: "SolveJointsImpulsesSoA N N 0 go it st = (p1, st1)"
    by (cases "SolveJointsImpulsesSoA N N 0 go it st")
  obtain p2 st2 where b: "SolveJointsImpulsesSoA 1 N go jc it st1 = (p2, st2)"
    by (cases "SolveJointsImpulsesSoA 1 N go jc it st1")
  have r1: "pass_rel ok st st1"
    using SolveJointsImpulsesSoA_rel [OF assms, of st N N 0 go it] a by simp
  have r2: "pass_rel ok st1 st2"
    using SolveJointsImpulsesSoA_rel [OF assms, of st1 1 N go jc it] b by simp
  from r1 r2 have r12: "pass_rel ok st st2" by (rule pass_rel_trans)
  from Suc.prems a b
  have "st' = st1 \<or> st' = st2 \<or> st' \<in> set (impulse_iterations N go jc n (it + 1) st2)"
    by (auto split: if_splits)
  then show ?case
    using r1 r12 Suc.IH [of "it + 1" st2] by (blast intro: pass_rel_trans)
qed

lemma displacement_iterations_rel:
  assumes "lane_closed ok"
  shows "st' \<in> set (displacement_iterations N go jc n it st) \<Longrightarrow> pass_rel ok st st'"
proof (induction n arbitrary: it st)
  case 0
  then show ?case by simp
next
  case (Suc n)
  obtain p1 st1 where a: "SolveJointsDisplacementSoA N N 0 go it st = (p1, st1)"
    by (cases "SolveJointsDisplacementSoA N N 0 go it st")
  obtain p2 st2 where b: "SolveJointsDisplacementSoA 1 N go jc it st1 = (p2, st2)"
    by (cases "SolveJointsDisplacementSoA 1 N go jc it st1")
  have r1: "pass_rel ok st st1"
    using SolveJointsDisplacementSoA_rel [OF assms, of st N N 0 go it] a by simp
  have r2: "pass_rel ok st1 st2"
    using SolveJointsDisplacementSoA_rel [OF assms, of st1 1 N go jc it] b by simp
  from r1 r2 have r12: "pass_rel ok st st2" by (rule pass_rel_trans)
  from Suc.prems a b
  have "st' = st1 \<or> st' = st2 \<or> st' \<in> set (displacement_iterations N go jc n (it + 1) st2)"
    by (auto split: if_splits)
  then show ?case
    using r1 r12 Suc.IH [of "it + 1" st2] by (blast intro: pass_rel_trans)
qed

lemma solve_states_decomp:
  assumes "SolvePrepareSoA N jp bodies bc N s = Some (go, s0, jp0)"
  shows "\<exists>rest. solve_states N jp bodies bc cps cIt pIt s
           = Some ((s0, jp0) # refreshed N go cps (s0, jp0) # rest) \<and>
         (\<forall>ok. lane_closed ok \<longrightarrow>
            (\<forall>st \<in> set rest. pass_rel ok (refreshed N go cps (s0, jp0)) st))"
proof -
  let ?jc = "length (contactJoints s0)"
  define st1 where "st1 = refreshed N go cps (s0, jp0)"
  define st2 where "st2 = PreStepJointsSoA 1 N go ?jc (PreStepJointsSoA N N 0 go st1)"
  define imp where "imp = impulse_iterations N go ?jc cIt 0 st2"
  define st3 where "st3 = last (st2 # imp)"
  define dis where "dis = displacement_iterations N go ?jc pIt 0 st3"
  have eq: "solve_states N jp bodies bc cps cIt pIt s = Some ((s0, jp0) # st1 # st2 # imp @ dis)"
    unfolding solve_states_def assms st1_def st2_def imp_def st3_def dis_def refreshed_def
    by (simp add: Let_def)
  have rel: "pass_rel ok st1 st" if c: "lane_closed ok" and m: "st \<in> set (st2 # imp @ dis)" for ok st
  proof -
    have r2: "pass_rel ok st1 st2"
      unfolding st2_def by (blast intro: pass_rel_trans PreStepJointsSoA_rel)
    have ri: "pass_rel ok st2 x" if "x \<in> set imp" for x
      using that impulse_iterations_rel [OF c] unfolding imp_def by blast
    have "st3 \<in> set (st2 # imp)" unfolding st3_def by (rule last_in_set) simp
    then have "st3 = st2 \<or> st3 \<in> set imp" by simp
    then have r3: "pass_rel ok st2 st3" using ri pass_rel_refl [of ok st2] by blast
    have rd: "pass_rel ok st3 x" if "x \<in> set dis" for x
      using that displacement_iterations_rel [OF c] unfolding dis_def by blast
    from m consider "st = st2" | "st \<in> set imp" | "st \<in> set dis" by auto
    then show ?thesis
    proof cases
      case 1
      with r2 show ?thesis by simp
    next
      case 2
      with r2 ri show ?thesis by (blast intro: pass_rel_trans)
    next
      case 3
      with r2 r3 rd show ?thesis by (blast intro: pass_rel_trans)
    qed
  qed
  show ?thesis
    using eq rel unfolding st1_def by blast
qed

lemma impulse_lane_normal:
  "normalLimiter_accumulatedImpulse (lane_out (impulse_lane it b1 b2 j))
     = normalLimiter_accumulatedImpulse j + normalDeltaImpulse_of b1 b2 j"
  by (simp add: impulse_lane_def Let_def)

lemma normalDeltaImpulse_of_clamped:
  "- normalLimiter_accumulatedImpulse j \<le> normalDeltaImpulse_of b1 b2 j"
  by (simp add: normalDeltaImpulse_of_def Let_def)

lemma impulse_lane_normal_ok: "lane_normal_ok (lane_out (impulse_lane it b1 b2 j))"
  using normalDeltaImpulse_of_clamped [of j b1 b2]
  by (simp add: lane_normal_ok_def impulse_lane_normal)

lemma clamp_cone:
  fixes F n a d :: real
  assumes "0 \<le> n"
  shows "\<bar>a + select d (flipsign (n * kFrictionCoefficient) F - a) (\<bar>F\<bar> > n * kFrictionCoefficient)\<bar>
           \<le> kFrictionCoefficient * n \<or> a + d \<noteq> F"
  using assms by (auto simp: select_def flipsign_def kFrictionCoefficient_def)

lemma impulse_lane_friction:
  "\<exists>d. frictionLimiter_accumulatedImpulse (lane_out (impulse_lane it b1 b2 j))
     = frictionLimiter_accumulatedImpulse j
       + select d
           (flipsign ((normalLimiter_accumulatedImpulse j + normalDeltaImpulse_of b1 b2 j)
                        * kFrictionCoefficient) (frictionLimiter_accumulatedImpulse j + d)
             - frictionLimiter_accumulatedImpulse j)
           (\<bar>frictionLimiter_accumulatedImpulse j + d\<bar>
              > (normalLimiter_accumulatedImpulse j + normalDeltaImpulse_of b1 b2 j)
                  * kFrictionCoefficient)"
  by (simp add: impulse_lane_def Let_def) blast

lemma impulse_lane_cone: "lane_cone 0 (lane_out (impulse_lane it b1 b2 j))"
proof -
  let ?n = "normalLimiter_accumulatedImpulse j + normalDeltaImpulse_of b1 b2 j"
  have n: "0 \<le> ?n" using normalDeltaImpulse_of_clamped [of j b1 b2] by simp
  from impulse_lane_friction [of it b1 b2 j] obtain d where
    f: "frictionLimiter_accumulatedImpulse (lane_out (impulse_lane it b1 b2 j))
     = frictionLimiter_accumulatedImpulse j
       + select d (flipsign (?n * kFrictionCoefficient) (frictionLimiter_accumulatedImpulse j + d)
             - frictionLimiter_accumulatedImpulse j)
           (\<bar>frictionLimiter_accumulatedImpulse j + d\<bar> > ?n * kFrictionCoefficient)"
    by blast
  from clamp_cone [OF n, of "frictionLimiter_accumulatedImpulse j" d "frictionLimiter_accumulatedImpulse j + d"]
  show ?thesis
    unfolding lane_cone_def f impulse_lane_normal by simp
qed

lemma impulse_lane_displacing:
  "normalLimiter_accumulatedDisplacingImpulse (lane_out (impulse_lane it b1 b2 j))
     = normalLimiter_accumulatedDisplacingImpulse j"
  by (simp add: impulse_lane_def Let_def)

lemma displacement_lane_fields:
  "normalLimiter_accumulatedImpulse (lane_out (displacement_lane it b1 b2 j))
     = normalLimiter_accumulatedImpulse j"
  "frictionLimiter_accumulatedImpulse (lane_out (displacement_lane it b1 b2 j))
     = frictionLimiter_accumulatedImpulse j"
  "0 \<le> normalLimiter_accumulatedDisplacingImpulse (lane_out (displacement_lane it b1 b2 j))"
  by (simp_all add: displacement_lane_def Let_def)

lemma refresh_lane_fields:
  "normalLimiter_accumulatedImpulse (refresh_lane b1 b2 p1 p2 c j)
     = normalLimiter_accumulatedImpulse j"
  "frictionLimiter_accumulatedImpulse (refresh_lane b1 b2 p1 p2 c j)
     = frictionLimiter_accumulatedImpulse j"
  "normalLimiter_accumulatedDisplacingImpulse (refresh_lane b1 b2 p1 p2 c j) = 0"
  "p_body1Index (refresh_lane b1 b2 p1 p2 c j) = p_body1Index j"
  "p_body2Index (refresh_lane b1 b2 p1 p2 c j) = p_body2Index j"
  "contactPointIndex (refresh_lane b1 b2 p1 p2 c j) = contactPointIndex j"
  by (simp_all add: refresh_lane_def Let_def)

lemma closed_normal: "lane_closed lane_normal_ok"
  unfolding lane_closed_def
  by (simp add: impulse_lane_normal_ok)
     (simp add: lane_normal_ok_def displacement_lane_fields refresh_lane_fields)

lemma closed_displacing: "lane_closed lane_displacing_ok"
  unfolding lane_closed_def
  by (simp add: lane_displacing_ok_def impulse_lane_displacing displacement_lane_fields
      refresh_lane_fields)

lemma closed_cone: "lane_closed (\<lambda>j. lane_normal_ok j \<and> lane_cone 0 j)"
  unfolding lane_closed_def
  by (simp add: impulse_lane_normal_ok impulse_lane_cone)
     (simp add: lane_normal_ok_def lane_cone_def displacement_lane_fields refresh_lane_fields)

lemma copy_joints_slot:
  "i < n \<Longrightarrow> \<exists>i' < n. \<exists>x. slot N (fold (copy_joint N s) [0..<n] jp) i
      = pack_joint (contactJoints s ! data (joint_index s) i') x"
proof (induction n arbitrary: i)
  case 0
  then show ?case by simp
next
  case (Suc n)
  let ?jp1 = "fold (copy_joint N s) [0..<n] jp"
  have step: "fold (copy_joint N s) [0..<Suc n] jp = copy_joint N s n ?jp1" by simp
  show ?case
  proof (cases "i div N = n div N \<and> i AND (N - 1) = n AND (N - 1)")
    case True
    then have "slot N (copy_joint N s n ?jp1) i
        = pack_joint (contactJoints s ! data (joint_index s) n) (slot N ?jp1 n)"
      by (simp add: slot_def copy_joint_def Let_def)
    then show ?thesis unfolding step by blast
  next
    case False
    then have same: "slot N (copy_joint N s n ?jp1) i = slot N ?jp1 i"
      by (auto simp: slot_def copy_joint_def Let_def)
    from False Suc.prems have "i < n" by (cases "i = n") auto
    from Suc.IH [OF this] obtain i' x where "i' < n"
      "slot N ?jp1 i = pack_joint (contactJoints s ! data (joint_index s) i') x" by blast
    then show ?thesis unfolding step same by (metis less_Suc_eq)
  qed
qed

lemma refresh_step_data:
  "RefreshJointsSoA_step VN N cps i (s, jp) = (s, jp') \<Longrightarrow>
   data jp' k l = (if k = i div N \<and> l \<in> set (block_lanes VN N i)
                   then refresh_of s cps (data jp k l) else data jp k l)"
  by (auto simp: RefreshJointsSoA_step_def Let_def refresh_of_def)

lemma refresh_step_fst: "fst (RefreshJointsSoA_step VN N cps i st) = fst st"
  by (cases st) (simp add: RefreshJointsSoA_step_def Let_def)

lemma refresh_keeps:
  fixes st :: soa_state
  assumes "is_refreshed (fst st) cps (data (snd st) k l)"
  shows "is_refreshed (fst st) cps (data (snd (for_joints VN (RefreshJointsSoA_step VN N cps) b e st)) k l)"
proof -
  let ?P = "\<lambda>st' :: soa_state. fst st' = fst st \<and> is_refreshed (fst st) cps (data (snd st') k l)"
  have "?P (for_joints VN (RefreshJointsSoA_step VN N cps) b e st)"
  proof (rule for_joints_invariant [where P = ?P])
    fix i st' assume p: "?P st'"
    obtain s1 jp1 where st': "st' = (s1, jp1)" by (cases st')
    obtain jp2 where r: "RefreshJointsSoA_step VN N cps i (s1, jp1) = (s1, jp2)"
      using refresh_step_fst [of VN N cps i "(s1, jp1)"]
      by (cases "RefreshJointsSoA_step VN N cps i (s1, jp1)") simp
    from p st' have s1: "s1 = fst st" and t: "is_refreshed s1 cps (data jp1 k l)" by simp_all
    have "is_refreshed s1 cps (data jp2 k l)"
      using refresh_step_data [OF r, of k l] t by (auto simp: is_refreshed_def)
    with s1 r st' show "?P (RefreshJointsSoA_step VN N cps i st')" by simp
  next
    show "?P st" using assms by simp
  qed
  then show ?thesis by simp
qed

lemma refresh_visit:
  assumes "0 < VN" "t < e" "l \<in> set (block_lanes VN N t)"
  shows "b \<le> t \<Longrightarrow> VN dvd (t - b) \<Longrightarrow>
    is_refreshed s cps
      (data (snd (for_joints VN (RefreshJointsSoA_step VN N cps) b e (s, jp))) (t div N) l)"
proof (induction "t - b" arbitrary: b jp rule: less_induct)
  case less
  from less.prems assms have be: "b < e" by simp
  obtain jp1 where r: "RefreshJointsSoA_step VN N cps b (s, jp) = (s, jp1)"
    using refresh_step_fst [of VN N cps b "(s, jp)"]
    by (cases "RefreshJointsSoA_step VN N cps b (s, jp)") simp
  have unfold: "for_joints VN (RefreshJointsSoA_step VN N cps) b e (s, jp)
      = for_joints VN (RefreshJointsSoA_step VN N cps) (b + VN) e (s, jp1)"
    using be assms(1) r by (simp add: for_joints_step)
  show ?case
  proof (cases "t = b")
    case True
    have "is_refreshed s cps (data jp1 (t div N) l)"
      using refresh_step_data [OF r, of "t div N" l] assms(3) True
      by (auto simp: is_refreshed_def)
    then show ?thesis
      unfolding unfold using refresh_keeps [of "(s, jp1)" cps "t div N" l VN N "b + VN" e] by simp
  next
    case False
    with less.prems have pos: "0 < t - b" by simp
    from less.prems(2) pos have "VN \<le> t - b" by (rule dvd_imp_le)
    with less.prems(1) have le: "b + VN \<le> t" by simp
    have "VN dvd (t - b) - VN" by (rule dvd_diff_nat [OF less.prems(2) dvd_refl])
    then have d: "VN dvd t - (b + VN)" by (simp add: diff_diff_left)
    have m: "t - (b + VN) < t - b" using le assms(1) by simp
    show ?thesis unfolding unfold by (rule less.hyps [OF m le d])
  qed
qed

lemma refreshed_fst: "fst (refreshed N go cps st) = fst st"
  by (simp add: refreshed_def RefreshJointsSoA_fst)

lemma block_lanes_full: "block_lanes N N t = [0..<N]"
  by (simp add: block_lanes_def)

lemma block_lanes_single: "i AND (N - 1) \<in> set (block_lanes 1 N i)"
  by (auto simp: block_lanes_def)

lemma and_lane_less: "0 < N \<Longrightarrow> i AND (N - 1) < N" for i N :: nat
proof -
  assume N: "0 < N"
  have "int i AND int (N - 1) \<le> int (N - 1)" by (rule AND_upper2) simp
  then have "int (i AND (N - 1)) \<le> int (N - 1)" by (simp only: of_nat_and_eq)
  then have "i AND (N - 1) \<le> N - 1" by simp
  with N show ?thesis by simp
qed

lemma refreshed_covers:
  assumes Npos: "0 < N" and i: "i < length (contactJoints s)"
  shows "is_refreshed s cps (slot N (snd (refreshed N go cps (s, jp))) i)"
proof -
  let ?jc = "length (contactJoints s)"
  obtain jp1 where st1: "RefreshJointsSoA N N 0 go cps (s, jp) = (s, jp1)"
    using RefreshJointsSoA_fst [of N N 0 go cps "(s, jp)"]
    by (cases "RefreshJointsSoA N N 0 go cps (s, jp)") simp
  have res: "refreshed N go cps (s, jp)
      = for_joints 1 (RefreshJointsSoA_step 1 N cps) go ?jc (s, jp1)"
    by (simp only: refreshed_def st1 fst_conv) (simp only: RefreshJointsSoA_def)
  show ?thesis
  proof (cases "i < go")
    case True
    let ?t = "(i div N) * N"
    have t: "?t < go" using True by (meson div_times_less_eq_dividend le_less_trans)
    have "i AND (N - 1) \<in> set (block_lanes N N ?t)"
      using and_lane_less [OF Npos, of i] by (simp add: block_lanes_full)
    from refresh_visit [OF Npos t this, of 0 s cps jp]
    have "is_refreshed s cps (data jp1 (?t div N) (i AND (N - 1)))"
      using st1 by (simp add: RefreshJointsSoA_def)
    then have "is_refreshed s cps (data jp1 (i div N) (i AND (N - 1)))"
      using Npos by simp
    from refresh_keeps [of "(s, jp1)" cps "i div N" "i AND (N - 1)" 1 N go ?jc] this
    show ?thesis unfolding res slot_def by simp
  next
    case False
    then have ge: "go \<le> i" by simp
    from refresh_visit [OF _ i block_lanes_single [of i N], of go s cps jp1] ge
    show ?thesis unfolding res slot_def by simp
  qed
qed

lemma is_permutation_range:
  assumes "is_permutation ji n"
  shows "\<forall>i < n. data ji i < n" and "\<forall>k < n. \<exists>i < n. data ji i = k"
proof -
  from assms have "set (map (data ji) [0..<n]) = set [0..<n]"
    unfolding is_permutation_def by (rule mset_eq_setD)
  then have eq: "data ji ` {0..<n} = {0..<n}" by simp
  show "\<forall>i < n. data ji i < n" using eq by auto
  show "\<forall>k < n. \<exists>i < n. data ji i = k"
  proof (intro allI impI)
    fix k assume "k < n"
    then have "k \<in> data ji ` {0..<n}" using eq by simp
    then show "\<exists>i < n. data ji i = k" by auto
  qed
qed

lemma finish_joint_eq:
  "finish_joint N jp i s =
     s\<lparr>contactJoints := (contactJoints s)
          [data (joint_index s) i := written (contactJoints s ! data (joint_index s) i) (slot N jp i)]\<rparr>"
  by (simp add: finish_joint_def written_def slot_def Let_def)

lemma finish_joints:
  "joint_index (fold (finish_joint N jp) [0..<n] s) = joint_index s \<and>
   tables (fold (finish_joint N jp) [0..<n] s) = tables s \<and>
   length (contactJoints (fold (finish_joint N jp) [0..<n] s)) = length (contactJoints s) \<and>
   (\<forall>i < n. data (joint_index s) i < length (contactJoints s) \<longrightarrow>
      (\<exists>i' < n. \<exists>joint.
         contactJoints (fold (finish_joint N jp) [0..<n] s) ! data (joint_index s) i
           = written joint (slot N jp i')))"
proof (induction n)
  case 0
  show ?case by simp
next
  case (Suc n)
  let ?s1 = "fold (finish_joint N jp) [0..<n] s"
  let ?k = "data (joint_index s) n"
  have step: "fold (finish_joint N jp) [0..<Suc n] s = finish_joint N jp n ?s1" by simp
  from Suc.IH have ji: "joint_index ?s1 = joint_index s" and tb: "tables ?s1 = tables s"
    and len: "length (contactJoints ?s1) = length (contactJoints s)" by simp_all
  have cj: "contactJoints (finish_joint N jp n ?s1)
      = (contactJoints ?s1)[?k := written (contactJoints ?s1 ! ?k) (slot N jp n)]"
    by (simp add: finish_joint_eq ji)
  have rest: "joint_index (finish_joint N jp n ?s1) = joint_index s"
    "tables (finish_joint N jp n ?s1) = tables s"
    using ji tb by (simp_all add: finish_joint_eq tables_def)
  have "\<exists>i' < Suc n. \<exists>joint.
         contactJoints (finish_joint N jp n ?s1) ! data (joint_index s) i
           = written joint (slot N jp i')"
    if i: "i < Suc n" and r: "data (joint_index s) i < length (contactJoints s)" for i
  proof (cases "data (joint_index s) i = ?k")
    case True
    with r len have "contactJoints (finish_joint N jp n ?s1) ! data (joint_index s) i
        = written (contactJoints ?s1 ! ?k) (slot N jp n)"
      by (simp add: cj)
    then show ?thesis by blast
  next
    case False
    then have same: "contactJoints (finish_joint N jp n ?s1) ! data (joint_index s) i
        = contactJoints ?s1 ! data (joint_index s) i"
      by (simp add: cj)
    from False i have "i < n" by (cases "i = n") auto
    with Suc.IH r obtain i' joint where "i' < n"
      "contactJoints ?s1 ! data (joint_index s) i = written joint (slot N jp i')" by blast
    then show ?thesis unfolding same by (metis less_Suc_eq)
  qed
  then show ?case unfolding step using rest len cj by simp
qed

lemma finish_all_written:
  assumes "is_permutation (joint_index s) (length (contactJoints s))"
    and "joint \<in> set (contactJoints (fold (finish_joint N jp) [0..<length (contactJoints s)] s))"
  shows "\<exists>i < length (contactJoints s). \<exists>joint0. joint = written joint0 (slot N jp i)"
proof -
  let ?n = "length (contactJoints s)"
  let ?cj' = "contactJoints (fold (finish_joint N jp) [0..<?n] s)"
  note f = finish_joints [of N jp ?n s]
  from assms(2) obtain k where k: "k < length ?cj'" "joint = ?cj' ! k"
    by (auto simp: in_set_conv_nth)
  with f have kn: "k < ?n" by simp
  from is_permutation_range(2) [OF assms(1)] kn obtain i where i: "i < ?n" "data (joint_index s) i = k"
    by blast
  with f kn obtain i' joint0 where "i' < ?n" "?cj' ! k = written joint0 (slot N jp i')" by blast
  with k show ?thesis by blast
qed

section \<open>Proofs: the states of a solve\<close>

lemma pass_rel_slot:
  "pass_rel ok st st' \<Longrightarrow> ok (slot N (snd st) i) \<Longrightarrow> ok (slot N (snd st') i)"
  by (simp add: pass_rel_def slot_def)

lemma pass_rel_static: "pass_rel ok st st' \<Longrightarrow> static (fst st') = static (fst st)"
  by (simp add: pass_rel_def)

lemma solve_states_invariant:
  assumes N: "0 < N" and closed: "lane_closed ok"
    and entry: "\<forall>j \<in> set (contactJoints s). \<forall>x. ok (pack_joint j x)"
  shows "\<exists>go s0 jp0 rest.
      SolvePrepareSoA N jp bodies bc N s = Some (go, s0, jp0) \<and>
      solve_states N jp bodies bc cps cIt pIt s = Some ((s0, jp0) # refreshed N go cps (s0, jp0) # rest) \<and>
      contactJoints s0 = contactJoints s \<and> N dvd go \<and>
      is_permutation (joint_index s0) (length (contactJoints s)) \<and>
      (\<forall>st \<in> set ((s0, jp0) # refreshed N go cps (s0, jp0) # rest).
         static (fst st) = static s0 \<and>
         (\<forall>i < length (contactJoints s). ok (slot N (snd st) i))) \<and>
      (\<forall>ok'. lane_closed ok' \<longrightarrow>
         (\<forall>st \<in> set rest. pass_rel ok' (refreshed N go cps (s0, jp0)) st))"
proof -
  let ?jc = "length (contactJoints s)"
  from SolvePrepareSoA_returns [OF N, of jp bodies bc s]
  obtain go s0 where prep: "SolvePrepareSoA N jp bodies bc N s
        = Some (go, s0, fold (copy_joint N s0) [0..<?jc] (resize ?jc jp))"
    and cj: "contactJoints s0 = contactJoints s"
    and perm: "is_permutation (joint_index s0) ?jc" and dvd: "N dvd go"
    by blast
  define jp0 where "jp0 = fold (copy_joint N s0) [0..<?jc] (resize ?jc jp)"
  from solve_states_decomp [OF prep [folded jp0_def], of cps cIt pIt]
  obtain rest where st: "solve_states N jp bodies bc cps cIt pIt s
           = Some ((s0, jp0) # refreshed N go cps (s0, jp0) # rest)"
    and rel: "\<And>ok' st. lane_closed ok' \<Longrightarrow> st \<in> set rest
                \<Longrightarrow> pass_rel ok' (refreshed N go cps (s0, jp0)) st"
    by (elim exE conjE) (rule that, assumption, blast)
  have ok0: "ok (slot N jp0 i)" if "i < ?jc" for i
  proof -
    from copy_joints_slot [OF that, of N s0 "resize ?jc jp"] obtain i' x where i': "i' < ?jc"
      and sl: "slot N jp0 i = pack_joint (contactJoints s0 ! data (joint_index s0) i') x"
      unfolding jp0_def by blast
    from is_permutation_range(1) [OF perm] i' have "data (joint_index s0) i' < ?jc" by simp
    then have "contactJoints s0 ! data (joint_index s0) i' \<in> set (contactJoints s)"
      by (simp add: cj)
    with entry show ?thesis unfolding sl by simp
  qed
  have r1: "pass_rel ok (s0, jp0) (refreshed N go cps (s0, jp0))"
  proof -
    have a: "pass_rel ok (s0, jp0) (RefreshJointsSoA N N 0 go cps (s0, jp0))"
      by (rule RefreshJointsSoA_rel [OF closed])
    have b: "pass_rel ok (RefreshJointsSoA N N 0 go cps (s0, jp0)) (refreshed N go cps (s0, jp0))"
      unfolding refreshed_def by (rule RefreshJointsSoA_rel [OF closed])
    from a b show ?thesis by (rule pass_rel_trans)
  qed
  have all: "static (fst st) = static s0 \<and> (\<forall>i < ?jc. ok (slot N (snd st) i))"
    if m: "st \<in> set ((s0, jp0) # refreshed N go cps (s0, jp0) # rest)" for st
  proof -
    have "pass_rel ok (s0, jp0) st"
    proof -
      from m consider "st = (s0, jp0)" | "st = refreshed N go cps (s0, jp0)" | "st \<in> set rest"
        by auto
      then show ?thesis
      proof cases
        case 1
        then show ?thesis by (simp add: pass_rel_refl)
      next
        case 2
        with r1 show ?thesis by simp
      next
        case 3
        from r1 rel [OF closed 3] show ?thesis by (rule pass_rel_trans)
      qed
    qed
    then have rel0: "pass_rel ok (s0, jp0) st" .
    have "static (fst st) = static s0" using pass_rel_static [OF rel0] by simp
    moreover have "\<forall>i < ?jc. ok (slot N (snd st) i)"
    proof (intro allI impI)
      fix i assume "i < ?jc"
      from pass_rel_slot [OF rel0, of N i] ok0 [OF this] show "ok (slot N (snd st) i)" by simp
    qed
    ultimately show ?thesis by (rule conjI)
  qed
  have rel': "\<forall>ok'. lane_closed ok' \<longrightarrow>
         (\<forall>st \<in> set rest. pass_rel ok' (refreshed N go cps (s0, jp0)) st)"
    using rel by blast
  have all': "\<forall>st \<in> set ((s0, jp0) # refreshed N go cps (s0, jp0) # rest).
         static (fst st) = static s0 \<and>
         (\<forall>i < length (contactJoints s). ok (slot N (snd st) i))"
    using all by blast
  show ?thesis
    apply (rule exI [of _ go], rule exI [of _ s0], rule exI [of _ jp0], rule exI [of _ rest])
    apply (intro conjI)
          apply (rule prep [folded jp0_def])
         apply (rule st)
        apply (rule cj)
       apply (rule dvd)
      apply (rule perm)
     apply (rule all')
    apply (rule rel')
    done
qed

lemma refreshed_slots:
  assumes N: "0 < N" and closed: "lane_closed ok"
    and est: "\<And>j. is_refreshed s0 cps j \<Longrightarrow> ok j"
    and rel: "\<And>st. st \<in> set rest \<Longrightarrow> pass_rel ok (refreshed N go cps (s0, jp0)) st"
    and m: "st \<in> set (refreshed N go cps (s0, jp0) # rest)"
    and i: "i < length (contactJoints s0)"
  shows "ok (slot N (snd st) i)"
proof -
  have a: "ok (slot N (snd (refreshed N go cps (s0, jp0))) i)"
    using refreshed_covers [OF N i] by (rule est)
  have b: "pass_rel ok (refreshed N go cps (s0, jp0)) st"
  proof (cases "st = refreshed N go cps (s0, jp0)")
    case True
    then show ?thesis by (simp add: pass_rel_refl)
  next
    case False
    with m have "st \<in> set rest" by simp
    then show ?thesis by (rule rel)
  qed
  from b a show ?thesis by (rule pass_rel_slot)
qed

lemma SolveFinishSoA_joints:
  "contactJoints (snd (snd (SolveFinishSoA N jp bodies bc s)))
     = contactJoints (fold (finish_joint N jp) [0..<length (contactJoints s)] s)"
  by (simp add: SolveFinishSoA_def Let_def)

lemma SolveJointsSoA_last:
  assumes "solve_states N jp bodies bc cps cIt pIt s = Some states"
  shows "\<exists>metric bodies' s'.
      SolveJointsSoA N jp bodies bc cps cIt pIt s = Some (metric, bodies', s', snd (last states)) \<and>
      (metric, bodies', s') = SolveFinishSoA N (snd (last states)) bodies bc (fst (last states))"
proof -
  obtain s1 jp1 where l: "last states = (s1, jp1)" by (cases "last states")
  obtain metric bodies' s' where f: "SolveFinishSoA N jp1 bodies bc s1 = (metric, bodies', s')"
    by (cases "SolveFinishSoA N jp1 bodies bc s1")
  show ?thesis
    unfolding SolveJointsSoA_def assms by (simp add: l f)
qed

section \<open>The early-out of the impulse pass\<close>

lemma block_skipped_iff:
  "block_skipped iterationIndex body1 body2 lanes \<longleftrightarrow>
     (\<forall>l \<in> set lanes. lastIteration (body1 l) \<le> iterationIndex - 2 \<and>
                        lastIteration (body2 l) \<le> iterationIndex - 2)"
  by (auto simp: block_skipped_def Let_def list_all_iff)

lemma solve_block_skipped:
  "block_skipped iterationIndex (\<lambda>l. data table (p_body1Index (data joint_packed (i div N) l)))
      (\<lambda>l. data table (p_body2Index (data joint_packed (i div N) l))) (block_lanes VN N i) \<Longrightarrow>
   solve_block lane_step VN N iterationIndex i (table, joint_packed, productive_any)
     = (table, joint_packed, productive_any)"
  by (simp add: solve_block_def Let_def)

lemma solve_block_processed:
  "\<not> block_skipped iterationIndex (\<lambda>l. data table (p_body1Index (data joint_packed (i div N) l)))
      (\<lambda>l. data table (p_body2Index (data joint_packed (i div N) l))) (block_lanes VN N i) \<Longrightarrow>
   l \<in> set (block_lanes VN N i) \<Longrightarrow>
   data (fst (snd (solve_block lane_step VN N iterationIndex i (table, joint_packed, productive_any))))
        (i div N) l
     = lane_out (lane_step iterationIndex (data table (p_body1Index (data joint_packed (i div N) l)))
          (data table (p_body2Index (data joint_packed (i div N) l))) (data joint_packed (i div N) l))"
  by (simp add: solve_block_def Let_def)

lemma aos_skipped_iff:
  "aos_skipped iterationIndex body1 body2 \<longleftrightarrow>
     RigidBody.lastIteration body1 \<le> iterationIndex - 2 \<and>
     RigidBody.lastIteration body2 \<le> iterationIndex - 2"
  by (auto simp: aos_skipped_def)

text \<open>
  C8. In an impulse iteration with index \<open>iterationIndex\<close>, a lane block is skipped exactly
  when every lane has \<open>lastIteration \<le> iterationIndex - 2\<close> for both of its bodies; a
  skipped block leaves the whole state unchanged (the joints' accumulated impulses, the
  bodies' velocities and \<open>lastIteration\<close> values, and the productive flag), and a block
  that is not skipped has every one of its lanes replaced by the result of the lane step.
  The AoS loop skips a joint under the same condition (\<open>lastIteration < iterationIndex - 1\<close>
  for both bodies) and leaves the state unchanged then.
\<close>

theorem early_out:
  "let jointP = data joint_packed (i div N);
       lanes = block_lanes VN N i;
       body1 = (\<lambda>l. data table (p_body1Index (jointP l)));
       body2 = (\<lambda>l. data table (p_body2Index (jointP l)));
       stale = (\<forall>l \<in> set lanes. lastIteration (body1 l) \<le> iterationIndex - 2 \<and>
                                  lastIteration (body2 l) \<le> iterationIndex - 2);
       st = (table, joint_packed, productive_any);
       st' = solve_block impulse_lane VN N iterationIndex i st
   in (block_skipped iterationIndex body1 body2 lanes \<longleftrightarrow> stale) \<and>
      (stale \<longrightarrow> st' = st) \<and>
      (\<not> stale \<longrightarrow>
         (\<forall>l \<in> set lanes.
            data (fst (snd st')) (i div N) l
              = lane_out (impulse_lane iterationIndex (body1 l) (body2 l) (jointP l)))) \<and>
      (let joint = joints ! jointIndex;
           b1 = bodies (body1Index joint);
           b2 = bodies (body2Index joint);
           stale_aos = (RigidBody.lastIteration b1 \<le> iterationIndex - 2 \<and>
                        RigidBody.lastIteration b2 \<le> iterationIndex - 2)
       in (aos_skipped iterationIndex b1 b2 \<longleftrightarrow> stale_aos) \<and>
          (stale_aos \<longrightarrow>
             SolveJointsImpulsesAoS_step iterationIndex jointIndex (productive, bodies, joints)
               = (productive, bodies, joints)))"
  unfolding Let_def
proof (intro conjI impI ballI)
  show "block_skipped iterationIndex (\<lambda>l. data table (p_body1Index (data joint_packed (i div N) l)))
      (\<lambda>l. data table (p_body2Index (data joint_packed (i div N) l))) (block_lanes VN N i)
    \<longleftrightarrow> (\<forall>l \<in> set (block_lanes VN N i).
          lastIteration (data table (p_body1Index (data joint_packed (i div N) l))) \<le> iterationIndex - 2 \<and>
          lastIteration (data table (p_body2Index (data joint_packed (i div N) l))) \<le> iterationIndex - 2)"
    by (rule block_skipped_iff)
next
  assume "\<forall>l \<in> set (block_lanes VN N i).
          lastIteration (data table (p_body1Index (data joint_packed (i div N) l))) \<le> iterationIndex - 2 \<and>
          lastIteration (data table (p_body2Index (data joint_packed (i div N) l))) \<le> iterationIndex - 2"
  then show "solve_block impulse_lane VN N iterationIndex i (table, joint_packed, productive_any)
     = (table, joint_packed, productive_any)"
    by (simp only: block_skipped_iff [symmetric] solve_block_skipped)
next
  fix l
  assume "\<not> (\<forall>l \<in> set (block_lanes VN N i).
          lastIteration (data table (p_body1Index (data joint_packed (i div N) l))) \<le> iterationIndex - 2 \<and>
          lastIteration (data table (p_body2Index (data joint_packed (i div N) l))) \<le> iterationIndex - 2)"
    and l: "l \<in> set (block_lanes VN N i)"
  then have "\<not> block_skipped iterationIndex (\<lambda>l. data table (p_body1Index (data joint_packed (i div N) l)))
      (\<lambda>l. data table (p_body2Index (data joint_packed (i div N) l))) (block_lanes VN N i)"
    by (simp add: block_skipped_iff)
  from solve_block_processed [OF this l]
  show "data (fst (snd (solve_block impulse_lane VN N iterationIndex i (table, joint_packed, productive_any))))
        (i div N) l
     = lane_out (impulse_lane iterationIndex (data table (p_body1Index (data joint_packed (i div N) l)))
          (data table (p_body2Index (data joint_packed (i div N) l))) (data joint_packed (i div N) l))" .
next
  show "aos_skipped iterationIndex (bodies (body1Index (joints ! jointIndex)))
      (bodies (body2Index (joints ! jointIndex)))
    \<longleftrightarrow> RigidBody.lastIteration (bodies (body1Index (joints ! jointIndex))) \<le> iterationIndex - 2 \<and>
        RigidBody.lastIteration (bodies (body2Index (joints ! jointIndex))) \<le> iterationIndex - 2"
    by (rule aos_skipped_iff)
next
  assume "RigidBody.lastIteration (bodies (body1Index (joints ! jointIndex))) \<le> iterationIndex - 2 \<and>
        RigidBody.lastIteration (bodies (body2Index (joints ! jointIndex))) \<le> iterationIndex - 2"
  then have "aos_skipped iterationIndex (bodies (body1Index (joints ! jointIndex)))
      (bodies (body2Index (joints ! jointIndex)))"
    by (simp only: aos_skipped_iff)
  then show "SolveJointsImpulsesAoS_step iterationIndex jointIndex (productive, bodies, joints)
               = (productive, bodies, joints)"
    by (simp add: SolveJointsImpulsesAoS_step_def Let_def)
qed

lemma lanes4: "set (block_lanes 4 4 0) = {0, 1, 2, 3}"
  by (auto simp: block_lanes_def)

theorem early_out_witness:
  "block_skipped 7 (\<lambda>l. data one_active (p_body1Index (data pairs_block (0 div 4) l)))
      (\<lambda>l. data one_active (p_body2Index (data pairs_block (0 div 4) l))) (block_lanes 4 4 0) \<and>
   solve_block impulse_lane 4 4 7 0 (one_active, pairs_block, False)
     = (one_active, pairs_block, False) \<and>
   \<not> block_skipped 5 (\<lambda>l. data one_active (p_body1Index (data pairs_block (0 div 4) l)))
      (\<lambda>l. data one_active (p_body2Index (data pairs_block (0 div 4) l))) (block_lanes 4 4 0) \<and>
   data (fst (snd (solve_block impulse_lane 4 4 5 0 (one_active, pairs_block, False)))) (0 div 4) 1
     = lane_out (impulse_lane 5
         (data one_active (p_body1Index (data pairs_block (0 div 4) 1)))
         (data one_active (p_body2Index (data pairs_block (0 div 4) 1)))
         (data pairs_block (0 div 4) 1)) \<and>
   aos_skipped 2 resting_body resting_body \<and>
   SolveJointsImpulsesAoS_step 2 0 (False, \<lambda>_. resting_body, [joint_between 0 1])
     = (False, \<lambda>_. resting_body, [joint_between 0 1])"
proof -
  have stale7: "\<forall>l \<in> set (block_lanes 4 4 0).
      lastIteration (data one_active (p_body1Index (data pairs_block (0 div 4) l))) \<le> 7 - 2 \<and>
      lastIteration (data one_active (p_body2Index (data pairs_block (0 div 4) l))) \<le> 7 - 2"
    by (simp add: lanes4 one_active_def pairs_block_def pack_joint_def joint_between_def
        empty_array_def zero_solve_body_def)
  have active5: "\<not> (\<forall>l \<in> set (block_lanes 4 4 0).
      lastIteration (data one_active (p_body1Index (data pairs_block (0 div 4) l))) \<le> 5 - 2 \<and>
      lastIteration (data one_active (p_body2Index (data pairs_block (0 div 4) l))) \<le> 5 - 2)"
    by (simp add: lanes4 one_active_def pairs_block_def pack_joint_def joint_between_def
        empty_array_def zero_solve_body_def)
  have rest: "RigidBody.lastIteration resting_body \<le> 2 - 2" by (simp add: resting_body_def)
  have lane1: "1 \<in> set (block_lanes 4 4 0)" by (simp add: lanes4)
  note at7 = early_out [of pairs_block 0 4 4 one_active 7 False "[joint_between 0 1]" 0
      "\<lambda>_. resting_body" False, unfolded Let_def]
  note at5 = early_out [of pairs_block 0 4 4 one_active 5 False "[joint_between 0 1]" 0
      "\<lambda>_. resting_body" False, unfolded Let_def]
  note aos = early_out [of pairs_block 0 4 4 one_active 2 False "[joint_between 0 1]" 0
      "\<lambda>_. resting_body" False, unfolded Let_def]
  from at7 stale7
  have skip: "block_skipped 7 (\<lambda>l. data one_active (p_body1Index (data pairs_block (0 div 4) l)))
      (\<lambda>l. data one_active (p_body2Index (data pairs_block (0 div 4) l))) (block_lanes 4 4 0) \<and>
    solve_block impulse_lane 4 4 7 0 (one_active, pairs_block, False)
     = (one_active, pairs_block, False)" by blast
  from at5 active5
  have noskip: "\<not> block_skipped 5 (\<lambda>l. data one_active (p_body1Index (data pairs_block (0 div 4) l)))
      (\<lambda>l. data one_active (p_body2Index (data pairs_block (0 div 4) l))) (block_lanes 4 4 0)"
    by blast
  from at5 active5 have "\<forall>l \<in> set (block_lanes 4 4 0).
      data (fst (snd (solve_block impulse_lane 4 4 5 0 (one_active, pairs_block, False)))) (0 div 4) l
        = lane_out (impulse_lane 5
            (data one_active (p_body1Index (data pairs_block (0 div 4) l)))
            (data one_active (p_body2Index (data pairs_block (0 div 4) l)))
            (data pairs_block (0 div 4) l))" by blast
  with lane1
  have run: "data (fst (snd (solve_block impulse_lane 4 4 5 0 (one_active, pairs_block, False)))) (0 div 4) 1
     = lane_out (impulse_lane 5
         (data one_active (p_body1Index (data pairs_block (0 div 4) 1)))
         (data one_active (p_body2Index (data pairs_block (0 div 4) 1)))
         (data pairs_block (0 div 4) 1))" by blast
  from aos rest
  have a: "aos_skipped 2 resting_body resting_body \<and>
    SolveJointsImpulsesAoS_step 2 0 (False, \<lambda>_. resting_body, [joint_between 0 1])
     = (False, \<lambda>_. resting_body, [joint_between 0 1])" by simp
  from skip noskip run a show ?thesis by blast
qed

section \<open>The frame of a solve on the caller's bodies\<close>

lemma finish_body_at:
  "finish_body s n bodies i =
     (if i = n
      then (bodies n)
        \<lparr>RigidBody.velocity := velocity (data (solveBodiesImpulse s) n),
         RigidBody.angularVelocity := angularVelocity (data (solveBodiesImpulse s) n),
         displacingVelocity := velocity (data (solveBodiesDisplacement s) n),
         displacingAngularVelocity := angularVelocity (data (solveBodiesDisplacement s) n)\<rparr>
      else bodies i)"
  by (simp add: finish_body_def)

lemma finish_bodies:
  "fold (finish_body s) [0..<n] bodies i =
     (if i < n
      then (bodies i)
        \<lparr>RigidBody.velocity := velocity (data (solveBodiesImpulse s) i),
         RigidBody.angularVelocity := angularVelocity (data (solveBodiesImpulse s) i),
         displacingVelocity := velocity (data (solveBodiesDisplacement s) i),
         displacingAngularVelocity := angularVelocity (data (solveBodiesDisplacement s) i)\<rparr>
      else bodies i)"
proof (induction n arbitrary: i)
  case 0
  show ?case by simp
next
  case (Suc n)
  have "fold (finish_body s) [0..<Suc n] bodies i
      = finish_body s n (fold (finish_body s) [0..<n] bodies) i" by simp
  also have "\<dots> = (if i = n
      then (fold (finish_body s) [0..<n] bodies n)
        \<lparr>RigidBody.velocity := velocity (data (solveBodiesImpulse s) n),
         RigidBody.angularVelocity := angularVelocity (data (solveBodiesImpulse s) n),
         displacingVelocity := velocity (data (solveBodiesDisplacement s) n),
         displacingAngularVelocity := angularVelocity (data (solveBodiesDisplacement s) n)\<rparr>
      else fold (finish_body s) [0..<n] bodies i)" by (rule finish_body_at)
  finally show ?case using Suc [of n] Suc [of i] by (auto simp: less_Suc_eq)
qed

lemma copy_body_cong:
  "body_inputs (bodies2 i) = body_inputs (bodies i) \<Longrightarrow> copy_body bodies2 i s = copy_body bodies i s"
  by (simp add: copy_body_def body_inputs_def)

lemma copy_bodies_cong:
  "\<forall>i < n. body_inputs (bodies2 i) = body_inputs (bodies i) \<Longrightarrow>
   fold (copy_body bodies2) [0..<n] s = fold (copy_body bodies) [0..<n] s"
proof (induction n)
  case 0
  show ?case by simp
next
  case (Suc n)
  then have a: "fold (copy_body bodies2) [0..<n] s = fold (copy_body bodies) [0..<n] s"
    and b: "body_inputs (bodies2 n) = body_inputs (bodies n)" by simp_all
  show ?case by (simp add: a copy_body_cong [of bodies2 n bodies, OF b])
qed

lemma SolvePrepareSoA_cong:
  assumes "\<forall>i < bc. body_inputs (bodies2 i) = body_inputs (bodies i)"
  shows "SolvePrepareSoA N jp bodies2 bc g s = SolvePrepareSoA N jp bodies bc g s"
  unfolding SolvePrepareSoA_def by (simp only: copy_bodies_cong [OF assms])

lemma solve_states_cong:
  assumes "\<forall>i < bc. body_inputs (bodies2 i) = body_inputs (bodies i)"
  shows "solve_states N jp bodies2 bc cps cIt pIt s = solve_states N jp bodies bc cps cIt pIt s"
  unfolding solve_states_def by (simp only: SolvePrepareSoA_cong [OF assms])

lemma solve_states_returns:
  assumes "0 < N"
  shows "\<exists>states. solve_states N jp bodies bc cps cIt pIt s = Some states"
proof -
  from SolvePrepareSoA_returns [OF assms, of jp bodies bc s]
  obtain r where "SolvePrepareSoA N jp bodies bc N s = Some r" by blast
  then show ?thesis by (cases r) (simp add: solve_states_def Let_def)
qed

lemma SolveJointsSoA_finish:
  assumes "SolveJointsSoA N jp bodies bc cps cIt pIt s = Some (metric, bodies', s', jp')"
  shows "\<exists>s1. SolveFinishSoA N jp' bodies bc s1 = (metric, bodies', s')"
proof -
  from assms obtain states where st: "solve_states N jp bodies bc cps cIt pIt s = Some states"
    by (auto simp: SolveJointsSoA_def split: option.splits)
  obtain s1 jp1 where l: "last states = (s1, jp1)" by (cases "last states")
  from assms st l have "SolveFinishSoA N jp' bodies bc s1 = (metric, bodies', s')"
    by (auto simp: SolveJointsSoA_def split: prod.splits)
  then show ?thesis ..
qed

lemma SolveJointsSoA_returns:
  assumes "0 < N"
  shows "\<exists>r. SolveJointsSoA N jp bodies bc cps cIt pIt s = Some r"
proof -
  from solve_states_returns [OF assms] obtain states
    where "solve_states N jp bodies bc cps cIt pIt s = Some states" by blast
  then show ?thesis by (simp add: SolveJointsSoA_def split: prod.splits)
qed

lemma finish_tables:
  "tables (snd (snd (SolveFinishSoA N jp bodies bc s))) = tables s"
  using finish_joints [of N jp "length (contactJoints s)" s]
  by (simp add: SolveFinishSoA_def Let_def)

lemma finish_frame:
  assumes "SolveFinishSoA N jp bodies bc s = (metric, bodies', s')"
  shows "body_kept (bodies' i) = body_kept (bodies i)"
    and "bc \<le> i \<Longrightarrow> bodies' i = bodies i"
    and "i < bc \<Longrightarrow>
      RigidBody.velocity (bodies' i) = velocity (data (solveBodiesImpulse s') i) \<and>
      RigidBody.angularVelocity (bodies' i) = angularVelocity (data (solveBodiesImpulse s') i) \<and>
      displacingVelocity (bodies' i) = velocity (data (solveBodiesDisplacement s') i) \<and>
      displacingAngularVelocity (bodies' i) = angularVelocity (data (solveBodiesDisplacement s') i)"
proof -
  from assms have b: "bodies' = fold (finish_body s) [0..<bc] bodies"
    by (simp add: SolveFinishSoA_def Let_def)
  from finish_tables [of N jp bodies bc s] assms have t: "tables s' = tables s" by simp
  show "body_kept (bodies' i) = body_kept (bodies i)"
    by (simp add: b finish_bodies body_kept_def)
  show "bc \<le> i \<Longrightarrow> bodies' i = bodies i" by (simp add: b finish_bodies)
  show "i < bc \<Longrightarrow>
      RigidBody.velocity (bodies' i) = velocity (data (solveBodiesImpulse s') i) \<and>
      RigidBody.angularVelocity (bodies' i) = angularVelocity (data (solveBodiesImpulse s') i) \<and>
      displacingVelocity (bodies' i) = velocity (data (solveBodiesDisplacement s') i) \<and>
      displacingAngularVelocity (bodies' i) = angularVelocity (data (solveBodiesDisplacement s') i)"
    using t by (simp add: b finish_bodies tables_def)
qed

text \<open>
  C9. Frame property of the SoA solve. The solve returns (for every lane width \<open>N \<ge> 1\<close>).
  The body array it returns differs from the caller's only in the fields \<open>velocity\<close>,
  \<open>angularVelocity\<close>, \<open>displacingVelocity\<close> and \<open>displacingAngularVelocity\<close> of the
  first \<open>bodiesCount\<close> bodies, which hold the values of the two solver tables: \<open>coords\<close>
  (position and basis vectors), \<open>invMass\<close>, \<open>invInertia\<close> and the two AoS iteration
  counters of every body hold their input values, and the bodies from \<open>bodiesCount\<close> on are
  untouched. The array is read by \<open>SolvePrepareSoA\<close> alone (\<open>SolveFinishSoA\<close> is the
  only other function that is passed it, and it only assigns): every state of the solve
  is the same for two body arrays that agree, on the first \<open>bodiesCount\<close> bodies, in the
  fields that the copy-in reads.
\<close>

theorem body_frame:
  "(0 < N \<longrightarrow> (\<exists>r. SolveJointsSoA N jp bodies bc cps cIt pIt s = Some r)) \<and>
   (\<forall>metric bodies' s' jp'.
      SolveJointsSoA N jp bodies bc cps cIt pIt s = Some (metric, bodies', s', jp') \<longrightarrow>
        (\<forall>i. body_kept (bodies' i) = body_kept (bodies i)) \<and>
        (\<forall>i. bc \<le> i \<longrightarrow> bodies' i = bodies i) \<and>
        (\<forall>i < bc.
           RigidBody.velocity (bodies' i) = velocity (data (solveBodiesImpulse s') i) \<and>
           RigidBody.angularVelocity (bodies' i) = angularVelocity (data (solveBodiesImpulse s') i) \<and>
           displacingVelocity (bodies' i) = velocity (data (solveBodiesDisplacement s') i) \<and>
           displacingAngularVelocity (bodies' i)
             = angularVelocity (data (solveBodiesDisplacement s') i))) \<and>
   ((\<forall>i < bc. body_inputs (bodies2 i) = body_inputs (bodies i)) \<longrightarrow>
      solve_states N jp bodies2 bc cps cIt pIt s = solve_states N jp bodies bc cps cIt pIt s)"
proof (intro conjI impI allI)
  assume "0 < N"
  then show "\<exists>r. SolveJointsSoA N jp bodies bc cps cIt pIt s = Some r"
    by (rule SolveJointsSoA_returns)
next
  fix metric bodies' s' jp'
  assume "SolveJointsSoA N jp bodies bc cps cIt pIt s = Some (metric, bodies', s', jp')"
  from SolveJointsSoA_finish [OF this] obtain s1
    where f: "SolveFinishSoA N jp' bodies bc s1 = (metric, bodies', s')"
    by blast
  { fix i show "body_kept (bodies' i) = body_kept (bodies i)" by (rule finish_frame(1) [OF f]) }
  { fix i assume "bc \<le> i" then show "bodies' i = bodies i" by (rule finish_frame(2) [OF f]) }
  { fix i assume "i < bc"
    from finish_frame(3) [OF f this]
    show "RigidBody.velocity (bodies' i) = velocity (data (solveBodiesImpulse s') i)"
      and "RigidBody.angularVelocity (bodies' i) = angularVelocity (data (solveBodiesImpulse s') i)"
      and "displacingVelocity (bodies' i) = velocity (data (solveBodiesDisplacement s') i)"
      and "displacingAngularVelocity (bodies' i)
             = angularVelocity (data (solveBodiesDisplacement s') i)"
      by simp_all }
next
  assume "\<forall>i < bc. body_inputs (bodies2 i) = body_inputs (bodies i)"
  then show "solve_states N jp bodies2 bc cps cIt pIt s = solve_states N jp bodies bc cps cIt pIt s"
    by (rule solve_states_cong)
qed

theorem body_frame_witness:
  "0 < (4::nat) \<and>
   (\<exists>metric bodies' s' jp'.
      SolveJointsSoA 4 empty_packed (\<lambda>_. resting_body) 2 (\<lambda>_. flat_contact) 2 2
        (fresh_solver [joint_between 0 1]) = Some (metric, bodies', s', jp') \<and>
      (\<forall>i. body_kept (bodies' i) = body_kept resting_body) \<and>
      (\<forall>i. 2 \<le> i \<longrightarrow> bodies' i = resting_body) \<and>
      (\<forall>i < 2.
         RigidBody.velocity (bodies' i) = velocity (data (solveBodiesImpulse s') i) \<and>
         RigidBody.angularVelocity (bodies' i) = angularVelocity (data (solveBodiesImpulse s') i) \<and>
         displacingVelocity (bodies' i) = velocity (data (solveBodiesDisplacement s') i) \<and>
         displacingAngularVelocity (bodies' i)
           = angularVelocity (data (solveBodiesDisplacement s') i))) \<and>
   body_inputs (resting_body\<lparr>RigidBody.lastIteration := 7\<rparr>) = body_inputs resting_body \<and>
   solve_states 4 empty_packed (\<lambda>_. resting_body\<lparr>RigidBody.lastIteration := 7\<rparr>) 2
       (\<lambda>_. flat_contact) 2 2 (fresh_solver [joint_between 0 1])
     = solve_states 4 empty_packed (\<lambda>_. resting_body) 2
         (\<lambda>_. flat_contact) 2 2 (fresh_solver [joint_between 0 1])"
proof -
  let ?s = "fresh_solver [joint_between 0 1]"
  let ?b = "\<lambda>_ :: nat. resting_body"
  let ?b2 = "\<lambda>_ :: nat. resting_body\<lparr>RigidBody.lastIteration := 7\<rparr>"
  let ?c = "\<lambda>_ :: nat. flat_contact"
  note frame = body_frame [of 4 empty_packed ?b 2 ?c 2 2 ?s ?b2]
  have same: "\<forall>i < (2::nat). body_inputs (resting_body\<lparr>RigidBody.lastIteration := 7\<rparr>)
                      = body_inputs resting_body"
    by (simp add: body_inputs_def)
  from frame obtain r where r: "SolveJointsSoA 4 empty_packed ?b 2 ?c 2 2 ?s = Some r" by auto
  obtain metric bodies' s' jp' where r': "r = (metric, bodies', s', jp')" by (cases r)
  from frame r [unfolded r']
  have kept: "(\<forall>i. body_kept (bodies' i) = body_kept resting_body) \<and>
      (\<forall>i. 2 \<le> i \<longrightarrow> bodies' i = resting_body) \<and>
      (\<forall>i < 2.
         RigidBody.velocity (bodies' i) = velocity (data (solveBodiesImpulse s') i) \<and>
         RigidBody.angularVelocity (bodies' i) = angularVelocity (data (solveBodiesImpulse s') i) \<and>
         displacingVelocity (bodies' i) = velocity (data (solveBodiesDisplacement s') i) \<and>
         displacingAngularVelocity (bodies' i)
           = angularVelocity (data (solveBodiesDisplacement s') i))"
    by blast
  from frame same have eq: "solve_states 4 empty_packed ?b2 2 ?c 2 2 ?s
      = solve_states 4 empty_packed ?b 2 ?c 2 2 ?s" by blast
  from r [unfolded r'] kept
  have ex: "\<exists>metric bodies' s' jp'.
      SolveJointsSoA 4 empty_packed ?b 2 ?c 2 2 ?s = Some (metric, bodies', s', jp') \<and>
      (\<forall>i. body_kept (bodies' i) = body_kept resting_body) \<and>
      (\<forall>i. 2 \<le> i \<longrightarrow> bodies' i = resting_body) \<and>
      (\<forall>i < 2.
         RigidBody.velocity (bodies' i) = velocity (data (solveBodiesImpulse s') i) \<and>
         RigidBody.angularVelocity (bodies' i) = angularVelocity (data (solveBodiesImpulse s') i) \<and>
         displacingVelocity (bodies' i) = velocity (data (solveBodiesDisplacement s') i) \<and>
         displacingAngularVelocity (bodies' i)
           = angularVelocity (data (solveBodiesDisplacement s') i))"
    by blast
  have pos: "0 < (4::nat)" by simp
  have same': "body_inputs (resting_body\<lparr>RigidBody.lastIteration := 7\<rparr>) = body_inputs resting_body"
    by (simp add: body_inputs_def)
  from pos ex same' eq show ?thesis by (intro conjI)
qed

section \<open>The postcondition of the refresh\<close>

lemma refresh_lane_idem:
  "refresh_lane b1 b2 p1 p2 c (refresh_lane b1 b2 p1 p2 c j) = refresh_lane b1 b2 p1 p2 c j"
  by (simp add: refresh_lane_def Let_def)

lemma refresh_of_idem: "refresh_of s cps (refresh_of s cps j) = refresh_of s cps j"
  by (simp add: refresh_of_def refresh_lane_fields refresh_lane_idem)

lemma refresh_once:
  fixes st :: soa_state
  assumes "data (snd st) k l = j \<or> data (snd st) k l = refresh_of (fst st) cps j"
  shows "data (snd (for_joints VN (RefreshJointsSoA_step VN N cps) b e st)) k l = j \<or>
         data (snd (for_joints VN (RefreshJointsSoA_step VN N cps) b e st)) k l
           = refresh_of (fst st) cps j"
proof -
  let ?P = "\<lambda>st' :: soa_state. fst st' = fst st \<and>
      (data (snd st') k l = j \<or> data (snd st') k l = refresh_of (fst st) cps j)"
  have "?P (for_joints VN (RefreshJointsSoA_step VN N cps) b e st)"
  proof (rule for_joints_invariant [where P = ?P])
    fix i st' assume p: "?P st'"
    obtain s1 jp1 where st': "st' = (s1, jp1)" by (cases st')
    obtain jp2 where r: "RefreshJointsSoA_step VN N cps i (s1, jp1) = (s1, jp2)"
      using refresh_step_fst [of VN N cps i "(s1, jp1)"]
      by (cases "RefreshJointsSoA_step VN N cps i (s1, jp1)") simp
    from p st' have s1: "s1 = fst st"
      and t: "data jp1 k l = j \<or> data jp1 k l = refresh_of s1 cps j" by simp_all
    have "data jp2 k l = j \<or> data jp2 k l = refresh_of s1 cps j"
      using refresh_step_data [OF r, of k l] t by (auto simp: refresh_of_idem)
    with s1 r st' show "?P (RefreshJointsSoA_step VN N cps i st')" by simp
  next
    show "?P st" using assms by simp
  qed
  then show ?thesis by simp
qed

lemma refreshed_exact:
  assumes Npos: "0 < N" and i: "i < length (contactJoints s)"
  shows "slot N (snd (refreshed N go cps (s, jp))) i = refresh_of s cps (slot N jp i)"
proof -
  let ?k = "i div N" and ?l = "i AND (N - 1)"
  let ?st1 = "RefreshJointsSoA N N 0 go cps (s, jp)"
  have f1: "fst ?st1 = s" by (simp add: RefreshJointsSoA_fst)
  have a: "data (snd ?st1) ?k ?l = data jp ?k ?l \<or>
           data (snd ?st1) ?k ?l = refresh_of s cps (data jp ?k ?l)"
    unfolding RefreshJointsSoA_def
    using refresh_once [of "(s, jp)" ?k ?l "data jp ?k ?l" cps N N 0 go] by simp
  have b: "data (snd (refreshed N go cps (s, jp))) ?k ?l = data jp ?k ?l \<or>
           data (snd (refreshed N go cps (s, jp))) ?k ?l = refresh_of s cps (data jp ?k ?l)"
    unfolding refreshed_def RefreshJointsSoA_def fst_conv
    using refresh_once [of ?st1 ?k ?l "data jp ?k ?l" cps 1 N go "length (contactJoints s)"] a f1
    by (simp add: RefreshJointsSoA_def)
  from refreshed_covers [OF Npos i, of cps go jp]
  obtain j0 where c: "data (snd (refreshed N go cps (s, jp))) ?k ?l = refresh_of s cps j0"
    by (auto simp: is_refreshed_def slot_def)
  from b show ?thesis
  proof
    assume same: "data (snd (refreshed N go cps (s, jp))) ?k ?l = data jp ?k ?l"
    with c have "data jp ?k ?l = refresh_of s cps j0" by simp
    then have "refresh_of s cps (data jp ?k ?l) = data jp ?k ?l" by (simp add: refresh_of_idem)
    with same show ?thesis by (simp add: slot_def)
  next
    assume "data (snd (refreshed N go cps (s, jp))) ?k ?l = refresh_of s cps (data jp ?k ?l)"
    then show ?thesis by (simp add: slot_def)
  qed
qed

lemma refresh_lane_targets:
  "normalLimiter_dstVelocity (refresh_lane body1 body2 params1 params2 collision j)
     = (if contact_depth params1 params2 collision < 1
        then max (contact_dv body1 body2 params1 params2 collision - 1) 0 - 1 / 10
        else max (contact_dv body1 body2 params1 params2 collision - 1) 0)"
  "normalLimiter_dstDisplacingVelocity (refresh_lane body1 body2 params1 params2 collision j)
     = 1 / 10 * max 0 (contact_depth params1 params2 collision - 2 * 1)"
  by (simp_all add: refresh_lane_def contact_depth_def contact_dv_def Let_def select_def)

text \<open>
  C7. Refresh postcondition. For every joint \<open>i\<close> of the solver (lane width \<open>N \<ge> 1\<close>), let
  \<open>j\<close> be its lane before and \<open>j'\<close> its lane after the two \<open>RefreshJointsSoA\<close> calls of a
  solve, and let \<open>dv\<close> and \<open>depth\<close> be the bounce velocity and the penetration depth that
  the loop body computes from the joint's two bodies and its contact point. With
  \<open>deltaVelocity = 1\<close>, \<open>maxPenetrationVelocity = 0.1\<close>, \<open>deltaDepth = 1\<close>,
  \<open>errorReduction = 0.1\<close> (and \<open>bounce = 0\<close> inside \<open>dv\<close>) and
  \<open>dstVel_raw = max (dv - deltaVelocity) 0\<close>: \<open>dstVelocity\<close> is
  \<open>dstVel_raw - maxPenetrationVelocity\<close> when \<open>depth < deltaDepth\<close> and \<open>dstVel_raw\<close>
  otherwise, \<open>dstDisplacingVelocity\<close> is \<open>errorReduction * max 0 (depth - 2 * deltaDepth)\<close>,
  \<open>accumulatedDisplacingImpulse\<close> is 0, and the accumulated impulses of the normal and of
  the friction limiter are those of \<open>j\<close>.
\<close>

theorem refresh_postcondition:
  assumes "0 < N" and "i < length (contactJoints s)"
  shows "let j = slot N joint_packed i;
             j' = slot N (snd (refreshed N groupOffset contactPoints (s, joint_packed))) i;
             body1 = data (solveBodiesImpulse s) (p_body1Index j);
             body2 = data (solveBodiesImpulse s) (p_body2Index j);
             params1 = data (solveBodiesParams s) (p_body1Index j);
             params2 = data (solveBodiesParams s) (p_body2Index j);
             collision = contactPoints (contactPointIndex j);
             deltaVelocity = 1; maxPenetrationVelocity = 1 / 10;
             deltaDepth = 1; errorReduction = 1 / 10;
             dv = contact_dv body1 body2 params1 params2 collision;
             depth = contact_depth params1 params2 collision;
             dstVel_raw = max (dv - deltaVelocity) 0
         in normalLimiter_dstVelocity j'
              = (if depth < deltaDepth then dstVel_raw - maxPenetrationVelocity else dstVel_raw) \<and>
            normalLimiter_dstDisplacingVelocity j' = errorReduction * max 0 (depth - 2 * deltaDepth) \<and>
            normalLimiter_accumulatedDisplacingImpulse j' = 0 \<and>
            normalLimiter_accumulatedImpulse j' = normalLimiter_accumulatedImpulse j \<and>
            frictionLimiter_accumulatedImpulse j' = frictionLimiter_accumulatedImpulse j"
  unfolding Let_def refreshed_exact [OF assms] refresh_of_def
  by (simp only: refresh_lane_targets refresh_lane_fields)

theorem refresh_postcondition_witness:
  "0 < (4::nat) \<and> 0 < length (contactJoints (fresh_solver [joint_between 0 1])) \<and>
   normalLimiter_dstVelocity
     (slot 4 (snd (refreshed 4 0 (\<lambda>_. flat_contact)
        (fresh_solver [joint_between 0 1], pairs_block))) 0) = - (1 / 10) \<and>
   normalLimiter_dstDisplacingVelocity
     (slot 4 (snd (refreshed 4 0 (\<lambda>_. flat_contact)
        (fresh_solver [joint_between 0 1], pairs_block))) 0) = 0 \<and>
   normalLimiter_accumulatedDisplacingImpulse
     (slot 4 (snd (refreshed 4 0 (\<lambda>_. flat_contact)
        (fresh_solver [joint_between 0 1], pairs_block))) 0) = 0 \<and>
   normalLimiter_dstVelocity
     (slot 4 (snd (refreshed 4 0 (\<lambda>_. deep_contact)
        (fresh_solver [joint_between 0 1], pairs_block))) 0) = 0 \<and>
   normalLimiter_dstDisplacingVelocity
     (slot 4 (snd (refreshed 4 0 (\<lambda>_. deep_contact)
        (fresh_solver [joint_between 0 1], pairs_block))) 0) = 1 / 10"
proof -
  let ?s = "fresh_solver [joint_between 0 1]"
  have h1: "0 < (4::nat)" by simp
  have h2: "0 < length (contactJoints ?s)" by (simp add: fresh_solver_def)
  have j: "slot 4 pairs_block 0 = pack_joint (joint_between 0 (Suc 0)) zero_lane"
    by (simp add: slot_def pairs_block_def)
  have idx: "p_body1Index (pack_joint (joint_between a b) z) = a"
    "p_body2Index (pack_joint (joint_between a b) z) = b"
    "contactPointIndex (pack_joint (joint_between a b) z) = 0" for a b z
    by (simp_all add: pack_joint_def joint_between_def)
  have tab: "data (solveBodiesParams (fresh_solver cj)) k = zero_params" for cj k
    by (simp add: fresh_solver_def empty_array_def)
  have flat: "contact_depth zero_params zero_params flat_contact = 0"
    "contact_dv b1 b2 zero_params zero_params flat_contact = 0" for b1 b2
    by (simp_all add: contact_depth_def contact_dv_def Let_def zero_params_def flat_contact_def
        zero_vector_def)
  have deep: "contact_depth zero_params zero_params deep_contact = 3"
    "contact_dv b1 b2 zero_params zero_params deep_contact = 0" for b1 b2
    by (simp_all add: contact_depth_def contact_dv_def Let_def zero_params_def deep_contact_def
        zero_vector_def)
  from refresh_postcondition [OF h1 h2, of pairs_block 0 "\<lambda>_. flat_contact"]
  have a: "normalLimiter_dstVelocity
     (slot 4 (snd (refreshed 4 0 (\<lambda>_. flat_contact) (?s, pairs_block))) 0) = - (1 / 10) \<and>
   normalLimiter_dstDisplacingVelocity
     (slot 4 (snd (refreshed 4 0 (\<lambda>_. flat_contact) (?s, pairs_block))) 0) = 0 \<and>
   normalLimiter_accumulatedDisplacingImpulse
     (slot 4 (snd (refreshed 4 0 (\<lambda>_. flat_contact) (?s, pairs_block))) 0) = 0"
    by (simp add: Let_def j idx tab flat)
  from refresh_postcondition [OF h1 h2, of pairs_block 0 "\<lambda>_. deep_contact"]
  have b: "normalLimiter_dstVelocity
     (slot 4 (snd (refreshed 4 0 (\<lambda>_. deep_contact) (?s, pairs_block))) 0) = 0 \<and>
   normalLimiter_dstDisplacingVelocity
     (slot 4 (snd (refreshed 4 0 (\<lambda>_. deep_contact) (?s, pairs_block))) 0) = 1 / 10"
    by (simp add: Let_def j idx tab deep)
  from h1 h2 a b show ?thesis by blast
qed

section \<open>The iteration metric of an empty solve\<close>

lemma closed_any: "lane_closed (\<lambda>_. True)"
  by (simp add: lane_closed_def)

lemma solve_states_joints:
  assumes "solve_states N jp bodies bc cps cIt pIt s = Some states" and "0 < N"
  shows "states \<noteq> [] \<and> (\<forall>st \<in> set states. contactJoints (fst st) = contactJoints s)"
proof -
  from solve_states_invariant [OF assms(2) closed_any, of s jp bodies bc cps cIt pIt]
  obtain go s0 jp0 rest where
    st: "solve_states N jp bodies bc cps cIt pIt s
          = Some ((s0, jp0) # refreshed N go cps (s0, jp0) # rest)"
    and cj: "contactJoints s0 = contactJoints s"
    and al: "\<forall>st \<in> set ((s0, jp0) # refreshed N go cps (s0, jp0) # rest).
         static (fst st) = static s0 \<and>
         (\<forall>i < length (contactJoints s). True)"
    by auto
  from st assms(1) have eq: "states = (s0, jp0) # refreshed N go cps (s0, jp0) # rest" by simp
  have "contactJoints (fst st) = contactJoints s" if "st \<in> set states" for st
  proof -
    from that al eq have "static (fst st) = static s0" by blast
    then show ?thesis using cj by (simp add: static_def)
  qed
  with eq show ?thesis by simp
qed

lemma SolveFinishSoA_empty:
  "contactJoints s = [] \<Longrightarrow> fst (SolveFinishSoA N jp bodies bc s) = NaN"
  by (simp add: SolveFinishSoA_def Let_def float_div_def)

lemma SolveJointsSoA_empty:
  assumes "0 < N" and "contactJoints s = []"
  shows "map_option fst (SolveJointsSoA N jp bodies bc cps cIt pIt s) = Some NaN"
proof -
  from SolvePrepareSoA_returns [OF assms(1), of jp bodies bc s]
  obtain r where "SolvePrepareSoA N jp bodies bc N s = Some r" by blast
  then obtain states where st: "solve_states N jp bodies bc cps cIt pIt s = Some states"
    by (cases r) (simp add: solve_states_def Let_def)
  from solve_states_joints [OF st assms(1)] have "contactJoints (fst (last states)) = contactJoints s"
    by simp
  with assms(2) have e: "contactJoints (fst (last states)) = []" by simp
  from SolveJointsSoA_last [OF st] obtain metric bodies' s' where
    r: "SolveJointsSoA N jp bodies bc cps cIt pIt s = Some (metric, bodies', s', snd (last states))"
    and f: "(metric, bodies', s') = SolveFinishSoA N (snd (last states)) bodies bc (fst (last states))"
    by blast
  from f have "metric = fst (SolveFinishSoA N (snd (last states)) bodies bc (fst (last states)))"
    by (metis fst_conv)
  with SolveFinishSoA_empty [OF e] have "metric = NaN" by simp
  with r show ?thesis by simp
qed

text \<open>
  C4. The claim says that a solve with an empty joint list returns the iteration metric
  0.0. The code computes \<open>float(iterationSum) / float(jointCount)\<close> with both operands 0:
  the SoA solve (here with four lanes, on two bodies) and \<open>SolveFinishAoS\<close> return NaN,
  which is not 0.0.
\<close>

theorem empty_solve_metric:
  "map_option fst (SolveJointsSoA 4 empty_packed resting_bodies 2 flat_contacts 15 15
       (fresh_solver [])) = Some NaN \<and>
   SolveFinishAoS resting_bodies [] = NaN \<and>
   NaN \<noteq> Finite 0"
proof -
  have "map_option fst (SolveJointsSoA 4 empty_packed resting_bodies 2 flat_contacts 15 15
       (fresh_solver [])) = Some NaN"
    by (rule SolveJointsSoA_empty) (simp_all add: fresh_solver_def)
  moreover have "SolveFinishAoS resting_bodies [] = NaN"
    by (simp add: SolveFinishAoS_def float_div_def)
  ultimately show ?thesis by simp
qed

section \<open>The length of the packed joint table\<close>

lemma SolvePrepareSoA_result:
  assumes "SolvePrepareSoA N jp bodies bc g s = Some (go, s', jp')"
  shows "jp' = fold (copy_joint N s') [0..<length (contactJoints s)]
                 (resize (length (contactJoints s)) jp)"
  using assms
  by (auto simp: SolvePrepareSoA_def Let_def copy_body_frame split: option.splits)

lemma SolvePrepareSoA_returns_any:
  assumes "0 < g"
  shows "\<exists>r. SolvePrepareSoA N jp bodies bc g s = Some r"
proof -
  let ?s3 = "prepared bc bodies s"
  from SolvePrepareIndicesSoA_returns [OF assms, of bc ?s3]
  obtain go s4 where "SolvePrepareIndicesSoA bc g ?s3 = Some (go, s4)" by blast
  then show ?thesis
    by (simp add: SolvePrepareSoA_def prepared_def Let_def)
qed

lemma block_below_ceil: "0 < N \<Longrightarrow> i < n \<Longrightarrow> i div N < (n + N - 1) div N" for i n N :: nat
proof -
  assume N: "0 < N" and i: "i < n"
  have "i div N * N \<le> i" by simp
  with i N have "i div N * N + N \<le> n + N - 1" by linarith
  then have "(i div N + 1) * N \<le> n + N - 1" by (simp add: algebra_simps)
  then have "((i div N + 1) * N) div N \<le> (n + N - 1) div N" by (rule div_le_mono)
  with N show ?thesis by simp
qed

text \<open>
  C5, as amended. \<open>SolvePrepareSoA\<close> returns whenever \<open>groupSizeTarget \<ge> 1\<close>, and after
  it the packed joint table has the length \<open>jointCount\<close> (line 260 resizes it to the number
  of joints, not of blocks). For a lane width \<open>N \<ge> 1\<close> the joints occupy its first
  \<open>ceil(jointCount / N)\<close> records (joint \<open>i\<close> is in record \<open>i div N\<close>), and the records
  from \<open>ceil(jointCount / N)\<close> on are left as they were.
\<close>

theorem packed_length:
  "(0 < groupSizeTarget \<longrightarrow>
      (\<exists>r. SolvePrepareSoA N joint_packed bodies bodiesCount groupSizeTarget s = Some r)) \<and>
   (\<forall>groupOffset s' joint_packed'.
      SolvePrepareSoA N joint_packed bodies bodiesCount groupSizeTarget s
        = Some (groupOffset, s', joint_packed') \<longrightarrow>
      asize joint_packed' = length (contactJoints s) \<and>
      (0 < N \<longrightarrow>
         (\<forall>i < length (contactJoints s). i div N < (length (contactJoints s) + N - 1) div N) \<and>
         (\<forall>k. (length (contactJoints s) + N - 1) div N \<le> k \<longrightarrow>
              data joint_packed' k = data joint_packed k)))"
proof (intro conjI impI allI)
  assume "0 < groupSizeTarget"
  then show "\<exists>r. SolvePrepareSoA N joint_packed bodies bodiesCount groupSizeTarget s = Some r"
    by (rule SolvePrepareSoA_returns_any)
next
  fix groupOffset s' joint_packed'
  assume "SolvePrepareSoA N joint_packed bodies bodiesCount groupSizeTarget s
        = Some (groupOffset, s', joint_packed')"
  note jp' = SolvePrepareSoA_result [OF this]
  show "asize joint_packed' = length (contactJoints s)"
    by (simp add: jp' copy_joints_asize)
  { fix i assume "0 < N" "i < length (contactJoints s)"
    then show "i div N < (length (contactJoints s) + N - 1) div N" by (rule block_below_ceil) }
  { fix k assume N: "0 < N" and k: "(length (contactJoints s) + N - 1) div N \<le> k"
    have "\<forall>i \<in> set [0..<length (contactJoints s)]. i div N \<noteq> k"
      using block_below_ceil [OF N] k by fastforce
    from copy_joints_untouched [OF this]
    show "data joint_packed' k = data joint_packed k" by (simp add: jp') }
qed

text \<open>
  C5 as stated fails for two joints and four lanes: the table has two records, and
  \<open>ceil(2 / 4) = 1\<close>.
\<close>

theorem packed_length_counterexample:
  "map_option (asize \<circ> snd \<circ> snd) (SolvePrepareSoA 4 empty_packed resting_bodies 3 4
       (fresh_solver two_joints)) = Some 2 \<and>
   length (contactJoints (fresh_solver two_joints)) = 2 \<and>
   (2 + 4 - 1) div 4 = (1::nat)"
proof -
  let ?s = "fresh_solver two_joints"
  have len: "length (contactJoints ?s) = 2" by (simp add: fresh_solver_def two_joints_def)
  from SolvePrepareSoA_returns_any [of 4 4 empty_packed resting_bodies 3 ?s]
  obtain r where r: "SolvePrepareSoA 4 empty_packed resting_bodies 3 4 ?s = Some r" by auto
  obtain go s' jp' where r': "r = (go, s', jp')" by (cases r)
  from SolvePrepareSoA_result [OF r [unfolded r']] have "asize jp' = 2"
    by (simp add: copy_joints_asize len)
  with r r' len show ?thesis by simp
qed

theorem packed_length_witness:
  "0 < (4::nat) \<and>
   (\<exists>groupOffset s' joint_packed'.
      SolvePrepareSoA 4 empty_packed resting_bodies 3 4 (fresh_solver two_joints)
        = Some (groupOffset, s', joint_packed') \<and>
      asize joint_packed' = length (contactJoints (fresh_solver two_joints)) \<and>
      (\<forall>i < length (contactJoints (fresh_solver two_joints)).
          i div 4 < (length (contactJoints (fresh_solver two_joints)) + 4 - 1) div 4) \<and>
      (\<forall>k. (length (contactJoints (fresh_solver two_joints)) + 4 - 1) div 4 \<le> k \<longrightarrow>
          data joint_packed' k = data empty_packed k))"
proof -
  let ?s = "fresh_solver two_joints"
  have pos: "0 < (4::nat)" by simp
  note t = packed_length [of 4 4 empty_packed resting_bodies 3 ?s]
  from t pos obtain r where r: "SolvePrepareSoA 4 empty_packed resting_bodies 3 4 ?s = Some r"
    by blast
  obtain go s' jp' where r': "r = (go, s', jp')" by (cases r)
  from t r [unfolded r'] pos
  have "asize jp' = length (contactJoints ?s) \<and>
      (\<forall>i < length (contactJoints ?s). i div 4 < (length (contactJoints ?s) + 4 - 1) div 4) \<and>
      (\<forall>k. (length (contactJoints ?s) + 4 - 1) div 4 \<le> k \<longrightarrow> data jp' k = data empty_packed k)"
    by blast
  with r [unfolded r'] have "\<exists>groupOffset s' joint_packed'.
      SolvePrepareSoA 4 empty_packed resting_bodies 3 4 ?s = Some (groupOffset, s', joint_packed') \<and>
      asize joint_packed' = length (contactJoints ?s) \<and>
      (\<forall>i < length (contactJoints ?s). i div 4 < (length (contactJoints ?s) + 4 - 1) div 4) \<and>
      (\<forall>k. (length (contactJoints ?s) + 4 - 1) div 4 \<le> k \<longrightarrow>
          data joint_packed' k = data empty_packed k)"
    by blast
  with pos show ?thesis by (intro conjI)
qed

section \<open>Zero composite mass\<close>

lemma impulse_lane_steps:
  "impulse_lane it b1 b2 j
     = friction_impulse_step it (normalDeltaImpulse_of b1 b2 j) (normal_impulse_step b1 b2 j)"
  by (simp add: impulse_lane_def normal_impulse_step_def friction_impulse_step_def Let_def)

lemma RefreshLimiter_zero:
  "compMass_of n1X n1Y n2X n2Y w1X w1Y w2X w2Y m1 i1 m2 i2 = 0 \<Longrightarrow>
   compInvMassV (RefreshLimiter n1X n1Y n2X n2Y w1X w1Y w2X w2Y m1 i1 m2 i2) = 0"
  by (simp add: compMass_of_def RefreshLimiter_def Let_def select_def)

lemma normal_delta_zero:
  "normalLimiter_compInvMass j = 0 \<Longrightarrow> 0 \<le> normalLimiter_accumulatedImpulse j \<Longrightarrow>
   normalDeltaImpulse_of b1 b2 j = 0"
  by (simp add: normalDeltaImpulse_of_def Let_def)

lemma vector_eta: "\<lparr>x = x v, y = y v\<rparr> = v" for v :: Vector2f
  by simp

lemma body_eta:
  "\<lparr>velocity = \<lparr>x = x (velocity b), y = y (velocity b)\<rparr>,
    angularVelocity = angularVelocity b, lastIteration = lastIteration b\<rparr> = b" for b :: SolveBody
  by simp

lemma normal_step_noop:
  assumes "normalLimiter_compInvMass j = 0" and "0 \<le> normalLimiter_accumulatedImpulse j"
  shows "normal_impulse_step b1 b2 j = (b1, b2, j)"
  by (simp add: normal_impulse_step_def Let_def normal_delta_zero [OF assms])

lemma friction_step_noop:
  assumes "frictionLimiter_compInvMass j = 0"
    and "\<bar>frictionLimiter_accumulatedImpulse j\<bar> \<le> kFrictionCoefficient * normalLimiter_accumulatedImpulse j"
  shows "friction_impulse_step it 0 (b1, b2, j)
     = \<lparr>body1_out = b1, body2_out = b2, lane_out = j, productive_out = False\<rparr>"
  using assms
  by (simp add: friction_impulse_step_def Let_def select_def kProductiveImpulse_def mult.commute)

lemma impulse_lane_noop:
  assumes "normalLimiter_compInvMass j = 0" and "0 \<le> normalLimiter_accumulatedImpulse j"
    and "frictionLimiter_compInvMass j = 0"
    and "\<bar>frictionLimiter_accumulatedImpulse j\<bar> \<le> kFrictionCoefficient * normalLimiter_accumulatedImpulse j"
  shows "impulse_lane it b1 b2 j
     = \<lparr>body1_out = b1, body2_out = b2, lane_out = j, productive_out = False\<rparr>"
  by (simp only: impulse_lane_steps normal_step_noop [OF assms(1,2)] normal_delta_zero [OF assms(1,2)]
      friction_step_noop [OF assms(3,4)])

lemma displacement_lane_noop:
  assumes "normalLimiter_compInvMass j = 0" and "0 \<le> normalLimiter_accumulatedDisplacingImpulse j"
  shows "displacement_lane it b1 b2 j
     = \<lparr>body1_out = b1, body2_out = b2, lane_out = j, productive_out = False\<rparr>"
  using assms
  by (simp add: displacement_lane_def Let_def select_def kProductiveImpulse_def)

text \<open>
  C6, as amended. Zero composite mass is handled in-band: a limiter whose composite mass
  computed in \<open>RefreshLimiter\<close> is 0 gets \<open>compInvMass = 0\<close>. For a lane whose normal
  limiter has \<open>compInvMass = 0\<close> and an accumulated impulse \<open>\<ge> 0\<close> on entry, the normal
  impulse of an impulse iteration is 0 and leaves both bodies and the lane unchanged; the
  friction impulse that follows in the same iteration is that of the friction limiter on
  this unchanged state. The whole impulse iteration leaves both bodies (velocities and
  \<open>lastIteration\<close>) and the lane unchanged, and is not productive, if moreover the friction
  limiter has \<open>compInvMass = 0\<close> and the accumulated friction impulse is inside the cone on
  entry. A displacement iteration on a lane with \<open>compInvMass = 0\<close> and an accumulated
  displacing impulse \<open>\<ge> 0\<close> on entry leaves both bodies and the lane unchanged and is not
  productive.
\<close>

theorem zero_composite_mass:
  "(compMass_of n1X n1Y n2X n2Y w1X w1Y w2X w2Y body1_invMass body1_invInertia body2_invMass body2_invInertia = 0 \<longrightarrow>
      compInvMassV (RefreshLimiter n1X n1Y n2X n2Y w1X w1Y w2X w2Y
         body1_invMass body1_invInertia body2_invMass body2_invInertia) = 0) \<and>
   (normalLimiter_compInvMass j = 0 \<and> 0 \<le> normalLimiter_accumulatedImpulse j \<longrightarrow>
      normalDeltaImpulse_of body1 body2 j = 0 \<and>
      normal_impulse_step body1 body2 j = (body1, body2, j)) \<and>
   (normalLimiter_compInvMass j = 0 \<and> 0 \<le> normalLimiter_accumulatedImpulse j \<and>
    frictionLimiter_compInvMass j = 0 \<and>
    \<bar>frictionLimiter_accumulatedImpulse j\<bar> \<le> kFrictionCoefficient * normalLimiter_accumulatedImpulse j \<longrightarrow>
      impulse_lane iterationIndex body1 body2 j
        = \<lparr>body1_out = body1, body2_out = body2, lane_out = j, productive_out = False\<rparr>) \<and>
   (normalLimiter_compInvMass j = 0 \<and> 0 \<le> normalLimiter_accumulatedDisplacingImpulse j \<longrightarrow>
      displacement_lane iterationIndex body1 body2 j
        = \<lparr>body1_out = body1, body2_out = body2, lane_out = j, productive_out = False\<rparr>) \<and>
   impulse_lane iterationIndex body1 body2 j
     = friction_impulse_step iterationIndex (normalDeltaImpulse_of body1 body2 j)
         (normal_impulse_step body1 body2 j)"
proof (intro conjI impI)
  assume "compMass_of n1X n1Y n2X n2Y w1X w1Y w2X w2Y body1_invMass body1_invInertia body2_invMass body2_invInertia = 0"
  then show "compInvMassV (RefreshLimiter n1X n1Y n2X n2Y w1X w1Y w2X w2Y
         body1_invMass body1_invInertia body2_invMass body2_invInertia) = 0"
    by (rule RefreshLimiter_zero)
next
  assume a: "normalLimiter_compInvMass j = 0 \<and> 0 \<le> normalLimiter_accumulatedImpulse j"
  from a show "normalDeltaImpulse_of body1 body2 j = 0" by (simp add: normal_delta_zero)
  from a show "normal_impulse_step body1 body2 j = (body1, body2, j)"
    by (simp add: normal_step_noop)
next
  assume "normalLimiter_compInvMass j = 0 \<and> 0 \<le> normalLimiter_accumulatedImpulse j \<and>
    frictionLimiter_compInvMass j = 0 \<and>
    \<bar>frictionLimiter_accumulatedImpulse j\<bar> \<le> kFrictionCoefficient * normalLimiter_accumulatedImpulse j"
  then show "impulse_lane iterationIndex body1 body2 j
        = \<lparr>body1_out = body1, body2_out = body2, lane_out = j, productive_out = False\<rparr>"
    by (simp add: impulse_lane_noop)
next
  assume "normalLimiter_compInvMass j = 0 \<and> 0 \<le> normalLimiter_accumulatedDisplacingImpulse j"
  then show "displacement_lane iterationIndex body1 body2 j
        = \<lparr>body1_out = body1, body2_out = body2, lane_out = j, productive_out = False\<rparr>"
    by (simp add: displacement_lane_noop)
next
  show "impulse_lane iterationIndex body1 body2 j
     = friction_impulse_step iterationIndex (normalDeltaImpulse_of body1 body2 j)
         (normal_impulse_step body1 body2 j)"
    by (rule impulse_lane_steps)
qed

lemma static_lane_fields:
  "normalLimiter_compInvMass (static_lane n f) = 0"
  "frictionLimiter_compInvMass (static_lane n f) = 0"
  "normalLimiter_accumulatedImpulse (static_lane n f) = n"
  "frictionLimiter_accumulatedImpulse (static_lane n f) = f"
  "normalLimiter_accumulatedDisplacingImpulse (static_lane n f) = 0"
  "normalLimiter_dstVelocity (static_lane n f) = - (1 / 10)"
  "normalLimiter_normalProjector1Y (static_lane n f) = 1"
  by (simp_all add: static_lane_def refresh_lane_def RefreshLimiter_def Let_def select_def
      zero_params_def zero_solve_body_def flat_contact_def zero_vector_def)

lemma rotor_lane_fields:
  "normalLimiter_compInvMass rotor_lane = 0"
  "normalLimiter_accumulatedImpulse rotor_lane = 10"
  "frictionLimiter_accumulatedImpulse rotor_lane = 0"
  "frictionLimiter_compInvMass rotor_lane = 1"
  "normalLimiter_compMass1_angular rotor_lane = 0"
  "frictionLimiter_compMass1_angular rotor_lane = - 1"
  "frictionLimiter_angularProjector1 rotor_lane = - 1"
  "frictionLimiter_normalProjector1X rotor_lane = - 1"
  "frictionLimiter_normalProjector1Y rotor_lane = 0"
  "frictionLimiter_normalProjector2X rotor_lane = 1"
  "frictionLimiter_normalProjector2Y rotor_lane = 0"
  "frictionLimiter_angularProjector2 rotor_lane = 1"
  by (simp_all add: rotor_lane_def refresh_lane_def RefreshLimiter_def Let_def select_def
      rotor_params_def zero_params_def zero_solve_body_def top_contact_def zero_vector_def
      zero_lane_def pack_joint_def joint_between_def zero_limiter_def zero_normal_limiter_def)

lemma rotor_mass:
  "compMass_of 0 1 0 (- 1) 0 1 0 1 0 1 0 0 = 0"
  by (simp add: compMass_of_def Let_def)

lemma rotor_friction:
  "angularVelocity (body1_out (impulse_lane 0 spinning_body zero_solve_body rotor_lane)) = 0"
  "frictionLimiter_accumulatedImpulse (lane_out (impulse_lane 0 spinning_body zero_solve_body rotor_lane)) = 1"
  by (simp_all add: impulse_lane_def normalDeltaImpulse_of_def Let_def select_def flipsign_def
      rotor_lane_fields spinning_body_def zero_solve_body_def zero_vector_def
      kFrictionCoefficient_def)

lemma static_friction:
  "frictionLimiter_accumulatedImpulse
     (lane_out (impulse_lane 0 zero_solve_body zero_solve_body (static_lane 0 1))) = 0"
  by (simp add: impulse_lane_def normalDeltaImpulse_of_def Let_def select_def flipsign_def
      static_lane_fields kFrictionCoefficient_def)

text \<open>
  C6 as stated fails. A body held at its centre (no inverse mass, inverse inertia 1) that
  touches a static body straight above its centre has the composite mass 0 in the normal
  limiter and 1 in the friction limiter; with the accumulated normal impulse 10 (\<open>\<ge> 0\<close>)
  an impulse iteration leaves the normal impulse alone, but its friction impulse stops
  the spinning body (angular velocity 1 before, 0 after) and the accumulated friction
  impulse goes from 0 to 1. Between two static bodies both composite masses are 0, and an
  accumulated friction impulse 1 that enters outside the cone (normal impulse 0) is
  clamped to 0.
\<close>

theorem zero_composite_mass_counterexample:
  "compMass_of 0 1 0 (- 1) 0 1 0 1 0 1 0 0 = 0 \<and>
   normalLimiter_compInvMass rotor_lane = 0 \<and>
   normalLimiter_accumulatedImpulse rotor_lane = 10 \<and>
   frictionLimiter_accumulatedImpulse rotor_lane = 0 \<and>
   angularVelocity spinning_body = 1 \<and>
   angularVelocity (body1_out (impulse_lane 0 spinning_body zero_solve_body rotor_lane)) = 0 \<and>
   frictionLimiter_accumulatedImpulse
     (lane_out (impulse_lane 0 spinning_body zero_solve_body rotor_lane)) = 1 \<and>
   normalLimiter_compInvMass (static_lane 0 1) = 0 \<and>
   frictionLimiter_compInvMass (static_lane 0 1) = 0 \<and>
   normalLimiter_accumulatedImpulse (static_lane 0 1) = 0 \<and>
   frictionLimiter_accumulatedImpulse (static_lane 0 1) = 1 \<and>
   frictionLimiter_accumulatedImpulse
     (lane_out (impulse_lane 0 zero_solve_body zero_solve_body (static_lane 0 1))) = 0"
proof -
  have spin: "angularVelocity spinning_body = 1" by (simp add: spinning_body_def)
  show ?thesis
    by (simp add: rotor_mass rotor_lane_fields rotor_friction static_lane_fields static_friction
        spin)
qed

theorem zero_composite_mass_witness:
  "compMass_of 0 1 0 (- 1) 0 0 0 0 0 0 0 0 = 0 \<and>
   compInvMassV (RefreshLimiter 0 1 0 (- 1) 0 0 0 0 0 0 0 0) = 0 \<and>
   normalLimiter_compInvMass (static_lane 2 (1 / 2)) = 0 \<and>
   0 \<le> normalLimiter_accumulatedImpulse (static_lane 2 (1 / 2)) \<and>
   frictionLimiter_compInvMass (static_lane 2 (1 / 2)) = 0 \<and>
   \<bar>frictionLimiter_accumulatedImpulse (static_lane 2 (1 / 2))\<bar>
     \<le> kFrictionCoefficient * normalLimiter_accumulatedImpulse (static_lane 2 (1 / 2)) \<and>
   0 \<le> normalLimiter_accumulatedDisplacingImpulse (static_lane 2 (1 / 2)) \<and>
   normalDeltaImpulse_of moving_body zero_solve_body (static_lane 2 (1 / 2)) = 0 \<and>
   normal_impulse_step moving_body zero_solve_body (static_lane 2 (1 / 2))
     = (moving_body, zero_solve_body, static_lane 2 (1 / 2)) \<and>
   impulse_lane 3 moving_body zero_solve_body (static_lane 2 (1 / 2))
     = \<lparr>body1_out = moving_body, body2_out = zero_solve_body,
        lane_out = static_lane 2 (1 / 2), productive_out = False\<rparr> \<and>
   displacement_lane 3 moving_body zero_solve_body (static_lane 2 (1 / 2))
     = \<lparr>body1_out = moving_body, body2_out = zero_solve_body,
        lane_out = static_lane 2 (1 / 2), productive_out = False\<rparr>"
proof -
  let ?j = "static_lane 2 (1 / 2)"
  have k: "compMass_of 0 1 0 (- 1) 0 0 0 0 0 0 0 0 = 0" by (simp add: compMass_of_def Let_def)
  have n: "normalLimiter_compInvMass ?j = 0 \<and> 0 \<le> normalLimiter_accumulatedImpulse ?j"
    by (simp add: static_lane_fields)
  have f: "frictionLimiter_compInvMass ?j = 0 \<and>
      \<bar>frictionLimiter_accumulatedImpulse ?j\<bar>
        \<le> kFrictionCoefficient * normalLimiter_accumulatedImpulse ?j"
    by (simp add: static_lane_fields kFrictionCoefficient_def)
  have d: "0 \<le> normalLimiter_accumulatedDisplacingImpulse ?j" by (simp add: static_lane_fields)
  note t = zero_composite_mass [of 0 1 0 "- 1" 0 0 0 0 0 0 0 0 ?j moving_body zero_solve_body 3]
  from t k have "compInvMassV (RefreshLimiter 0 1 0 (- 1) 0 0 0 0 0 0 0 0) = 0" by blast
  moreover from t n have "normalDeltaImpulse_of moving_body zero_solve_body ?j = 0 \<and>
      normal_impulse_step moving_body zero_solve_body ?j = (moving_body, zero_solve_body, ?j)"
    by blast
  moreover from t n f have "impulse_lane 3 moving_body zero_solve_body ?j
     = \<lparr>body1_out = moving_body, body2_out = zero_solve_body, lane_out = ?j,
        productive_out = False\<rparr>" by blast
  moreover from t n d have "displacement_lane 3 moving_body zero_solve_body ?j
     = \<lparr>body1_out = moving_body, body2_out = zero_solve_body, lane_out = ?j,
        productive_out = False\<rparr>" by blast
  ultimately show ?thesis using k n f d by blast
qed

end
